theory Spec2Isabelle
  imports Complex_Main
begin

section \<open>A shallow embedding of the ocore wallet service\<close>

text \<open>
  The service is callback-driven JavaScript. Each operation is embedded as a function from
  the persistent storage (and the answers of the explorer and of the hub) to a result and
  the storage afterwards. An error handed to the callback, or an exception, is the left
  summand of the result. The storage driver and the wallet lock are taken to be reliable:
  a read or write never fails and a locked task always runs. Times are seconds since the
  epoch, as \<open>Math.floor(Date.now() / 1000)\<close> yields them.
\<close>

subsection \<open>Defaults (lib/common/defaults.js)\<close>

definition DELETE_LOCKTIME :: int where
  "DELETE_LOCKTIME = 600"

definition BACKOFF_OFFSET :: nat where
  "BACKOFF_OFFSET = 10"

definition BACKOFF_TIME :: int where
  "BACKOFF_TIME = 600"

definition MAX_MAIN_ADDRESS_GAP :: nat where
  "MAX_MAIN_ADDRESS_GAP = 20"

subsection \<open>Errors\<close>

datatype error =
    WALLET_NOT_FOUND | WALLET_ALREADY_EXISTS | WALLET_FULL | WALLET_NOT_COMPLETE | WALLET_NEED_SCAN
  | COPAYER_IN_WALLET | COPAYER_REGISTERED | COPAYER_VOTED
  | TX_NOT_FOUND | TX_NOT_PENDING | TX_ALREADY_ACCEPTED | TX_NOT_ACCEPTED
  | TX_ALREADY_BROADCASTED | TX_CANNOT_CREATE | TX_CANNOT_REMOVE
  | BAD_SIGNATURES | UNAVAILABLE_UTXOS | MAIN_ADDRESS_GAP_REACHED
  | NOT_AUTHORIZED string | UPGRADE_NEEDED string
  | ClientError string
  | ErrorMessage string
  | ExternalError string
  | Thrown string

text \<open>
  \<open>ErrorMessage\<close> is a bare string handed to the callback as the error;
  \<open>ExternalError\<close> is an error reported by the explorer or the hub; \<open>Thrown\<close> is a
  JavaScript exception that no handler of the operation catches (a failed
  \<open>$.checkState\<close>, a \<open>TypeError\<close>, a \<open>ReferenceError\<close>).
\<close>

subsection \<open>Objects with string keys\<close>

text \<open>
  A JavaScript object used as a dictionary is an association list; \<open>map_of\<close> reads a
  key, and the keys are counted without repetition, as \<open>Object.keys\<close> does.
\<close>

type_synonym 'v obj = "(string \<times> 'v) list"

definition obj_keys :: "'v obj \<Rightarrow> string list" where
  "obj_keys ob = remdups (map fst ob)"

definition obj_values :: "'v obj \<Rightarrow> 'v list" where
  "obj_values ob = map (\<lambda>k. the (map_of ob k)) (obj_keys ob)"

definition obj_set :: "'v obj \<Rightarrow> string \<Rightarrow> 'v \<Rightarrow> 'v obj" where
  "obj_set ob k v =
     (if k \<in> set (map fst ob) then map (\<lambda>(k', v'). if k' = k then (k', v) else (k', v')) ob
      else ob @ [(k, v)])"

subsection \<open>The draft unit of a proposal\<close>

text \<open>
  A field that the JavaScript object may lack is an option. An input of a payment names the
  output it spends by \<open>(unit, message_index, output_index)\<close>; an issue or a commission
  input has none of the three.
\<close>

record tx_input =
  in_unit :: "string option"
  in_message_index :: "nat option"
  in_output_index :: "nat option"

record tx_output =
  out_address :: string
  out_amount :: int

record payload =
  pl_inputs :: "tx_input list option"
  pl_outputs :: "tx_output list"

record message =
  msg_app :: string
  msg_payload :: "payload option"

record author =
  au_address :: string
  au_authentifiers :: "string obj"

record ounit =
  u_unit :: "string option"
  u_authors :: "author list"
  u_messages :: "message list"

subsection \<open>Proposal actions (lib/model/txproposalaction.js)\<close>

datatype action_type = Accept | Reject

type_synonym signatures = "(string obj) obj"

record txp_action =
  act_createdOn :: int
  act_copayerId :: string
  act_type :: action_type
  act_signatures :: "signatures option"
  act_xpub :: "string option"
  act_comment :: "string option"

definition TxProposalAction_create ::
  "int \<Rightarrow> string \<Rightarrow> action_type \<Rightarrow> signatures option \<Rightarrow> string option \<Rightarrow> string option \<Rightarrow> txp_action" where
  "TxProposalAction_create now copayerId type sigs xpub comment =
     \<lparr> act_createdOn = now, act_copayerId = copayerId, act_type = type,
       act_signatures = sigs, act_xpub = xpub, act_comment = comment \<rparr>"

subsection \<open>Transaction proposals (lib/model/txproposal.js)\<close>

datatype tx_status = Temporary | Pending | Accepted | Rejected | Broadcasted

record signing_info =
  si_walletId :: string
  si_path :: string
  si_signingPaths :: "string obj"

record txproposal =
  txp_id :: string
  txp_createdOn :: int
  txp_walletId :: string
  txp_creatorId :: string
  walletM :: int
  walletN :: int
  requiredSignatures :: int
  requiredRejections :: int
  txp_status :: tx_status
  txp_stable :: bool
  txp_actions :: "txp_action list"
  txp_unit :: ounit
  signingInfo :: "signing_info obj"
  txid :: "string option"
  broadcastedOn :: "int option"
  stableOn :: "int option"
  proposalSignature :: "string option"
  proposalSignaturePubKey :: "string option"
  proposalSignaturePubKeySig :: "string option"

record txp_opts =
  o_id :: string
  o_walletId :: string
  o_creatorId :: string
  o_walletM :: int
  o_walletN :: int
  o_unit :: ounit
  o_signingInfo :: "signing_info obj"

definition TxProposal_create :: "int \<Rightarrow> txp_opts \<Rightarrow> txproposal" where
  "TxProposal_create now opts =
     \<lparr> txp_id = o_id opts, txp_createdOn = now, txp_walletId = o_walletId opts,
       txp_creatorId = o_creatorId opts,
       walletM = o_walletM opts, walletN = o_walletN opts,
       requiredSignatures = o_walletM opts,
       requiredRejections = min (o_walletM opts) (o_walletN opts - o_walletM opts + 1),
       txp_status = Temporary, txp_stable = False, txp_actions = [],
       txp_unit = o_unit opts, signingInfo = o_signingInfo opts,
       txid = None, broadcastedOn = None, stableOn = None,
       proposalSignature = None, proposalSignaturePubKey = None,
       proposalSignaturePubKeySig = None \<rparr>"

text \<open>
  \<open>_.countBy(actions, 'type')\<close> has no entry for a type that no action has, and
  \<open>undefined >= k\<close> is false for every number \<open>k\<close>: a vote count of zero never
  reaches a threshold, whatever the threshold is.
\<close>

definition votes :: "txproposal \<Rightarrow> action_type \<Rightarrow> nat" where
  "votes t ty = length (filter (\<lambda>a. act_type a = ty) (txp_actions t))"

definition isAccepted :: "txproposal \<Rightarrow> bool" where
  "isAccepted t = (votes t Accept \<noteq> 0 \<and> requiredSignatures t \<le> int (votes t Accept))"

definition isRejected :: "txproposal \<Rightarrow> bool" where
  "isRejected t = (votes t Reject \<noteq> 0 \<and> requiredRejections t \<le> int (votes t Reject))"

definition isTemporary :: "txproposal \<Rightarrow> bool" where
  "isTemporary t = (txp_status t = Temporary)"

definition isPending :: "txproposal \<Rightarrow> bool" where
  "isPending t = (txp_status t \<notin> {Temporary, Broadcasted, Rejected})"

definition isBroadcasted :: "txproposal \<Rightarrow> bool" where
  "isBroadcasted t = (txp_status t = Broadcasted)"

definition updateStatus :: "txproposal \<Rightarrow> txproposal" where
  "updateStatus t =
     (if txp_status t \<noteq> Pending then t
      else if isRejected t then t\<lparr>txp_status := Rejected\<rparr>
      else if isAccepted t then t\<lparr>txp_status := Accepted\<rparr>
      else t)"

definition addAction ::
  "int \<Rightarrow> string \<Rightarrow> action_type \<Rightarrow> string option \<Rightarrow> signatures option \<Rightarrow> string option
   \<Rightarrow> txproposal \<Rightarrow> txproposal" where
  "addAction now copayerId type comment sigs xpub t =
     updateStatus (t\<lparr>txp_actions :=
       txp_actions t @ [TxProposalAction_create now copayerId type sigs xpub comment]\<rparr>)"

definition getApprovers :: "txproposal \<Rightarrow> string list" where
  "getApprovers t = map act_copayerId (filter (\<lambda>a. act_type a = Accept) (txp_actions t))"

definition getActionByCopayer :: "txproposal \<Rightarrow> string \<Rightarrow> txp_action option" where
  "getActionByCopayer t copayerId = find (\<lambda>a. act_copayerId a = copayerId) (txp_actions t)"

definition reject :: "int \<Rightarrow> string \<Rightarrow> string option \<Rightarrow> txproposal \<Rightarrow> txproposal" where
  "reject now copayerId reason t = addAction now copayerId Reject reason None None t"

text \<open>\<open>setBroadcasted\<close> and \<open>setStable\<close> start with \<open>$.checkState(this.txid)\<close>.\<close>

definition setBroadcasted :: "int \<Rightarrow> txproposal \<Rightarrow> error + txproposal" where
  "setBroadcasted now t =
     (case txid t of
        None \<Rightarrow> Inl (Thrown ''checkState'')
      | Some x \<Rightarrow> if x = [] then Inl (Thrown ''checkState'')
                  else Inr (t\<lparr>txp_status := Broadcasted, broadcastedOn := Some now\<rparr>))"

definition setStable :: "int \<Rightarrow> txproposal \<Rightarrow> error + txproposal" where
  "setStable now t =
     (case txid t of
        None \<Rightarrow> Inl (Thrown ''checkState'')
      | Some x \<Rightarrow> if x = [] then Inl (Thrown ''checkState'')
                  else Inr (t\<lparr>txp_stable := True, stableOn := Some now\<rparr>))"

subsection \<open>Libraries outside the repository\<close>

text \<open>
  The hash and signature primitives come from bitcore and ocore, which are not part of the
  repository: they are parameters of the model, collected in one record. A primitive that
  throws on a malformed argument returns \<open>None\<close>.
\<close>

datatype definition_template = DT_empty | DT_sig string | DT_r_of_set rat "string list"

record crypto =
  getUnitHashToSign :: "ounit \<Rightarrow> string"
  getUnitHash :: "ounit \<Rightarrow> string"
  HDPublicKey :: "string \<Rightarrow> string option"
  deriveChild :: "string \<Rightarrow> string \<Rightarrow> string option"
  ecdsaVerify :: "string \<Rightarrow> string \<Rightarrow> string \<Rightarrow> bool"
  secp256k1Verify :: "string \<Rightarrow> string \<Rightarrow> string \<Rightarrow> bool"
  xPubToCopayerId :: "string \<Rightarrow> string"
  PublicKey_fromString :: "string \<Rightarrow> string option"
  deriveAddress :: "definition_template \<Rightarrow> string list \<Rightarrow> string \<Rightarrow> string option"
  COINS :: "string list"
  NETWORKS :: "string list"

text \<open>
  \<open>HDPublicKey cr xpub\<close> is the name of the network of the parsed key, \<open>None\<close> when
  bitcore rejects the key; \<open>deriveChild cr xpub path\<close> is the derived public key in
  base64, \<open>None\<close> when the derivation throws; \<open>ecdsaVerify cr hash sig pubKey\<close> is
  \<open>EcdsaSig.verify\<close>; \<open>secp256k1Verify cr text sig pubKey\<close> is the outcome of hashing
  the text, importing the signature and the key and verifying, false when an import or
  the verification throws (the \<open>_try...\<close> helpers of lib/common/utils.js);
  \<open>PublicKey_fromString\<close> is the printed form of the parsed public key;
  \<open>deriveAddress cr template xpubs path\<close> is the address string that \<open>Address.derive\<close>
  computes from the definition template and the keys of the copayers along the path,
  \<open>None\<close> when the derivation throws; \<open>COINS\<close> and
  \<open>NETWORKS\<close> are the values of the tables of lib/common/constants.js, which is missing.
\<close>

text \<open>\<open>Utils.verifyMessage\<close> starts with \<open>$.checkArgument(text)\<close>, which throws on the empty text.\<close>

definition verifyMessage :: "crypto \<Rightarrow> string \<Rightarrow> string \<Rightarrow> string \<Rightarrow> error + bool" where
  "verifyMessage cr text sig pubKey =
     (if text = [] then Inl (Thrown ''checkArgument'') else Inr (secp256k1Verify cr text sig pubKey))"

definition checkValueInCollection :: "string \<Rightarrow> string list \<Rightarrow> bool" where
  "checkValueInCollection v coll = (v \<noteq> [] \<and> v \<in> set coll)"

subsection \<open>Wallets and copayers (lib/model/wallet.js, copayer.js)\<close>

record request_key =
  rk_key :: string
  rk_signature :: string
  rk_selfSigned :: bool

record copayer =
  cp_id :: string
  cp_createdOn :: int
  cp_coin :: string
  cp_name :: string
  cp_xPubKey :: string
  cp_account :: int
  cp_deviceId :: string
  cp_requestPubKey :: string
  cp_signature :: string
  cp_requestPubKeys :: "request_key list"

record ring_entry =
  re_xPubKey :: string
  re_requestPubKey :: string
  re_deviceId :: string
  re_account :: int

datatype wallet_status = WPending | WComplete

datatype derivation = BIP44 | BIP45

text \<open>
  The numbers \<open>m\<close> and \<open>n\<close> of a wallet are the numbers of the request that created it.
  The service takes them from the body of the request and compares them as numbers; it
  never asks whether they are whole. They are rationals here.
\<close>

record wallet =
  w_id :: string
  w_createdOn :: int
  w_name :: string
  w_m :: rat
  w_n :: rat
  singleAddress :: bool
  w_status :: wallet_status
  copayers :: "copayer list"
  publicKeyRing :: "ring_entry list"
  w_pubKey :: string
  w_coin :: string
  w_network :: string
  derivationStrategy :: derivation
  definitionTemplate :: definition_template
  scanStatus :: "string option"
  receiveAddressIndex :: nat

subsection \<open>Addresses, notifications, subscriptions\<close>

record address =
  a_address :: string
  a_walletId :: string
  a_path :: string
  a_isChange :: bool
  a_hasActivity :: bool

record notification =
  n_type :: string
  n_walletId :: string
  n_creatorId :: "string option"
  n_data :: "string obj"

record tx_confirmation_sub =
  sub_walletId :: string
  sub_copayerId :: string
  sub_txid :: string
  sub_isActive :: bool

record copayer_lookup =
  cl_copayerId :: string
  cl_walletId :: string
  cl_requestPubKeys :: "request_key list"
  cl_isSupportStaff :: bool

subsection \<open>The storage\<close>

record storage =
  st_wallets :: "wallet list"
  st_copayerLookup :: "copayer_lookup list"
  st_addresses :: "address list"
  st_txps :: "txproposal list"
  st_subs :: "tx_confirmation_sub list"
  st_notifications :: "notification list"

definition empty_storage :: storage where
  "empty_storage =
     \<lparr> st_wallets = [], st_copayerLookup = [], st_addresses = [], st_txps = [],
       st_subs = [], st_notifications = [] \<rparr>"

fun upsert :: "('a \<Rightarrow> bool) \<Rightarrow> 'a \<Rightarrow> 'a list \<Rightarrow> 'a list" where
  "upsert p x [] = [x]"
| "upsert p x (y # ys) = (if p y then x # ys else y # upsert p x ys)"

text \<open>Modelled from the spec: lib/storage.js is missing; a proposal is a document of the
  proposal collection, found by wallet id and proposal id.\<close>
definition fetchTx :: "storage \<Rightarrow> string \<Rightarrow> string \<Rightarrow> txproposal option" where
  "fetchTx st walletId txProposalId =
     find (\<lambda>t. txp_walletId t = walletId \<and> txp_id t = txProposalId) (st_txps st)"

text \<open>Modelled from the spec: lib/storage.js is missing; storing a proposal replaces the
  document with the same wallet id and proposal id, or adds one.\<close>
definition storeTx :: "storage \<Rightarrow> string \<Rightarrow> txproposal \<Rightarrow> storage" where
  "storeTx st walletId t =
     st\<lparr>st_txps := upsert (\<lambda>u. txp_walletId u = walletId \<and> txp_id u = txp_id t) t (st_txps st)\<rparr>"

text \<open>Modelled from the spec: lib/storage.js is missing; removing a proposal deletes the
  documents with that wallet id and proposal id.\<close>
definition storage_removeTx :: "storage \<Rightarrow> string \<Rightarrow> string \<Rightarrow> storage" where
  "storage_removeTx st walletId txProposalId =
     st\<lparr>st_txps := filter (\<lambda>u. \<not> (txp_walletId u = walletId \<and> txp_id u = txProposalId)) (st_txps st)\<rparr>"

text \<open>Modelled from the spec: lib/storage.js is missing; the notification log of a wallet is
  append-only.\<close>
definition storeNotification :: "storage \<Rightarrow> notification \<Rightarrow> storage" where
  "storeNotification st n = st\<lparr>st_notifications := st_notifications st @ [n]\<rparr>"

subsection \<open>The service instance and its notifications\<close>

record server =
  sv_walletId :: string
  sv_copayerId :: string
  copayerIsSupportStaff :: bool

text \<open>
  \<open>_notify\<close> stores the notification and hands it to the message broker. The creator is
  the copayer of the instance, or nobody for a global notification.
\<close>

definition notify :: "server \<Rightarrow> string \<Rightarrow> string obj \<Rightarrow> bool \<Rightarrow> storage \<Rightarrow> storage" where
  "notify sv type data isGlobal st =
     storeNotification st
       \<lparr> n_type = type, n_walletId = sv_walletId sv,
         n_creatorId = (if isGlobal then None else Some (sv_copayerId sv)),
         n_data = data \<rparr>"

text \<open>
  \<open>_notifyTxProposalAction\<close> sends the proposal id and the creator, extended by the extra
  arguments; the asset, amount and ticker decoration of payment proposals is left out.
\<close>

definition notifyTxProposalAction ::
  "server \<Rightarrow> string \<Rightarrow> txproposal \<Rightarrow> string obj \<Rightarrow> storage \<Rightarrow> storage" where
  "notifyTxProposalAction sv type t extraArgs st =
     notify sv type ([(''txProposalId'', txp_id t), (''creatorId'', txp_creatorId t)] @ extraArgs) False st"

subsection \<open>Removing a proposal\<close>

definition getRemainingDeleteLockTime :: "server \<Rightarrow> int \<Rightarrow> txproposal \<Rightarrow> int" where
  "getRemainingDeleteLockTime sv now t =
     (let lockTimeRemaining = txp_createdOn t + DELETE_LOCKTIME - now in
      if lockTimeRemaining < 0 then 0
      else if txp_creatorId t \<noteq> sv_copayerId sv then lockTimeRemaining
      else let approvers = getApprovers t in
        if length approvers > 1 \<or> (length approvers = 1 \<and> hd approvers \<noteq> sv_copayerId sv)
        then lockTimeRemaining
        else 0)"

definition getTx :: "server \<Rightarrow> storage \<Rightarrow> string \<Rightarrow> error + txproposal" where
  "getTx sv st txProposalId =
     (case fetchTx st (sv_walletId sv) txProposalId of
        None \<Rightarrow> Inl TX_NOT_FOUND
      | Some t \<Rightarrow> Inr t)"

definition removeTx :: "server \<Rightarrow> int \<Rightarrow> string \<Rightarrow> storage \<Rightarrow> (error + unit) \<times> storage" where
  "removeTx sv now txProposalId st =
     (case getTx sv st txProposalId of
        Inl e \<Rightarrow> (Inl e, st)
      | Inr t \<Rightarrow>
          if isBroadcasted t then (Inl TX_CANNOT_REMOVE, st)
          else if getRemainingDeleteLockTime sv now t > 0 then (Inl TX_CANNOT_REMOVE, st)
          else (Inr (),
                notifyTxProposalAction sv ''TxProposalRemoved'' t []
                  (storage_removeTx st (sv_walletId sv) (txp_id t))))"

subsection \<open>Signing (TxProposal.prototype._addSignaturesToUnit, sign)\<close>

text \<open>
  \<open>_.countBy(signingInfo, ...).true\<close> is the number of authors of this wallet, and
  \<open>undefined\<close> when there is none: then no number of signatures matches.
\<close>

definition authorCount :: "txproposal \<Rightarrow> string \<Rightarrow> nat option" where
  "authorCount t walletId =
     (let c = length (filter (\<lambda>a. si_walletId a = walletId) (obj_values (signingInfo t)))
      in if c = 0 then None else Some c)"

text \<open>
  The loop over the authors of the unit. It returns the exception thrown, if any, the
  authors as the loop leaves them, and the counter \<open>i\<close>. The authentifiers are written
  in place: an author handled before the failing one keeps the signature it was given.
\<close>

fun addSignaturesLoop ::
  "crypto \<Rightarrow> string \<Rightarrow> signing_info obj \<Rightarrow> signatures \<Rightarrow> string \<Rightarrow> author list \<Rightarrow> nat
   \<Rightarrow> string option \<times> author list \<times> nat" where
  "addSignaturesLoop cr hash si sigs xpub [] i = (None, [], i)"
| "addSignaturesLoop cr hash si sigs xpub (a # as) i =
     (case map_of sigs (au_address a) of
        None \<Rightarrow>
          (case addSignaturesLoop cr hash si sigs xpub as i of
             (e, as', i') \<Rightarrow> (e, a # as', i'))
      | Some asigs \<Rightarrow>
          (case map_of si (au_address a) of
             None \<Rightarrow> (Some ''TypeError'', a # as, i)
           | Some info \<Rightarrow>
               (case deriveChild cr xpub (si_path info) of
                  None \<Rightarrow> (Some ''Invalid derivation'', a # as, i)
                | Some pubKey \<Rightarrow>
                    (case map_of (si_signingPaths info) pubKey of
                       None \<Rightarrow> (Some ''Wrong signature'', a # as, i)
                     | Some path \<Rightarrow>
                         (case map_of asigs path of
                            None \<Rightarrow> (Some ''Wrong signature'', a # as, i)
                          | Some sig \<Rightarrow>
                              if \<not> ecdsaVerify cr hash sig pubKey
                              then (Some ''Wrong signature'', a # as, i)
                              else
                                (case addSignaturesLoop cr hash si sigs xpub as (Suc i) of
                                   (e, as', i') \<Rightarrow>
                                     (e, a\<lparr>au_authentifiers :=
                                            obj_set (au_authentifiers a) path sig\<rparr> # as', i')))))))"

definition addSignaturesToUnit ::
  "crypto \<Rightarrow> string \<Rightarrow> signatures \<Rightarrow> string \<Rightarrow> txproposal \<Rightarrow> string option \<times> txproposal" where
  "addSignaturesToUnit cr walletId sigs xpub t =
     (if authorCount t walletId \<noteq> Some (length (obj_keys sigs))
      then (Some ''Number of signatures does not match number of authors'', t)
      else if HDPublicKey cr xpub = None then (Some ''Invalid xpub'', t)
      else
        (case addSignaturesLoop cr (getUnitHashToSign cr (txp_unit t)) (signingInfo t) sigs xpub
                (u_authors (txp_unit t)) 0 of
           (e, as', i) \<Rightarrow>
             let t' = t\<lparr>txp_unit := (txp_unit t)\<lparr>u_authors := as'\<rparr>\<rparr> in
             (case e of
                Some x \<Rightarrow> (Some x, t')
              | None \<Rightarrow> if i \<noteq> length (obj_keys sigs) then (Some ''Wrong signatures'', t')
                        else (None, t'))))"

text \<open>
  \<open>sign\<close> catches every exception and answers false; the proposal object it was called
  on keeps what was written before the exception.
\<close>

definition sign ::
  "crypto \<Rightarrow> int \<Rightarrow> string \<Rightarrow> string \<Rightarrow> signatures \<Rightarrow> string \<Rightarrow> txproposal \<Rightarrow> bool \<times> txproposal" where
  "sign cr now copayerId walletId sigs xpub t =
     (case addSignaturesToUnit cr walletId sigs xpub t of
        (Some e, t') \<Rightarrow> (False, t')
      | (None, t') \<Rightarrow>
          let t'' = addAction now copayerId Accept None (Some sigs) (Some xpub) t' in
          if txp_status t'' = Accepted
          then let h = getUnitHash cr (txp_unit t'') in
               (True, t''\<lparr>txp_unit := (txp_unit t'')\<lparr>u_unit := Some h\<rparr>, txid := Some h\<rparr>)
          else (True, t''))"

text \<open>
  The acceptance condition in the words of the specification: the signature submitted for
  an address verifies when the key derived from the copayer's xpub along the path of that
  address has a signing path in the address, a signature was submitted for that signing
  path, and it is a signature of the hash of the unit under the derived key. The
  submission is bad when some submitted signature does not verify or when the number of
  addresses signed differs from the number of authors of the wallet.
\<close>

definition signatureVerifies :: "crypto \<Rightarrow> txproposal \<Rightarrow> string \<Rightarrow> string \<Rightarrow> string obj \<Rightarrow> bool" where
  "signatureVerifies cr t xpub addr asigs =
     (case map_of (signingInfo t) addr of
        None \<Rightarrow> False
      | Some info \<Rightarrow>
          (case deriveChild cr xpub (si_path info) of
             None \<Rightarrow> False
           | Some pubKey \<Rightarrow>
               (case map_of (si_signingPaths info) pubKey of
                  None \<Rightarrow> False
                | Some path \<Rightarrow>
                    (case map_of asigs path of
                       None \<Rightarrow> False
                     | Some sig \<Rightarrow>
                         ecdsaVerify cr (getUnitHashToSign cr (txp_unit t)) sig pubKey))))"

definition badSignatures :: "crypto \<Rightarrow> txproposal \<Rightarrow> string \<Rightarrow> string \<Rightarrow> signatures \<Rightarrow> bool" where
  "badSignatures cr t walletId xpub sigs =
     (authorCount t walletId \<noteq> Some (length (obj_keys sigs)) \<or>
      (\<exists>k\<in>set (obj_keys sigs). \<not> signatureVerifies cr t xpub k (the (map_of sigs k))))"

subsection \<open>signTx and rejectTx\<close>

text \<open>Modelled from the spec: lib/storage.js is missing; a wallet is found by its id.\<close>
definition fetchWallet :: "storage \<Rightarrow> string \<Rightarrow> wallet option" where
  "fetchWallet st walletId = find (\<lambda>w. w_id w = walletId) (st_wallets st)"

definition getWallet :: "server \<Rightarrow> storage \<Rightarrow> error + wallet" where
  "getWallet sv st =
     (case fetchWallet st (sv_walletId sv) of None \<Rightarrow> Inl WALLET_NOT_FOUND | Some w \<Rightarrow> Inr w)"

definition getCopayer :: "wallet \<Rightarrow> string \<Rightarrow> copayer option" where
  "getCopayer w copayerId = find (\<lambda>c. cp_id c = copayerId) (copayers w)"

definition signTx ::
  "server \<Rightarrow> crypto \<Rightarrow> int \<Rightarrow> string \<Rightarrow> signatures \<Rightarrow> storage \<Rightarrow> (error + txproposal) \<times> storage" where
  "signTx sv cr now txProposalId sigs st =
     (case getWallet sv st of
        Inl e \<Rightarrow> (Inl e, st)
      | Inr wallet \<Rightarrow>
     (case getTx sv st txProposalId of
        Inl e \<Rightarrow> (Inl e, st)
      | Inr t \<Rightarrow>
          if getActionByCopayer t (sv_copayerId sv) \<noteq> None then (Inl COPAYER_VOTED, st)
          else if \<not> isPending t then (Inl TX_NOT_PENDING, st)
          else if isAccepted t then (Inl TX_ALREADY_ACCEPTED, st)
          else
            (case getCopayer wallet (sv_copayerId sv) of
               None \<Rightarrow> (Inl (Thrown ''TypeError''), st)
             | Some copayer \<Rightarrow>
                 (case sign cr now (sv_copayerId sv) (sv_walletId sv) sigs (cp_xPubKey copayer) t of
                    (False, t') \<Rightarrow> (Inl BAD_SIGNATURES, st)
                  | (True, t') \<Rightarrow>
                      let st1 = storeTx st (sv_walletId sv) t';
                          st2 = notifyTxProposalAction sv ''TxProposalAcceptedBy'' t'
                                  [(''copayerId'', sv_copayerId sv)] st1;
                          st3 = (if isAccepted t'
                                 then notifyTxProposalAction sv ''TxProposalFinallyAccepted'' t' [] st2
                                 else st2)
                      in (Inr t', st3)))))"

definition rejectTx ::
  "server \<Rightarrow> int \<Rightarrow> string \<Rightarrow> string option \<Rightarrow> storage \<Rightarrow> (error + txproposal) \<times> storage" where
  "rejectTx sv now txProposalId reason st =
     (case getTx sv st txProposalId of
        Inl e \<Rightarrow> (Inl e, st)
      | Inr t \<Rightarrow>
          if getActionByCopayer t (sv_copayerId sv) \<noteq> None then (Inl COPAYER_VOTED, st)
          else if txp_status t \<noteq> Pending then (Inl TX_NOT_PENDING, st)
          else
            let t' = reject now (sv_copayerId sv) reason t;
                st1 = storeTx st (sv_walletId sv) t';
                st2 = notifyTxProposalAction sv ''TxProposalRejectedBy'' t'
                        [(''copayerId'', sv_copayerId sv)] st1;
                st3 = (if txp_status t' = Rejected
                       then notifyTxProposalAction sv ''TxProposalFinallyRejected'' t' [] st2
                       else st2)
            in (Inr t', st3))"

subsection \<open>The explorer and the hub (lib/blockchainexplorer.js)\<close>

text \<open>
  The explorer reads the ledger database and the hub accepts joints; their answers are
  parameters. An answer is an error message or a value.
\<close>

record utxo =
  utxo_unit :: string
  utxo_message_index :: nat
  utxo_output_index :: nat
  utxo_address :: string
  utxo_amount :: int
  locked :: bool
  spent :: bool

record explorer =
  broadcastJoint :: "ounit \<Rightarrow> string option"
  getTransaction :: "string \<Rightarrow> string + bool"
  getAddressActivity :: "string \<Rightarrow> string + bool"
  getUtxos :: "string list \<Rightarrow> string + utxo list"

subsection \<open>broadcastTx\<close>

text \<open>
  \<open>_checkTxInBlockchain\<close> calls back without arguments when the proposal has no txid:
  the answer is then \<open>undefined\<close>, here \<open>None\<close>.
\<close>

definition checkTxInBlockchain :: "explorer \<Rightarrow> txproposal \<Rightarrow> error + bool option" where
  "checkTxInBlockchain ex t =
     (case txid t of
        None \<Rightarrow> Inr None
      | Some x \<Rightarrow>
          if x = [] then Inr None
          else (case getTransaction ex x of
                  Inl e \<Rightarrow> Inl (ExternalError e)
                | Inr found \<Rightarrow> Inr (Some found)))"

definition getUnitAuthors :: "txproposal \<Rightarrow> string list" where
  "getUnitAuthors t = map au_address (u_authors (txp_unit t))"

definition getUnitOutputs :: "txproposal \<Rightarrow> tx_output list" where
  "getUnitOutputs t =
     concat (map (\<lambda>m. if msg_app m \<noteq> ''payment'' then []
                       else (case msg_payload m of None \<Rightarrow> [] | Some p \<Rightarrow> pl_outputs p))
                 (u_messages (txp_unit t)))"

text \<open>Modelled from the spec: lib/storage.js is missing; the addresses involved in a unit
  are marked \<open>hasActivity = true\<close>.\<close>
definition markActiveAddresses :: "storage \<Rightarrow> string list \<Rightarrow> storage" where
  "markActiveAddresses st addrs =
     st\<lparr>st_addresses :=
          map (\<lambda>a. if a_address a \<in> set addrs then a\<lparr>a_hasActivity := True\<rparr> else a)
              (st_addresses st)\<rparr>"

definition processBroadcast ::
  "server \<Rightarrow> int \<Rightarrow> txproposal \<Rightarrow> bool \<Rightarrow> storage \<Rightarrow> (error + txproposal) \<times> storage" where
  "processBroadcast sv now t byThirdParty st =
     (case setBroadcasted now t of
        Inl e \<Rightarrow> (Inl e, st)
      | Inr t' \<Rightarrow>
          let st1 = storeTx st (sv_walletId sv) t';
              st2 = notifyTxProposalAction sv
                      (if byThirdParty then ''NewOutgoingTxByThirdParty'' else ''NewOutgoingTx'')
                      t' [(''txid'', the (txid t'))] st1;
              st3 = markActiveAddresses st2
                      (remdups (getUnitAuthors t' @ map out_address (getUnitOutputs t')))
          in (Inr t', st3))"

definition broadcastTx ::
  "server \<Rightarrow> explorer \<Rightarrow> int \<Rightarrow> string \<Rightarrow> storage \<Rightarrow> (error + txproposal) \<times> storage" where
  "broadcastTx sv ex now txProposalId st =
     (case getWallet sv st of
        Inl e \<Rightarrow> (Inl e, st)
      | Inr wallet \<Rightarrow>
     (case getTx sv st txProposalId of
        Inl e \<Rightarrow> (Inl e, st)
      | Inr t \<Rightarrow>
          if txp_status t = Broadcasted then (Inl TX_ALREADY_BROADCASTED, st)
          else if txp_status t \<noteq> Accepted then (Inl TX_NOT_ACCEPTED, st)
          else
            (case broadcastJoint ex (txp_unit t) of
               Some broadcastErr \<Rightarrow>
                 (case checkTxInBlockchain ex t of
                    Inl e \<Rightarrow> (Inl e, st)
                  | Inr isInBlockchain \<Rightarrow>
                      if isInBlockchain \<noteq> Some True then (Inl (ExternalError broadcastErr), st)
                      else processBroadcast sv now t True st)
             | None \<Rightarrow> processBroadcast sv now t False st)))"

subsection \<open>Pending proposals (getPendingTxs)\<close>

text \<open>Modelled from the spec: lib/storage.js is missing; the pending proposals of a wallet
  are those stored with the flag \<open>isPending\<close>, which \<open>toObject\<close> computes.\<close>
definition fetchPendingTxs :: "storage \<Rightarrow> string \<Rightarrow> txproposal list" where
  "fetchPendingTxs st walletId =
     filter (\<lambda>t. txp_walletId t = walletId \<and> isPending t) (st_txps st)"

text \<open>
  An accepted proposal whose unit the explorer already knows is recorded as broadcast by
  a third party. The proposals are visited in order; the first error ends the visit.
\<close>

fun getPendingLoop ::
  "server \<Rightarrow> explorer \<Rightarrow> int \<Rightarrow> txproposal list \<Rightarrow> storage \<Rightarrow> (error + txproposal list) \<times> storage" where
  "getPendingLoop sv ex now [] st = (Inr [], st)"
| "getPendingLoop sv ex now (t # ts) st =
     (if txp_status t \<noteq> Accepted then
        (case getPendingLoop sv ex now ts st of
           (Inl e, st') \<Rightarrow> (Inl e, st')
         | (Inr ts', st') \<Rightarrow> (Inr (t # ts'), st'))
      else
        (case checkTxInBlockchain ex t of
           Inl e \<Rightarrow> (Inl e, st)
         | Inr isInBlockchain \<Rightarrow>
             if isInBlockchain \<noteq> Some True then
               (case getPendingLoop sv ex now ts st of
                  (Inl e, st') \<Rightarrow> (Inl e, st')
                | (Inr ts', st') \<Rightarrow> (Inr (t # ts'), st'))
             else
               (case processBroadcast sv now t True st of
                  (Inl e, st1) \<Rightarrow> (Inl e, st1)
                | (Inr t', st1) \<Rightarrow>
                    (case getPendingLoop sv ex now ts st1 of
                       (Inl e, st') \<Rightarrow> (Inl e, st')
                     | (Inr ts', st') \<Rightarrow> (Inr (t' # ts'), st')))))"

definition getPendingTxs ::
  "server \<Rightarrow> explorer \<Rightarrow> int \<Rightarrow> storage \<Rightarrow> (error + txproposal list) \<times> storage" where
  "getPendingTxs sv ex now st =
     (case getPendingLoop sv ex now (fetchPendingTxs st (sv_walletId sv)) st of
        (Inl e, st') \<Rightarrow> (Inl e, st')
      | (Inr ts, st') \<Rightarrow> (Inr (filter (\<lambda>t. txp_status t \<noteq> Broadcasted) ts), st'))"

subsection \<open>The reservation view (_getUtxosForCurrentWallet)\<close>

fun digit_char :: "nat \<Rightarrow> char" where
  "digit_char n = ''0123456789'' ! n"

fun string_of_nat :: "nat \<Rightarrow> string" where
  "string_of_nat n =
     (if n < 10 then [digit_char n] else string_of_nat (n div 10) @ [digit_char (n mod 10)])"

declare string_of_nat.simps [simp del]

text \<open>
  \<open>utxoKey\<close> concatenates the three fields; a field that is missing prints as
  \<open>undefined\<close>. The explorer's rows have all three.
\<close>

definition utxoKey :: "utxo \<Rightarrow> string" where
  "utxoKey u =
     utxo_unit u @ ''|'' @ string_of_nat (utxo_message_index u) @ ''|'' @
     string_of_nat (utxo_output_index u)"

definition inputKey :: "tx_input \<Rightarrow> string" where
  "inputKey i =
     (case in_unit i of None \<Rightarrow> ''undefined'' | Some u \<Rightarrow> u) @ ''|'' @
     (case in_message_index i of None \<Rightarrow> ''undefined'' | Some k \<Rightarrow> string_of_nat k) @ ''|'' @
     (case in_output_index i of None \<Rightarrow> ''undefined'' | Some k \<Rightarrow> string_of_nat k)"

text \<open>
  \<open>_.keyBy(allUtxos, utxoKey)\<close> keeps, for each key, the last row with that key, and the
  index shares the row objects with \<open>allUtxos\<close>: setting a flag through the index sets
  it on that row of the list.
\<close>

fun markByKey :: "(utxo \<Rightarrow> utxo) \<Rightarrow> string \<Rightarrow> utxo list \<Rightarrow> utxo list" where
  "markByKey f k [] = []"
| "markByKey f k (u # us) =
     (if utxoKey u = k \<and> k \<notin> set (map utxoKey us) then f u # us else u # markByKey f k us)"

definition keyBy :: "utxo list \<Rightarrow> string \<Rightarrow> utxo option" where
  "keyBy us k = find (\<lambda>u. utxoKey u = k) (rev us)"

text \<open>The inputs the reservation view reads from a proposal: those of the payment messages
  that have a payload with inputs.\<close>

definition paymentInputs :: "txproposal \<Rightarrow> tx_input list" where
  "paymentInputs t =
     concat (map (\<lambda>m. if msg_app m = ''payment''
                       then (case msg_payload m of
                               None \<Rightarrow> []
                             | Some p \<Rightarrow> (case pl_inputs p of None \<Rightarrow> [] | Some is \<Rightarrow> is))
                       else [])
                 (u_messages (txp_unit t)))"

definition markInputs :: "(utxo \<Rightarrow> utxo) \<Rightarrow> txproposal list \<Rightarrow> utxo list \<Rightarrow> utxo list" where
  "markInputs f ts us = foldl (\<lambda>us' i. markByKey f (inputKey i) us') us (concat (map paymentInputs ts))"

text \<open>Modelled from the spec: lib/storage.js is missing; the addresses of a wallet, in the
  order of their creation.\<close>
definition fetchAddresses :: "storage \<Rightarrow> string \<Rightarrow> address list" where
  "fetchAddresses st walletId = filter (\<lambda>a. a_walletId a = walletId) (st_addresses st)"

text \<open>Modelled from the spec: lib/storage.js is missing; the recently broadcast proposals
  are those broadcast at or after \<open>minTs\<close>, capped at the most recent \<open>limit\<close>.\<close>
definition fetchBroadcastedTxs :: "storage \<Rightarrow> string \<Rightarrow> int \<Rightarrow> nat \<Rightarrow> txproposal list" where
  "fetchBroadcastedTxs st walletId minTs limit =
     take limit (rev (sort_key (\<lambda>t. case broadcastedOn t of Some b \<Rightarrow> b | None \<Rightarrow> 0)
       (filter (\<lambda>t. txp_walletId t = walletId \<and> txp_status t = Broadcasted \<and>
                     (case broadcastedOn t of Some b \<Rightarrow> minTs \<le> b | None \<Rightarrow> False))
               (st_txps st))))"

text \<open>
  When the wallet is not complete the explorer is not asked and \<open>utxoIndex\<close> stays
  \<open>undefined\<close>: the first input of a pending or broadcast proposal then raises a
  \<open>TypeError\<close>. The rows of the explorer come without the flags \<open>locked\<close> and
  \<open>spent\<close>, which read as false. The decoration of the rows with path and definition is
  left out.
\<close>

definition getUtxosForCurrentWallet ::
  "server \<Rightarrow> explorer \<Rightarrow> int \<Rightarrow> address list option \<Rightarrow> storage \<Rightarrow> (error + utxo list) \<times> storage" where
  "getUtxosForCurrentWallet sv ex now addresses st =
     (case getWallet sv st of
        Inl e \<Rightarrow> (Inl e, st)
      | Inr wallet \<Rightarrow>
          if scanStatus wallet = Some ''error'' then (Inl WALLET_NEED_SCAN, st)
          else
            let allAddresses = (case addresses of
                                  Some as \<Rightarrow> as
                                | None \<Rightarrow> fetchAddresses st (sv_walletId sv))
            in if addresses = None \<and> allAddresses = [] then (Inr [], st)
            else
              (case (if w_status wallet = WComplete
                     then (case getUtxos ex (map a_address allAddresses) of
                             Inl e \<Rightarrow> Inl (ExternalError e)
                           | Inr us \<Rightarrow> Inr (Some (map (\<lambda>u. u\<lparr>locked := False, spent := False\<rparr>) us)))
                     else Inr None) of
                 Inl e \<Rightarrow> (Inl e, st)
               | Inr (Some []) \<Rightarrow> (Inr [], st)
               | Inr allUtxos \<Rightarrow>
                   (case getPendingTxs sv ex now st of
                      (Inl e, st') \<Rightarrow> (Inl e, st')
                    | (Inr txps, st') \<Rightarrow>
                        let txs = fetchBroadcastedTxs st' (sv_walletId sv) (now - 24 * 3600) 100 in
                        (case allUtxos of
                           None \<Rightarrow>
                             if concat (map paymentInputs txps) \<noteq> [] \<or>
                                concat (map paymentInputs txs) \<noteq> []
                             then (Inl (Thrown ''TypeError''), st')
                             else (Inr [], st')
                         | Some us \<Rightarrow>
                             let us1 = markInputs (\<lambda>u. u\<lparr>locked := True\<rparr>) txps us;
                                 us2 = markInputs (\<lambda>u. u\<lparr>spent := True\<rparr>) txs us1
                             in (Inr (filter (\<lambda>u. \<not> spent u) us2), st')))))"

subsection \<open>publishTx\<close>

fun getSigningKey :: "crypto \<Rightarrow> string \<Rightarrow> string \<Rightarrow> request_key list \<Rightarrow> error + request_key option" where
  "getSigningKey cr text sig [] = Inr None"
| "getSigningKey cr text sig (k # ks) =
     (case verifyMessage cr text sig (rk_key k) of
        Inl e \<Rightarrow> Inl e
      | Inr ok \<Rightarrow> if ok then Inr (Some k) else getSigningKey cr text sig ks)"

text \<open>
  The inputs \<open>publishTx\<close> checks: of every payment message, the inputs whose unit,
  message index and output index are all truthy. A payment message without payload or
  without inputs raises a \<open>TypeError\<close>.
\<close>

definition truthy_string :: "string option \<Rightarrow> bool" where
  "truthy_string x = (case x of None \<Rightarrow> False | Some s \<Rightarrow> s \<noteq> [])"

definition truthy_number :: "nat option \<Rightarrow> bool" where
  "truthy_number x = (case x of None \<Rightarrow> False | Some n \<Rightarrow> n \<noteq> 0)"

fun txpInputs :: "message list \<Rightarrow> error + string list" where
  "txpInputs [] = Inr []"
| "txpInputs (m # ms) =
     (if msg_app m = ''payment'' then
        (case msg_payload m of
           None \<Rightarrow> Inl (Thrown ''TypeError'')
         | Some p \<Rightarrow>
             (case pl_inputs p of
                None \<Rightarrow> Inl (Thrown ''TypeError'')
              | Some is \<Rightarrow>
                  (case txpInputs ms of
                     Inl e \<Rightarrow> Inl e
                   | Inr ks \<Rightarrow>
                       Inr (map inputKey
                              (filter (\<lambda>i. truthy_string (in_unit i) \<and>
                                            truthy_number (in_message_index i) \<and>
                                            truthy_number (in_output_index i)) is) @ ks))))
      else txpInputs ms)"

definition unavailable :: "utxo list \<Rightarrow> string list \<Rightarrow> bool" where
  "unavailable utxos keys =
     (\<exists>k\<in>set keys. case keyBy utxos k of None \<Rightarrow> True | Some u \<Rightarrow> locked u)"

definition publishTx ::
  "server \<Rightarrow> crypto \<Rightarrow> explorer \<Rightarrow> int \<Rightarrow> string \<Rightarrow> string \<Rightarrow> storage
   \<Rightarrow> (error + txproposal) \<times> storage" where
  "publishTx sv cr ex now txProposalId proposalSig st =
     (case getWallet sv st of
        Inl e \<Rightarrow> (Inl e, st)
      | Inr wallet \<Rightarrow>
     (case fetchTx st (sv_walletId sv) txProposalId of
        None \<Rightarrow> (Inl TX_NOT_FOUND, st)
      | Some t \<Rightarrow>
          if \<not> isTemporary t then (Inr t, st)
          else
            (case getCopayer wallet (sv_copayerId sv) of
               None \<Rightarrow> (Inl (Thrown ''TypeError''), st)
             | Some copayer \<Rightarrow>
                 (case getSigningKey cr (getUnitHashToSign cr (txp_unit t)) proposalSig
                         (cp_requestPubKeys copayer) of
                    Inl e \<Rightarrow> (Inl e, st)
                  | Inr None \<Rightarrow> (Inl (ClientError ''Invalid proposal signature''), st)
                  | Inr (Some signingKey) \<Rightarrow>
                      let t1 = (if rk_selfSigned signingKey
                                then t\<lparr>proposalSignature := Some proposalSig,
                                       proposalSignaturePubKey := Some (rk_key signingKey),
                                       proposalSignaturePubKeySig := Some (rk_signature signingKey)\<rparr>
                                else t\<lparr>proposalSignature := Some proposalSig\<rparr>)
                      in
                      (case getUtxosForCurrentWallet sv ex now None st of
                         (Inl e, st') \<Rightarrow> (Inl e, st')
                       | (Inr utxos, st') \<Rightarrow>
                           (case txpInputs (u_messages (txp_unit t1)) of
                              Inl e \<Rightarrow> (Inl e, st')
                            | Inr keys \<Rightarrow>
                                if unavailable utxos keys then (Inl UNAVAILABLE_UTXOS, st')
                                else
                                  let t2 = t1\<lparr>txp_status := Pending\<rparr>;
                                      st1 = storeTx st' (sv_walletId sv) t2
                                  in (Inr t2,
                                      notifyTxProposalAction sv ''NewTxProposal'' t2 [] st1)))))))"

subsection \<open>Wallet formation (Wallet.create, addCopayer, createWallet, joinWallet)\<close>

definition verifyCopayerLimits :: "rat \<Rightarrow> rat \<Rightarrow> bool" where
  "verifyCopayerLimits m n = ((n \<ge> 1 \<and> n \<le> 15) \<and> (m \<ge> 1 \<and> m \<le> n))"

record wallet_opts =
  wo_id :: string
  wo_name :: string
  wo_m :: rat
  wo_n :: rat
  wo_singleAddress :: bool
  wo_pubKey :: string
  wo_coin :: string
  wo_network :: string
  wo_derivationStrategy :: derivation

definition Wallet_create :: "crypto \<Rightarrow> int \<Rightarrow> wallet_opts \<Rightarrow> error + wallet" where
  "Wallet_create cr now opts =
     (if \<not> (wo_m opts > 0 \<and> wo_m opts \<le> wo_n opts) then Inl (Thrown ''checkArgument'')
      else if \<not> checkValueInCollection (wo_coin opts) (COINS cr) then Inl (Thrown ''checkArgument'')
      else if \<not> checkValueInCollection (wo_network opts) (NETWORKS cr) then Inl (Thrown ''checkArgument'')
      else Inr
        \<lparr> w_id = wo_id opts, w_createdOn = now, w_name = wo_name opts,
          w_m = wo_m opts, w_n = wo_n opts, singleAddress = wo_singleAddress opts,
          w_status = WPending, copayers = [], publicKeyRing = [],
          w_pubKey = wo_pubKey opts, w_coin = wo_coin opts, w_network = wo_network opts,
          derivationStrategy = wo_derivationStrategy opts,
          definitionTemplate = (if wo_n opts = 1 then DT_empty else DT_r_of_set (wo_m opts) []),
          scanStatus = None, receiveAddressIndex = 0 \<rparr>)"

definition isShared :: "wallet \<Rightarrow> bool" where
  "isShared w = (w_n w > 1)"

definition isComplete :: "wallet \<Rightarrow> bool" where
  "isComplete w = (w_status w = WComplete)"

definition updatePublicKeyRing :: "wallet \<Rightarrow> wallet" where
  "updatePublicKeyRing w =
     w\<lparr>publicKeyRing :=
         map (\<lambda>c. \<lparr> re_xPubKey = cp_xPubKey c, re_requestPubKey = cp_requestPubKey c,
                     re_deviceId = cp_deviceId c, re_account = cp_account c \<rparr>) (copayers w)\<rparr>"

text \<open>
  \<open>addCopayer\<close> appends the copayer, extends the definition template, and completes the
  wallet when the list has reached \<open>n\<close> copayers. Pushing into the set of a template
  that has none raises a \<open>TypeError\<close>.
\<close>

definition addCopayer :: "wallet \<Rightarrow> copayer \<Rightarrow> error + wallet" where
  "addCopayer w c =
     (if cp_coin c \<noteq> w_coin w then Inl (Thrown ''checkState'')
      else
        (case (if w_n w = 1 then Inr (DT_sig (''$pubkey@'' @ cp_deviceId c))
               else (case definitionTemplate w of
                       DT_r_of_set r s \<Rightarrow> Inr (DT_r_of_set r (s @ [''$pubkey@'' @ cp_deviceId c]))
                     | _ \<Rightarrow> Inl (Thrown ''TypeError''))) of
           Inl e \<Rightarrow> Inl e
         | Inr dt \<Rightarrow>
             let w1 = w\<lparr>copayers := copayers w @ [c], definitionTemplate := dt\<rparr> in
             if of_nat (length (copayers w1)) < w_n w1 then Inr w1
             else Inr (updatePublicKeyRing (w1\<lparr>w_status := WComplete\<rparr>))))"

record copayer_opts =
  co_coin :: string
  co_name :: string
  co_deviceId :: string
  co_account :: int
  co_xPubKey :: string
  co_requestPubKey :: string
  co_signature :: string

definition Copayer_create :: "crypto \<Rightarrow> int \<Rightarrow> copayer_opts \<Rightarrow> error + copayer" where
  "Copayer_create cr now opts =
     (if co_xPubKey opts = [] then Inl (Thrown ''Missing copayer extended public key'')
      else if co_requestPubKey opts = [] then Inl (Thrown ''Missing copayer request public key'')
      else if co_signature opts = [] then Inl (Thrown ''Missing copayer request public key signature'')
      else if \<not> checkValueInCollection (co_coin opts) (COINS cr) then Inl (Thrown ''checkArgument'')
      else Inr
        \<lparr> cp_id = xPubToCopayerId cr (co_xPubKey opts), cp_createdOn = now,
          cp_coin = co_coin opts, cp_name = co_name opts, cp_xPubKey = co_xPubKey opts,
          cp_account = co_account opts, cp_deviceId = co_deviceId opts,
          cp_requestPubKey = co_requestPubKey opts, cp_signature = co_signature opts,
          cp_requestPubKeys = [\<lparr> rk_key = co_requestPubKey opts, rk_signature = co_signature opts,
                                  rk_selfSigned = False \<rparr>] \<rparr>)"

text \<open>Modelled from the spec: lib/storage.js is missing; a wallet is stored under its id.\<close>
definition storeWallet :: "storage \<Rightarrow> wallet \<Rightarrow> storage" where
  "storeWallet st w = st\<lparr>st_wallets := upsert (\<lambda>v. w_id v = w_id w) w (st_wallets st)\<rparr>"

text \<open>Modelled from the spec: lib/storage.js is missing; the copayer-lookup index holds, for
  each copayer of a stored wallet, the copayer id, the wallet id and the request public
  keys; the support-staff mark is set by the operators, not by the service.\<close>
definition storeWalletAndUpdateCopayersLookup :: "storage \<Rightarrow> wallet \<Rightarrow> storage" where
  "storeWalletAndUpdateCopayersLookup st w =
     (storeWallet st w)
       \<lparr>st_copayerLookup :=
          filter (\<lambda>l. cl_walletId l \<noteq> w_id w) (st_copayerLookup st) @
          map (\<lambda>c. \<lparr> cl_copayerId = cp_id c, cl_walletId = w_id w,
                      cl_requestPubKeys = cp_requestPubKeys c, cl_isSupportStaff = False \<rparr>)
              (copayers w)\<rparr>"

text \<open>Modelled from the spec: lib/storage.js is missing; the copayer-lookup index is read by
  copayer id.\<close>
definition fetchCopayerLookup :: "storage \<Rightarrow> string \<Rightarrow> copayer_lookup option" where
  "fetchCopayerLookup st copayerId = find (\<lambda>l. cl_copayerId l = copayerId) (st_copayerLookup st)"

record create_wallet_opts =
  cw_id :: "string option"
  cw_name :: string
  cw_m :: rat
  cw_n :: rat
  cw_pubKey :: string
  cw_coin :: "string option"
  cw_network :: "string option"
  cw_singleAddress :: "bool option"
  cw_supportBIP44 :: "bool option"

text \<open>
  \<open>createWallet\<close>; \<open>uuid\<close> is the identifier \<open>Uuid.v4()\<close> draws when the caller gives
  none. An explicit identifier is truthy when it is not the empty string.
\<close>

definition createWallet ::
  "crypto \<Rightarrow> int \<Rightarrow> string \<Rightarrow> create_wallet_opts \<Rightarrow> storage \<Rightarrow> (error + string) \<times> storage" where
  "createWallet cr now uuid opts st =
     (if cw_name opts = [] then (Inl (ClientError ''Invalid wallet name''), st)
      else if \<not> verifyCopayerLimits (cw_m opts) (cw_n opts)
        then (Inl (ClientError ''Invalid combination of required copayers / total copayers''), st)
      else
        let coin = (case cw_coin opts of None \<Rightarrow> ''obyte'' | Some c \<Rightarrow> if c = [] then ''obyte'' else c) in
        if \<not> checkValueInCollection coin (COINS cr) then (Inl (ClientError ''Invalid coin''), st)
        else
          let network = (case cw_network opts of None \<Rightarrow> ''livenet''
                         | Some n \<Rightarrow> if n = [] then ''livenet'' else n) in
          if \<not> checkValueInCollection network (NETWORKS cr)
          then (Inl (ClientError ''Invalid network''), st)
          else
            let supportBIP44 = (case cw_supportBIP44 opts of None \<Rightarrow> True | Some b \<Rightarrow> b) in
            (case PublicKey_fromString cr (cw_pubKey opts) of
               None \<Rightarrow> (Inl (ClientError ''Invalid public key''), st)
             | Some pubKey \<Rightarrow>
                 let explicitId = (case cw_id opts of None \<Rightarrow> None
                                   | Some i \<Rightarrow> if i = [] then None else Some i) in
                 if (case explicitId of None \<Rightarrow> False | Some i \<Rightarrow> fetchWallet st i \<noteq> None)
                 then (Inl WALLET_ALREADY_EXISTS, st)
                 else
                   (case Wallet_create cr now
                           \<lparr> wo_id = (case explicitId of None \<Rightarrow> uuid | Some i \<Rightarrow> i),
                             wo_name = cw_name opts, wo_m = cw_m opts, wo_n = cw_n opts,
                             wo_singleAddress = (case cw_singleAddress opts of None \<Rightarrow> True | Some b \<Rightarrow> b),
                             wo_pubKey = pubKey, wo_coin = coin, wo_network = network,
                             wo_derivationStrategy = (if supportBIP44 then BIP44 else BIP45) \<rparr> of
                      Inl e \<Rightarrow> (Inl e, st)
                    | Inr w \<Rightarrow> (Inr (w_id w), storeWallet st w))))"

record join_opts =
  jo_walletId :: string
  jo_deviceId :: string
  jo_coin :: "string option"
  jo_name :: string
  jo_xPubKey :: string
  jo_account :: int
  jo_requestPubKey :: string
  jo_copayerSignature :: string
  jo_dryRun :: bool
  jo_supportBIP44 :: "bool option"

definition getCopayerHash :: "string \<Rightarrow> string \<Rightarrow> string \<Rightarrow> string" where
  "getCopayerHash name xPubKey requestPubKey = name @ ''|'' @ xPubKey @ ''|'' @ requestPubKey"

definition addCopayerToWallet ::
  "crypto \<Rightarrow> int \<Rightarrow> wallet \<Rightarrow> join_opts \<Rightarrow> storage \<Rightarrow> (error + string option \<times> wallet) \<times> storage" where
  "addCopayerToWallet cr now w opts st =
     (case Copayer_create cr now
             \<lparr> co_coin = w_coin w, co_name = jo_name opts, co_deviceId = jo_deviceId opts,
               co_account = jo_account opts, co_xPubKey = jo_xPubKey opts,
               co_requestPubKey = jo_requestPubKey opts,
               co_signature = jo_copayerSignature opts \<rparr> of
        Inl e \<Rightarrow> (Inl e, st)
      | Inr c \<Rightarrow>
          if fetchCopayerLookup st (cp_id c) \<noteq> None then (Inl COPAYER_REGISTERED, st)
          else if jo_dryRun opts then (Inr (None, w), st)
          else
            (case addCopayer w c of
               Inl e \<Rightarrow> (Inl e, st)
             | Inr w' \<Rightarrow>
                 let sv = \<lparr> sv_walletId = jo_walletId opts, sv_copayerId = cp_id c,
                            copayerIsSupportStaff = False \<rparr>;
                     st1 = storeWalletAndUpdateCopayersLookup st w';
                     st2 = notify sv ''NewCopayer''
                             [(''walletId'', jo_walletId opts), (''copayerId'', cp_id c),
                              (''copayerName'', cp_name c)] False st1;
                     st3 = (if isComplete w' \<and> isShared w'
                            then notify sv ''WalletComplete'' [(''walletId'', jo_walletId opts)] True st2
                            else st2)
                 in (Inr (Some (cp_id c), w'), st3)))"

definition joinWallet ::
  "crypto \<Rightarrow> int \<Rightarrow> join_opts \<Rightarrow> storage \<Rightarrow> (error + string option \<times> wallet) \<times> storage" where
  "joinWallet cr now opts st =
     (if jo_name opts = [] then (Inl (ClientError ''Invalid copayer name''), st)
      else
        let coin = (case jo_coin opts of None \<Rightarrow> ''obyte'' | Some c \<Rightarrow> if c = [] then ''obyte'' else c) in
        if \<not> checkValueInCollection coin (COINS cr) then (Inl (ClientError ''Invalid coin''), st)
        else
          (case HDPublicKey cr (jo_xPubKey opts) of
             None \<Rightarrow> (Inl (ClientError ''Invalid extended public key''), st)
           | Some xPubNetwork \<Rightarrow>
               let supportBIP44 = (case jo_supportBIP44 opts of None \<Rightarrow> True | Some b \<Rightarrow> b) in
               (case fetchWallet st (jo_walletId opts) of
                  None \<Rightarrow> (Inl WALLET_NOT_FOUND, st)
                | Some w \<Rightarrow>
                    if coin \<noteq> w_coin w
                    then (Inl (ClientError ''The wallet you are trying to join was created for a different coin''), st)
                    else if w_network w \<noteq> xPubNetwork
                    then (Inl (ClientError ''The wallet you are trying to join was created for a different network''), st)
                    else if supportBIP44 \<and> derivationStrategy w = BIP45
                    then (Inl (ClientError ''The wallet you are trying to join was created with an older version of the client app.''), st)
                    else if \<not> supportBIP44 \<and> derivationStrategy w = BIP44
                    then (Inl (UPGRADE_NEEDED ''To join this wallet you need to upgrade your client app.''), st)
                    else
                      (case verifyMessage cr
                              (getCopayerHash (jo_name opts) (jo_xPubKey opts) (jo_requestPubKey opts))
                              (jo_copayerSignature opts) (w_pubKey w) of
                         Inl e \<Rightarrow> (Inl e, st)
                       | Inr ok \<Rightarrow>
                           if \<not> ok then (Inl (ClientError []), st)
                           else if find (\<lambda>c. cp_xPubKey c = jo_xPubKey opts) (copayers w) \<noteq> None
                           then (Inl COPAYER_IN_WALLET, st)
                           else if of_nat (length (copayers w)) = w_n w then (Inl WALLET_FULL, st)
                           else addCopayerToWallet cr now w opts st))))"

text \<open>The notifications of a join that is not a dry run.\<close>

definition join_notes :: "join_opts \<Rightarrow> copayer \<Rightarrow> wallet \<Rightarrow> notification list" where
  "join_notes opts c w' =
     \<lparr> n_type = ''NewCopayer'', n_walletId = jo_walletId opts, n_creatorId = Some (cp_id c),
       n_data = [(''walletId'', jo_walletId opts), (''copayerId'', cp_id c),
                 (''copayerName'', cp_name c)] \<rparr> #
     (if isComplete w' \<and> isShared w'
      then [\<lparr> n_type = ''WalletComplete'', n_walletId = jo_walletId opts, n_creatorId = None,
               n_data = [(''walletId'', jo_walletId opts)] \<rparr>]
      else [])"

text \<open>
  The storages that wallet formation produces, from the empty storage. The identifier
  drawn by \<open>Uuid.v4()\<close> is new.
\<close>

inductive wallets_reachable :: "crypto \<Rightarrow> storage \<Rightarrow> bool" for cr :: crypto where
  initial: "wallets_reachable cr empty_storage"
| wallet_created:
    "wallets_reachable cr st \<Longrightarrow> fetchWallet st uuid = None \<Longrightarrow>
     createWallet cr now uuid opts st = (Inr wid, st') \<Longrightarrow> wallets_reachable cr st'"
| wallet_joined:
    "wallets_reachable cr st \<Longrightarrow> joinWallet cr now opts st = (Inr r, st') \<Longrightarrow>
     wallets_reachable cr st'"

definition walletCompleteCount :: "storage \<Rightarrow> string \<Rightarrow> nat" where
  "walletCompleteCount st walletId =
     length (filter (\<lambda>n. n_type n = ''WalletComplete'' \<and> n_walletId n = walletId)
               (st_notifications st))"

definition wallet_ok :: "storage \<Rightarrow> wallet \<Rightarrow> bool" where
  "wallet_ok st w =
     (w_n w \<in> \<int> \<longrightarrow>
      1 \<le> w_n w \<and> of_nat (length (copayers w)) \<le> w_n w \<and>
      (w_status w = WComplete \<longleftrightarrow> of_nat (length (copayers w)) = w_n w) \<and>
      (w_status w = WComplete \<longrightarrow> length (publicKeyRing w) = length (copayers w)) \<and>
      walletCompleteCount st (w_id w) = (if w_status w = WComplete \<and> 1 < w_n w then 1 else 0))"

definition wallets_inv :: "storage \<Rightarrow> bool" where
  "wallets_inv st =
     (distinct (map w_id (st_wallets st)) \<and>
      (\<forall>w\<in>set (st_wallets st). wallet_ok st w) \<and>
      (\<forall>n\<in>set (st_notifications st).
          n_type n = ''WalletComplete'' \<longrightarrow> n_walletId n \<in> w_id ` set (st_wallets st)))"

subsection \<open>Creating addresses (_canCreateAddress, createAddress)\<close>

definition takeRight :: "'a list \<Rightarrow> nat \<Rightarrow> 'a list" where
  "takeRight xs n = drop (length xs - n) xs"

definition latestAddresses :: "storage \<Rightarrow> string \<Rightarrow> address list" where
  "latestAddresses st walletId =
     takeRight (filter (\<lambda>a. \<not> a_isChange a) (fetchAddresses st walletId)) MAX_MAIN_ADDRESS_GAP"

text \<open>
  The probe visits the tail from its last address backwards and stops at the first
  address with activity, or at the first error of the explorer.
\<close>

fun probe :: "explorer \<Rightarrow> address list \<Rightarrow> error + address option" where
  "probe ex [] = Inr None"
| "probe ex (a # as) =
     (case getAddressActivity ex (a_address a) of
        Inl e \<Rightarrow> Inl (ExternalError e)
      | Inr res \<Rightarrow> if res then Inr (Some a) else probe ex as)"

text \<open>Modelled from the spec: lib/storage.js is missing; an address is stored under its
  wallet id and address string.\<close>
definition storeAddress :: "storage \<Rightarrow> address \<Rightarrow> storage" where
  "storeAddress st a =
     st\<lparr>st_addresses :=
          upsert (\<lambda>b. a_walletId b = a_walletId a \<and> a_address b = a_address a) a (st_addresses st)\<rparr>"

definition canCreateAddress :: "server \<Rightarrow> explorer \<Rightarrow> bool \<Rightarrow> storage \<Rightarrow> (error + bool) \<times> storage" where
  "canCreateAddress sv ex ignoreMaxGap st =
     (if ignoreMaxGap then (Inr True, st)
      else
        let latest = latestAddresses st (sv_walletId sv) in
        if length latest < MAX_MAIN_ADDRESS_GAP \<or> (\<exists>a\<in>set latest. a_hasActivity a)
        then (Inr True, st)
        else
          (case probe ex (rev latest) of
             Inl e \<Rightarrow> (Inl e, st)
           | Inr None \<Rightarrow> (Inr False, st)
           | Inr (Some a) \<Rightarrow> (Inr True, storeAddress st (a\<lparr>a_hasActivity := True\<rparr>))))"

text \<open>Modelled from the spec: lib/model/addressmanager.js is missing; the receive counter of
  the wallet gives the next path \<open>m/0/index\<close> and is then advanced.\<close>
definition getNewAddressPath :: "wallet \<Rightarrow> string \<times> wallet" where
  "getNewAddressPath w =
     (''m/0/'' @ string_of_nat (receiveAddressIndex w),
      w\<lparr>receiveAddressIndex := Suc (receiveAddressIndex w)\<rparr>)"

text \<open>\<open>Wallet.prototype.createAddress\<close> for a receive address; \<open>None\<close> when it throws.\<close>

definition Wallet_createAddress :: "crypto \<Rightarrow> wallet \<Rightarrow> (address \<times> wallet) option" where
  "Wallet_createAddress cr w =
     (if \<not> isComplete w then None
      else
        (case getNewAddressPath w of
           (path, w') \<Rightarrow>
             (case deriveAddress cr (definitionTemplate w') (map cp_xPubKey (copayers w')) path of
                None \<Rightarrow> None
              | Some a \<Rightarrow>
                  Some (\<lparr> a_address = a, a_walletId = w_id w', a_path = path, a_isChange = False,
                          a_hasActivity = False \<rparr>, w'))))"

definition createNewAddress ::
  "server \<Rightarrow> crypto \<Rightarrow> wallet \<Rightarrow> storage \<Rightarrow> (error + address) \<times> storage" where
  "createNewAddress sv cr w st =
     (case Wallet_createAddress cr w of
        None \<Rightarrow> (Inl (ErrorMessage ''Bad xPub''), st)
      | Some (a, w') \<Rightarrow>
          (Inr a, notify sv ''NewAddress'' [(''address'', a_address a)] False
                    (storeAddress (storeWallet st w') a)))"

definition getFirstAddress ::
  "server \<Rightarrow> crypto \<Rightarrow> wallet \<Rightarrow> storage \<Rightarrow> (error + address) \<times> storage" where
  "getFirstAddress sv cr w st =
     (case fetchAddresses st (sv_walletId sv) of
        [] \<Rightarrow> createNewAddress sv cr w st
      | a # as \<Rightarrow> (Inr a, st))"

text \<open>The part of \<open>createAddress\<close> that runs under the wallet lock, after the gap check.\<close>

definition createAddressLocked :: "server \<Rightarrow> crypto \<Rightarrow> storage \<Rightarrow> (error + address) \<times> storage" where
  "createAddressLocked sv cr st =
     (case getWallet sv st of
        Inl e \<Rightarrow> (Inl e, st)
      | Inr w \<Rightarrow>
          if \<not> isComplete w then (Inl WALLET_NOT_COMPLETE, st)
          else if scanStatus w = Some ''error'' then (Inl WALLET_NEED_SCAN, st)
          else if singleAddress w then getFirstAddress sv cr w st
          else createNewAddress sv cr w st)"

definition createAddress ::
  "server \<Rightarrow> crypto \<Rightarrow> explorer \<Rightarrow> bool \<Rightarrow> storage \<Rightarrow> (error + address) \<times> storage" where
  "createAddress sv cr ex ignoreMaxGap st =
     (case canCreateAddress sv ex ignoreMaxGap st of
        (Inl e, st') \<Rightarrow> (Inl e, st')
      | (Inr canCreate, st') \<Rightarrow>
          if \<not> canCreate then (Inl MAIN_ADDRESS_GAP_REACHED, st')
          else createAddressLocked sv cr st')"

subsection \<open>The backoff governor (_canCreateTx, createTx)\<close>

text \<open>Modelled from the spec: lib/storage.js is missing; the last proposals of a copayer
  are the proposals of the wallet that the copayer created, the most recent first, capped
  at \<open>limit\<close>.\<close>
definition fetchLastTxs :: "storage \<Rightarrow> string \<Rightarrow> string \<Rightarrow> nat \<Rightarrow> txproposal list" where
  "fetchLastTxs st walletId creatorId limit =
     take limit (rev (sort_key txp_createdOn
       (filter (\<lambda>t. txp_walletId t = walletId \<and> txp_creatorId t = creatorId) (st_txps st))))"

definition canCreateTx :: "server \<Rightarrow> int \<Rightarrow> storage \<Rightarrow> bool" where
  "canCreateTx sv now st =
     (let txs = fetchLastTxs st (sv_walletId sv) (sv_copayerId sv) (5 + BACKOFF_OFFSET) in
      if length txs = 0 then True
      else
        let lastRejections = takeWhile (\<lambda>t. txp_status t = Rejected) txs;
            exceededRejections = int (length lastRejections) - int BACKOFF_OFFSET
        in
        if exceededRejections \<le> 0 then True
        else
          let lastTxTs = txp_createdOn (hd txs);
              timeSinceLastRejection = now - lastTxTs;
              backoffTime = BACKOFF_TIME
          in timeSinceLastRejection > backoffTime)"

text \<open>
  \<open>createTx\<close> runs under the wallet lock; the required options \<open>app\<close> and \<open>params\<close> are
  taken to be present. The checks of the options and the composition of the draft belong
  to the ledger library; their results are given: \<open>validation\<close> is the
  error of \<open>_validateAndSanitizeTxOpts\<close>, if any, and \<open>composition\<close> is the error of the
  change-address and composition stages or the draft, with the change address when a new
  one was derived.
\<close>

record create_tx_opts =
  ct_txProposalId :: "string option"
  ct_dryRun :: bool
  validation :: "error option"
  composition :: "error + (txproposal \<times> address option)"

definition checkTxpAlreadyExists :: "server \<Rightarrow> string option \<Rightarrow> storage \<Rightarrow> txproposal option" where
  "checkTxpAlreadyExists sv txProposalId st =
     (case txProposalId of
        None \<Rightarrow> None
      | Some i \<Rightarrow> if i = [] then None else fetchTx st (sv_walletId sv) i)"

definition createTxStages ::
  "server \<Rightarrow> int \<Rightarrow> wallet \<Rightarrow> create_tx_opts \<Rightarrow> storage \<Rightarrow> (error + txproposal) \<times> storage" where
  "createTxStages sv now wallet opts st =
     (case validation opts of
        Some e \<Rightarrow> (Inl e, st)
      | None \<Rightarrow>
          if \<not> canCreateTx sv now st then (Inl TX_CANNOT_CREATE, st)
          else
            (case composition opts of
               Inl e \<Rightarrow> (Inl e, st)
             | Inr (txp, newChange) \<Rightarrow>
                 let st1 = (case newChange of
                              None \<Rightarrow> st
                            | Some a \<Rightarrow>
                                if singleAddress wallet \<or> ct_dryRun opts then st
                                else storeAddress (storeWallet st wallet) (a\<lparr>a_hasActivity := True\<rparr>))
                 in if ct_dryRun opts then (Inr txp, st1)
                    else (Inr txp, storeTx st1 (w_id wallet) txp)))"

definition createTx ::
  "server \<Rightarrow> int \<Rightarrow> create_tx_opts \<Rightarrow> storage \<Rightarrow> (error + txproposal) \<times> storage" where
  "createTx sv now opts st =
     (case getWallet sv st of
        Inl e \<Rightarrow> (Inl e, st)
      | Inr wallet \<Rightarrow>
          if \<not> isComplete wallet then (Inl WALLET_NOT_COMPLETE, st)
          else if scanStatus wallet = Some ''error'' then (Inl WALLET_NEED_SCAN, st)
          else
            (case checkTxpAlreadyExists sv (ct_txProposalId opts) st of
               None \<Rightarrow> createTxStages sv now wallet opts st
             | Some tx \<Rightarrow>
                 if txp_status tx \<noteq> Temporary then (Inr tx, st)
                 else createTxStages sv now wallet opts st))"

subsection \<open>The monitor on stable units (lib/blockchainmonitor.js, _handleStableJoint)\<close>

text \<open>Modelled from the spec: lib/storage.js is missing; a proposal is found by the hash of
  its unit, which is its \<open>txid\<close>.\<close>
definition fetchTxByHash :: "storage \<Rightarrow> string \<Rightarrow> txproposal option" where
  "fetchTxByHash st hash = find (\<lambda>t. txid t = Some hash) (st_txps st)"

text \<open>Modelled from the spec: lib/storage.js is missing; the active subscriptions of all
  copayers.\<close>
definition fetchActiveTxConfirmationSubs :: "storage \<Rightarrow> tx_confirmation_sub list" where
  "fetchActiveTxConfirmationSubs st = filter sub_isActive (st_subs st)"

text \<open>Modelled from the spec: lib/storage.js is missing; a subscription is stored under its
  copayer and its txid.\<close>
definition storeTxConfirmationSub :: "storage \<Rightarrow> tx_confirmation_sub \<Rightarrow> storage" where
  "storeTxConfirmationSub st sub =
     st\<lparr>st_subs := upsert (\<lambda>s. sub_copayerId s = sub_copayerId sub \<and> sub_txid s = sub_txid sub)
                         sub (st_subs st)\<rparr>"

text \<open>
  The rows are the hashes of the good units at the main chain index that became stable;
  the query on the ledger database is outside the repository. The first stage marks the
  proposal of each row as stable and stores it.
\<close>

fun markStable :: "int \<Rightarrow> string list \<Rightarrow> storage \<Rightarrow> (error + unit) \<times> storage" where
  "markStable now [] st = (Inr (), st)"
| "markStable now (row # rows) st =
     (case fetchTxByHash st row of
        None \<Rightarrow> markStable now rows st
      | Some txp \<Rightarrow>
          (case setStable now txp of
             Inl e \<Rightarrow> (Inl e, st)
           | Inr txp' \<Rightarrow> markStable now rows (storeTx st (txp_walletId txp') txp')))"

text \<open>
  \<open>processTriggeredSubs\<close> stores the subscription as inactive and then builds the
  notification, whose data reads \<open>coin\<close>; no variable of that name is in scope, so
  building it raises a \<open>ReferenceError\<close>.
\<close>

fun processTriggeredSubs :: "tx_confirmation_sub list \<Rightarrow> storage \<Rightarrow> (error + unit) \<times> storage" where
  "processTriggeredSubs [] st = (Inr (), st)"
| "processTriggeredSubs (sub # subs) st =
     (Inl (Thrown ''ReferenceError''), storeTxConfirmationSub st (sub\<lparr>sub_isActive := False\<rparr>))"

text \<open>
  The second stage indexes the active subscriptions by txid, \<open>_.keyBy(subs, 'txid')\<close>,
  and visits the rows. For the first row that has a subscription it evaluates
  \<open>indexedSubs[txid]\<close>; no variable \<open>txid\<close> is in scope, so this raises a
  \<open>ReferenceError\<close> before any subscription is collected. Otherwise the list of
  triggered subscriptions is empty.
\<close>

definition indexedSubs :: "tx_confirmation_sub list \<Rightarrow> string \<Rightarrow> tx_confirmation_sub option" where
  "indexedSubs subs k = find (\<lambda>s. sub_txid s = k) (rev subs)"

definition fireSubs :: "string list \<Rightarrow> storage \<Rightarrow> (error + unit) \<times> storage" where
  "fireSubs rows st =
     (let subs = fetchActiveTxConfirmationSubs st in
      case filter (\<lambda>row. indexedSubs subs row \<noteq> None) rows of
        [] \<Rightarrow> processTriggeredSubs [] st
      | row # _ \<Rightarrow> (Inl (Thrown ''ReferenceError''), st))"

definition handleStableJoint :: "int \<Rightarrow> string list \<Rightarrow> storage \<Rightarrow> (error + unit) \<times> storage" where
  "handleStableJoint now rows st =
     (if length rows > 0 then
        (case markStable now rows st of
           (Inl e, st') \<Rightarrow> (Inl e, st')
         | (Inr _, st') \<Rightarrow> fireSubs rows st')
      else (Inr (), st))"

subsection \<open>Authentication (WalletService.getInstance, getInstanceWithAuth)\<close>

text \<open>
  The client version is given as \<open>Utils.parseVersion\<close> returns it: nothing for a missing
  version string, otherwise the agent with major and minor number. A number of the
  version can be missing from the string (\<open>null\<close>), unreadable (\<open>NaN\<close>) or absent from the
  object (\<open>undefined\<close>). Only \<open>major === 0\<close> and \<open>minor < 1\<close> are asked, and \<open>null < 1\<close>
  holds in the language of the source.
\<close>

datatype js_number = Num int | Null | NaN | Undefined

record version =
  v_agent :: string
  v_major :: js_number
  v_minor :: js_number

definition less_than_one :: "js_number \<Rightarrow> bool" where
  "less_than_one x = (case x of Num k \<Rightarrow> k < 1 | Null \<Rightarrow> True | NaN \<Rightarrow> False | Undefined \<Rightarrow> False)"

text \<open>\<open>getInstance\<close> refuses old clients; the instance it returns has no wallet and no
  copayer yet.\<close>

definition getInstance :: "version option \<Rightarrow> error + unit" where
  "getInstance clientVersion =
     (case clientVersion of
        None \<Rightarrow> Inr ()
      | Some v \<Rightarrow>
          if v_agent v = ''owc'' \<and> v_major v = Num 0 \<and> less_than_one (v_minor v)
          then Inl (UPGRADE_NEEDED ''OWC clients < 0.1 are not supported.'')
          else Inr ())"

text \<open>The options of a request; a field that the object does not own is \<open>None\<close>.\<close>

record auth_opts =
  ao_copayerId :: "string option"
  ao_message :: "string option"
  ao_signature :: "string option"
  ao_session :: "string option"
  ao_clientVersion :: "version option"
  ao_walletId :: "string option"

definition checkRequired :: "(string \<times> 'a option) list \<Rightarrow> error option" where
  "checkRequired args =
     (case filter (\<lambda>f. snd f = None) args of
        [] \<Rightarrow> None
      | f # _ \<Rightarrow> Some (ClientError (''Required argument: '' @ fst f @ '' missing.'')))"

definition withSignature :: "crypto \<Rightarrow> auth_opts \<Rightarrow> storage \<Rightarrow> error + server" where
  "withSignature cr opts st =
     (case checkRequired [(''copayerId'', ao_copayerId opts), (''message'', ao_message opts),
                          (''signature'', ao_signature opts)] of
        Some e \<Rightarrow> Inl e
      | None \<Rightarrow>
          (case getInstance (ao_clientVersion opts) of
             Inl e \<Rightarrow> Inl e
           | Inr _ \<Rightarrow>
               (case fetchCopayerLookup st (the (ao_copayerId opts)) of
                  None \<Rightarrow> Inl (NOT_AUTHORIZED ''Copayer not found'')
                | Some copayer \<Rightarrow>
                    if \<not> cl_isSupportStaff copayer then
                      (case getSigningKey cr (the (ao_message opts)) (the (ao_signature opts))
                              (cl_requestPubKeys copayer) of
                         Inl e \<Rightarrow> Inl e
                       | Inr None \<Rightarrow> Inl (NOT_AUTHORIZED ''Invalid signature'')
                       | Inr (Some _) \<Rightarrow>
                           Inr \<lparr> sv_walletId = cl_walletId copayer,
                                 sv_copayerId = the (ao_copayerId opts),
                                 copayerIsSupportStaff = False \<rparr>)
                    else
                      Inr \<lparr> sv_walletId = (if truthy_string (ao_walletId opts)
                                            then the (ao_walletId opts) else cl_walletId copayer),
                            sv_copayerId = the (ao_copayerId opts),
                            copayerIsSupportStaff = True \<rparr>)))"

text \<open>Modelled from the spec: lib/storage.js and lib/model/session.js are missing; the
  session of a copayer is given by its id and by whether it is still valid.\<close>
record session =
  s_id :: string
  s_isValid :: bool

definition withSession :: "(string \<Rightarrow> session option) \<Rightarrow> auth_opts \<Rightarrow> storage \<Rightarrow> error + server" where
  "withSession getSession opts st =
     (case checkRequired [(''copayerId'', ao_copayerId opts), (''session'', ao_session opts)] of
        Some e \<Rightarrow> Inl e
      | None \<Rightarrow>
          (case getInstance (ao_clientVersion opts) of
             Inl e \<Rightarrow> Inl e
           | Inr _ \<Rightarrow>
               (case getSession (the (ao_copayerId opts)) of
                  None \<Rightarrow> Inl (NOT_AUTHORIZED ''Session expired'')
                | Some s \<Rightarrow>
                    if \<not> (Some (s_id s) = ao_session opts \<and> s_isValid s)
                    then Inl (NOT_AUTHORIZED ''Session expired'')
                    else
                      (case fetchCopayerLookup st (the (ao_copayerId opts)) of
                         None \<Rightarrow> Inl (NOT_AUTHORIZED ''Copayer not found'')
                       | Some copayer \<Rightarrow>
                           Inr \<lparr> sv_walletId = cl_walletId copayer,
                                 sv_copayerId = the (ao_copayerId opts),
                                 copayerIsSupportStaff = False \<rparr>))))"

definition getInstanceWithAuth ::
  "crypto \<Rightarrow> (string \<Rightarrow> session option) \<Rightarrow> auth_opts \<Rightarrow> storage \<Rightarrow> error + server" where
  "getInstanceWithAuth cr getSession opts st =
     (if truthy_string (ao_session opts) then withSession getSession opts st
      else withSignature cr opts st)"

subsection \<open>The life of a proposal\<close>

text \<open>
  The proposals the service can hold: created for a wallet with \<open>1 \<le> m \<le> n\<close> (the
  limits \<open>createWallet\<close> enforces), then returned by one of the operations on a stored
  proposal. The monitor and \<open>getPendingTxs\<close> record a broadcast they see in the ledger
  through \<open>_processBroadcast\<close>; the monitor sets the stable flag.
\<close>

inductive reachable :: "crypto \<Rightarrow> txproposal \<Rightarrow> bool" for cr :: crypto where
  created:
    "1 \<le> o_walletM opts \<Longrightarrow> o_walletM opts \<le> o_walletN opts \<Longrightarrow>
     reachable cr (TxProposal_create now opts)"
| published:
    "reachable cr t \<Longrightarrow> fetchTx st (sv_walletId sv) pid = Some t \<Longrightarrow>
     publishTx sv cr ex now pid s st = (Inr t', st') \<Longrightarrow> reachable cr t'"
| signed:
    "reachable cr t \<Longrightarrow> fetchTx st (sv_walletId sv) pid = Some t \<Longrightarrow>
     signTx sv cr now pid sigs st = (Inr t', st') \<Longrightarrow> reachable cr t'"
| rejected:
    "reachable cr t \<Longrightarrow> fetchTx st (sv_walletId sv) pid = Some t \<Longrightarrow>
     rejectTx sv now pid reason st = (Inr t', st') \<Longrightarrow> reachable cr t'"
| broadcast:
    "reachable cr t \<Longrightarrow> fetchTx st (sv_walletId sv) pid = Some t \<Longrightarrow>
     broadcastTx sv ex now pid st = (Inr t', st') \<Longrightarrow> reachable cr t'"
| seen_in_ledger:
    "reachable cr t \<Longrightarrow> txp_status t = Accepted \<Longrightarrow>
     processBroadcast sv now t True st = (Inr t', st') \<Longrightarrow> reachable cr t'"
| stable:
    "reachable cr t \<Longrightarrow> setStable now t = Inr t' \<Longrightarrow> reachable cr t'"

text \<open>What holds of every such proposal, status by status.\<close>

definition params_ok :: "txproposal \<Rightarrow> bool" where
  "params_ok t =
     (1 \<le> walletM t \<and> walletM t \<le> walletN t \<and>
      requiredSignatures t = walletM t \<and>
      requiredRejections t = min (walletM t) (walletN t - walletM t + 1))"

definition status_ok :: "crypto \<Rightarrow> txproposal \<Rightarrow> bool" where
  "status_ok cr t =
     (case txp_status t of
        Temporary \<Rightarrow> txp_actions t = []
      | Pending \<Rightarrow>
          int (votes t Accept) < requiredSignatures t \<and> int (votes t Reject) < requiredRejections t
      | Rejected \<Rightarrow>
          int (votes t Accept) < requiredSignatures t \<and> requiredRejections t \<le> int (votes t Reject)
      | _ \<Rightarrow>
          requiredSignatures t \<le> int (votes t Accept) \<and> int (votes t Reject) < requiredRejections t \<and>
          (\<exists>u. txid t = Some (getUnitHash cr u)) \<and> u_unit (txp_unit t) = txid t)"

definition quorum_inv :: "crypto \<Rightarrow> txproposal \<Rightarrow> bool" where
  "quorum_inv cr t = (params_ok t \<and> status_ok cr t)"

subsection \<open>A running example: a 2-of-3 wallet and one payment proposal\<close>

text \<open>
  A toy instance of the primitives: the signature of a text under a key is the text, a
  slash and the key. Alice, bob and carol hold the keys \<open>xpubA\<close>, \<open>xpubB\<close>, \<open>xpubC\<close>.
\<close>

definition ex_crypto :: crypto where
  "ex_crypto =
     \<lparr> getUnitHashToSign = (\<lambda>u. ''HASH-TO-SIGN''),
       getUnitHash = (\<lambda>u. ''UNIT-HASH''),
       HDPublicKey = (\<lambda>x. if x \<in> {''xpubA'', ''xpubB'', ''xpubC''} then Some ''livenet'' else None),
       deriveChild = (\<lambda>x path.
          if x = ''xpubA'' then Some ''PKa''
          else if x = ''xpubB'' then Some ''PKb''
          else if x = ''xpubC'' then Some ''PKc'' else None),
       ecdsaVerify = (\<lambda>hash sig pubKey. sig = hash @ ''/'' @ pubKey),
       secp256k1Verify = (\<lambda>text sig pubKey. sig = text @ ''/'' @ pubKey),
       xPubToCopayerId = (\<lambda>x.
          if x = ''xpubA'' then ''alice''
          else if x = ''xpubB'' then ''bob''
          else if x = ''xpubC'' then ''carol'' else ''id:'' @ x),
       PublicKey_fromString = (\<lambda>x. if x = [] then None else Some x),
       deriveAddress = (\<lambda>template xpubs path. Some (''ADDR@'' @ path)),
       COINS = [''obyte''], NETWORKS = [''livenet'', ''testnet''] \<rparr>"

definition ex_copayer :: "string \<Rightarrow> string \<Rightarrow> string \<Rightarrow> copayer" where
  "ex_copayer cid xpub dev =
     \<lparr> cp_id = cid, cp_createdOn = 900, cp_coin = ''obyte'', cp_name = cid, cp_xPubKey = xpub,
       cp_account = 0, cp_deviceId = dev, cp_requestPubKey = ''RK-'' @ cid,
       cp_signature = cid @ ''|'' @ xpub @ ''|RK-'' @ cid @ ''/WPK'',
       cp_requestPubKeys = [\<lparr> rk_key = ''RK-'' @ cid,
                               rk_signature = cid @ ''|'' @ xpub @ ''|RK-'' @ cid @ ''/WPK'',
                               rk_selfSigned = False \<rparr>] \<rparr>"

definition ex_wallet :: wallet where
  "ex_wallet =
     \<lparr> w_id = ''w1'', w_createdOn = 900, w_name = ''shared'', w_m = 2, w_n = 3,
       singleAddress = False, w_status = WComplete,
       copayers = [ex_copayer ''alice'' ''xpubA'' ''devA'', ex_copayer ''bob'' ''xpubB'' ''devB'',
                   ex_copayer ''carol'' ''xpubC'' ''devC''],
       publicKeyRing =
         [\<lparr> re_xPubKey = ''xpubA'', re_requestPubKey = ''RK-alice'', re_deviceId = ''devA'', re_account = 0 \<rparr>,
          \<lparr> re_xPubKey = ''xpubB'', re_requestPubKey = ''RK-bob'', re_deviceId = ''devB'', re_account = 0 \<rparr>,
          \<lparr> re_xPubKey = ''xpubC'', re_requestPubKey = ''RK-carol'', re_deviceId = ''devC'', re_account = 0 \<rparr>],
       w_pubKey = ''WPK'', w_coin = ''obyte'', w_network = ''livenet'',
       derivationStrategy = BIP44,
       definitionTemplate = DT_r_of_set 2 [''$pubkey@devA'', ''$pubkey@devB'', ''$pubkey@devC''],
       scanStatus = None, receiveAddressIndex = 1 \<rparr>"

text \<open>
  The formation of that wallet: created at time 900 under the identifier \<open>w1\<close>, then
  joined by alice, bob and carol, each with the signature of the wallet key \<open>WPK\<close>.
\<close>

definition ex_create_opts :: create_wallet_opts where
  "ex_create_opts =
     \<lparr> cw_id = Some ''w1'', cw_name = ''shared'', cw_m = 2, cw_n = 3, cw_pubKey = ''WPK'',
       cw_coin = None, cw_network = None, cw_singleAddress = Some False, cw_supportBIP44 = None \<rparr>"

definition ex_join :: "string \<Rightarrow> string \<Rightarrow> string \<Rightarrow> join_opts" where
  "ex_join cid xpub dev =
     \<lparr> jo_walletId = ''w1'', jo_deviceId = dev, jo_coin = None, jo_name = cid,
       jo_xPubKey = xpub, jo_account = 0, jo_requestPubKey = ''RK-'' @ cid,
       jo_copayerSignature = cid @ ''|'' @ xpub @ ''|RK-'' @ cid @ ''/WPK'',
       jo_dryRun = False, jo_supportBIP44 = None \<rparr>"

definition ex_formation_0 :: storage where
  "ex_formation_0 = snd (createWallet ex_crypto 900 ''fresh-uuid'' ex_create_opts empty_storage)"

definition ex_formation_1 :: storage where
  "ex_formation_1 = snd (joinWallet ex_crypto 900 (ex_join ''alice'' ''xpubA'' ''devA'') ex_formation_0)"

definition ex_formation_2 :: storage where
  "ex_formation_2 = snd (joinWallet ex_crypto 900 (ex_join ''bob'' ''xpubB'' ''devB'') ex_formation_1)"

definition ex_formation_3 :: storage where
  "ex_formation_3 = snd (joinWallet ex_crypto 900 (ex_join ''carol'' ''xpubC'' ''devC'') ex_formation_2)"

text \<open>The wallet while it forms, with the copayers that have joined.\<close>

definition ex_forming :: "copayer list \<Rightarrow> wallet" where
  "ex_forming cs =
     ex_wallet\<lparr> w_status := WPending, copayers := cs, publicKeyRing := [],
                definitionTemplate := DT_r_of_set 2 (map (\<lambda>c. ''$pubkey@'' @ cp_deviceId c) cs),
                receiveAddressIndex := 0 \<rparr>"

definition ex_lookup :: "copayer \<Rightarrow> copayer_lookup" where
  "ex_lookup c =
     \<lparr> cl_copayerId = cp_id c, cl_walletId = ''w1'', cl_requestPubKeys = cp_requestPubKeys c,
       cl_isSupportStaff = False \<rparr>"

definition ex_new_copayer :: "copayer \<Rightarrow> notification" where
  "ex_new_copayer c =
     \<lparr> n_type = ''NewCopayer'', n_walletId = ''w1'', n_creatorId = Some (cp_id c),
       n_data = [(''walletId'', ''w1''), (''copayerId'', cp_id c), (''copayerName'', cp_name c)] \<rparr>"

definition ex_wallet_complete :: notification where
  "ex_wallet_complete =
     \<lparr> n_type = ''WalletComplete'', n_walletId = ''w1'', n_creatorId = None,
       n_data = [(''walletId'', ''w1'')] \<rparr>"

definition ex_address :: address where
  "ex_address =
     \<lparr> a_address = ''ADDR1'', a_walletId = ''w1'', a_path = ''m/0/0'', a_isChange = False,
       a_hasActivity = False \<rparr>"

definition ex_wallet_storage :: storage where
  "ex_wallet_storage = empty_storage\<lparr>st_wallets := [ex_wallet], st_addresses := [ex_address]\<rparr>"

text \<open>The storage that holds the wallet, its address and one proposal.\<close>

definition ex_storage_with :: "txproposal \<Rightarrow> storage" where
  "ex_storage_with t = storeTx ex_wallet_storage ''w1'' t"

definition ex_alice :: server where
  "ex_alice = \<lparr> sv_walletId = ''w1'', sv_copayerId = ''alice'', copayerIsSupportStaff = False \<rparr>"

definition ex_bob :: server where
  "ex_bob = \<lparr> sv_walletId = ''w1'', sv_copayerId = ''bob'', copayerIsSupportStaff = False \<rparr>"

text \<open>The explorer knows the output \<open>U1|1|2\<close> at the address of the wallet; the hub is up,
  or down, or down for a unit that is already in the ledger.\<close>

definition ex_hub_ok :: explorer where
  "ex_hub_ok =
     \<lparr> broadcastJoint = (\<lambda>u. None), getTransaction = (\<lambda>x. Inr False),
       getAddressActivity = (\<lambda>a. Inr False),
       getUtxos = (\<lambda>as. Inr [\<lparr> utxo_unit = ''U1'', utxo_message_index = 1, utxo_output_index = 2,
                                 utxo_address = ''ADDR1'', utxo_amount = 1000,
                                 locked = False, spent = False \<rparr>]) \<rparr>"

definition ex_hub_down :: explorer where
  "ex_hub_down = ex_hub_ok\<lparr>broadcastJoint := (\<lambda>u. Some ''hub unreachable'')\<rparr>"

definition ex_hub_down_unit_known :: explorer where
  "ex_hub_down_unit_known = ex_hub_down\<lparr>getTransaction := (\<lambda>x. Inr (x = ''UNIT-HASH''))\<rparr>"

text \<open>The draft of alice spends \<open>U1|1|2\<close>; it is created at time 1000.\<close>

definition ex_unit :: ounit where
  "ex_unit =
     \<lparr> u_unit = None,
       u_authors = [\<lparr> au_address = ''ADDR1'', au_authentifiers = [] \<rparr>],
       u_messages =
         [\<lparr> msg_app = ''payment'',
            msg_payload = Some
              \<lparr> pl_inputs = Some [\<lparr> in_unit = Some ''U1'', in_message_index = Some 1,
                                     in_output_index = Some 2 \<rparr>],
                pl_outputs = [\<lparr> out_address = ''DEST'', out_amount = 100 \<rparr>] \<rparr> \<rparr>] \<rparr>"

definition ex_opts :: txp_opts where
  "ex_opts =
     \<lparr> o_id = ''p1'', o_walletId = ''w1'', o_creatorId = ''alice'',
       o_walletM = 2, o_walletN = 3, o_unit = ex_unit,
       o_signingInfo =
         [(''ADDR1'', \<lparr> si_walletId = ''w1'', si_path = ''m/0/0'',
                        si_signingPaths = [(''PKa'', ''r.0''), (''PKb'', ''r.1''), (''PKc'', ''r.2'')] \<rparr>)] \<rparr>"

definition ex_created :: txproposal where
  "ex_created = TxProposal_create 1000 ex_opts"

text \<open>Published by alice at time 1100.\<close>

definition ex_pending :: txproposal where
  "ex_pending = ex_created\<lparr>proposalSignature := Some ''HASH-TO-SIGN/RK-alice'', txp_status := Pending\<rparr>"

text \<open>Signed by alice at time 1400, then by bob at time 1500: accepted, with its txid.\<close>

definition ex_sigs_alice :: signatures where
  "ex_sigs_alice = [(''ADDR1'', [(''r.0'', ''HASH-TO-SIGN/PKa'')])]"

definition ex_sigs_bob :: signatures where
  "ex_sigs_bob = [(''ADDR1'', [(''r.1'', ''HASH-TO-SIGN/PKb'')])]"

definition ex_signed_by_alice :: txproposal where
  "ex_signed_by_alice =
     ex_pending
       \<lparr> txp_unit := ex_unit\<lparr>u_authors :=
           [\<lparr> au_address = ''ADDR1'', au_authentifiers = [(''r.0'', ''HASH-TO-SIGN/PKa'')] \<rparr>]\<rparr>,
         txp_actions :=
           [TxProposalAction_create 1400 ''alice'' Accept (Some ex_sigs_alice) (Some ''xpubA'') None] \<rparr>"

definition ex_accepted :: txproposal where
  "ex_accepted =
     ex_pending
       \<lparr> txp_unit := ex_unit\<lparr>u_unit := Some ''UNIT-HASH'', u_authors :=
           [\<lparr> au_address = ''ADDR1'',
              au_authentifiers = [(''r.0'', ''HASH-TO-SIGN/PKa''), (''r.1'', ''HASH-TO-SIGN/PKb'')] \<rparr>]\<rparr>,
         txp_actions :=
           [TxProposalAction_create 1400 ''alice'' Accept (Some ex_sigs_alice) (Some ''xpubA'') None,
            TxProposalAction_create 1500 ''bob'' Accept (Some ex_sigs_bob) (Some ''xpubB'') None],
         txp_status := Accepted,
         txid := Some ''UNIT-HASH'' \<rparr>"

definition ex_accepted_storage :: storage where
  "ex_accepted_storage = ex_storage_with ex_accepted"

text \<open>Broadcast at time 2000.\<close>

definition ex_broadcasted :: txproposal where
  "ex_broadcasted = ex_accepted\<lparr>txp_status := Broadcasted, broadcastedOn := Some 2000\<rparr>"

text \<open>A forged signature that bob submits for the pending proposal.\<close>

definition ex_pending_storage :: storage where
  "ex_pending_storage = ex_storage_with ex_pending"

definition ex_wrong_signatures :: signatures where
  "ex_wrong_signatures = [(''ADDR1'', [(''r.1'', ''forged'')])]"

text \<open>Another course: bob is the first to sign the published proposal, at time 1500.\<close>

definition ex_signed_by_bob :: txproposal where
  "ex_signed_by_bob =
     ex_pending
       \<lparr> txp_unit := ex_unit\<lparr>u_authors :=
           [\<lparr> au_address = ''ADDR1'', au_authentifiers = [(''r.1'', ''HASH-TO-SIGN/PKb'')] \<rparr>]\<rparr>,
         txp_actions :=
           [TxProposalAction_create 1500 ''bob'' Accept (Some ex_sigs_bob) (Some ''xpubB'') None] \<rparr>"

definition ex_removal_storage :: storage where
  "ex_removal_storage = ex_storage_with ex_signed_by_bob"

text \<open>
  The wallet with twenty receive addresses \<open>A0\<close> to \<open>A19\<close>, none with recorded activity;
  an explorer that has seen nothing, and one that has seen \<open>A7\<close> in the ledger.
\<close>

definition ex_gap_address :: "nat \<Rightarrow> address" where
  "ex_gap_address i =
     \<lparr> a_address = ''A'' @ string_of_nat i, a_walletId = ''w1'',
       a_path = ''m/0/'' @ string_of_nat i, a_isChange = False, a_hasActivity = False \<rparr>"

definition ex_gap_storage :: storage where
  "ex_gap_storage =
     empty_storage\<lparr> st_wallets := [ex_wallet\<lparr>receiveAddressIndex := 20\<rparr>],
                    st_addresses := map ex_gap_address [0..<20] \<rparr>"

definition ex_gap_explorer :: explorer where
  "ex_gap_explorer = ex_hub_ok\<lparr>getAddressActivity := (\<lambda>a. Inr (a = ''A7''))\<rparr>"

text \<open>
  Histories of alice. The proposal \<open>ex_rejected i\<close> is created at time 1000 + i and rejected by
  bob and carol at time 1300; the proposal \<open>ex_open i\<close> is created at time 1000 + i and still pending.
  In the first history the last eleven proposals of alice are rejected; in the second
  only the last five are.
\<close>

definition ex_rejected :: "nat \<Rightarrow> txproposal" where
  "ex_rejected i =
     ex_pending
       \<lparr> txp_id := ''r'' @ string_of_nat i, txp_createdOn := 1000 + int i,
         txp_actions :=
           [TxProposalAction_create 1300 ''bob'' Reject None None None,
            TxProposalAction_create 1300 ''carol'' Reject None None None],
         txp_status := Rejected \<rparr>"

definition ex_open :: "nat \<Rightarrow> txproposal" where
  "ex_open i = ex_pending\<lparr>txp_id := ''q'' @ string_of_nat i, txp_createdOn := 1000 + int i\<rparr>"

definition ex_history_11 :: storage where
  "ex_history_11 =
     ex_wallet_storage
       \<lparr>st_txps := [ex_rejected 0, ex_rejected 1, ex_rejected 2, ex_rejected 3, ex_rejected 4,
                    ex_rejected 5, ex_rejected 6, ex_rejected 7, ex_rejected 8, ex_rejected 9,
                    ex_rejected 10]\<rparr>"

definition ex_history_5 :: storage where
  "ex_history_5 =
     ex_wallet_storage
       \<lparr>st_txps := [ex_open 0, ex_open 1, ex_open 2, ex_open 3, ex_open 4, ex_open 5,
                    ex_rejected 6, ex_rejected 7, ex_rejected 8, ex_rejected 9,
                    ex_rejected 10]\<rparr>"

definition ex_create_tx_opts :: create_tx_opts where
  "ex_create_tx_opts =
     \<lparr> ct_txProposalId = None, ct_dryRun = False, validation = None,
       composition = Inr (ex_created\<lparr>txp_id := ''p2'', txp_createdOn := 1500\<rparr>, None) \<rparr>"

text \<open>
  Two drafts of alice, \<open>pa\<close> and \<open>pb\<close>, that spend the same output \<open>U0|0|0\<close>: the first
  output of the first message of the unit \<open>U0\<close>. The explorer knows that output at the
  address of the wallet.
\<close>

definition ex_zero_input :: tx_input where
  "ex_zero_input = \<lparr> in_unit = Some ''U0'', in_message_index = Some 0, in_output_index = Some 0 \<rparr>"

definition ex_zero_unit :: ounit where
  "ex_zero_unit =
     ex_unit\<lparr>u_messages :=
       [\<lparr> msg_app = ''payment'',
          msg_payload = Some \<lparr> pl_inputs = Some [ex_zero_input],
                               pl_outputs = [\<lparr> out_address = ''DEST'', out_amount = 100 \<rparr>] \<rparr> \<rparr>]\<rparr>"

definition ex_zero_utxo :: utxo where
  "ex_zero_utxo =
     \<lparr> utxo_unit = ''U0'', utxo_message_index = 0, utxo_output_index = 0,
       utxo_address = ''ADDR1'', utxo_amount = 1000, locked = False, spent = False \<rparr>"

definition ex_zero_hub :: explorer where
  "ex_zero_hub = ex_hub_ok\<lparr>getUtxos := (\<lambda>as. Inr [ex_zero_utxo])\<rparr>"

definition ex_zero_a :: txproposal where
  "ex_zero_a = TxProposal_create 1000 (ex_opts\<lparr>o_id := ''pa'', o_unit := ex_zero_unit\<rparr>)"

definition ex_zero_b :: txproposal where
  "ex_zero_b = TxProposal_create 1050 (ex_opts\<lparr>o_id := ''pb'', o_unit := ex_zero_unit\<rparr>)"

definition ex_zero_storage :: storage where
  "ex_zero_storage = ex_wallet_storage\<lparr>st_txps := [ex_zero_a, ex_zero_b]\<rparr>"

text \<open>Alice publishes \<open>pa\<close> at time 1100, then \<open>pb\<close> at time 1200; the proposals and
  the storages expected after each call.\<close>

definition ex_zero_a_pending :: txproposal where
  "ex_zero_a_pending =
     ex_zero_a\<lparr>proposalSignature := Some ''HASH-TO-SIGN/RK-alice'', txp_status := Pending\<rparr>"

definition ex_zero_b_pending :: txproposal where
  "ex_zero_b_pending =
     ex_zero_b\<lparr>proposalSignature := Some ''HASH-TO-SIGN/RK-alice'', txp_status := Pending\<rparr>"

definition ex_zero_storage_a :: storage where
  "ex_zero_storage_a =
     notifyTxProposalAction ex_alice ''NewTxProposal'' ex_zero_a_pending []
       (ex_wallet_storage\<lparr>st_txps := [ex_zero_a_pending, ex_zero_b]\<rparr>)"

definition ex_zero_storage_b :: storage where
  "ex_zero_storage_b =
     notifyTxProposalAction ex_alice ''NewTxProposal'' ex_zero_b_pending []
       (ex_zero_storage_a\<lparr>st_txps := [ex_zero_a_pending, ex_zero_b_pending]\<rparr>)"

text \<open>The reservation view between the two calls.\<close>

definition ex_zero_view :: "(error + utxo list) \<times> storage" where
  "ex_zero_view = getUtxosForCurrentWallet ex_alice ex_zero_hub 1200 None ex_zero_storage_a"

text \<open>The same with the output \<open>U1|1|2\<close>: the published proposal \<open>p1\<close> and a second draft
  \<open>p2\<close> that spends the same output.\<close>

definition ex_second_storage :: storage where
  "ex_second_storage = storeTx ex_pending_storage ''w1'' (ex_created\<lparr>txp_id := ''p2''\<rparr>)"

text \<open>
  The broadcast proposal of the example, with an active subscription of alice to the
  confirmation of its unit; the unit becomes stable at time 3000.
\<close>

definition ex_sub :: tx_confirmation_sub where
  "ex_sub = \<lparr> sub_walletId = ''w1'', sub_copayerId = ''alice'', sub_txid = ''UNIT-HASH'',
              sub_isActive = True \<rparr>"

definition ex_sub_storage :: storage where
  "ex_sub_storage = (ex_storage_with ex_broadcasted)\<lparr>st_subs := [ex_sub]\<rparr>"

definition ex_stable :: txproposal where
  "ex_stable = ex_broadcasted\<lparr>txp_stable := True, stableOn := Some 3000\<rparr>"

text \<open>
  The lookup records: alice with her request key, and dave of the support staff, who is
  registered in the wallet \<open>w0\<close>. The request of dave carries a signature that no key
  produced and names the wallet \<open>w1\<close>.
\<close>

definition ex_lookup_alice :: copayer_lookup where
  "ex_lookup_alice =
     \<lparr> cl_copayerId = ''alice'', cl_walletId = ''w1'',
       cl_requestPubKeys = [\<lparr> rk_key = ''RK-alice'', rk_signature = ''alice|xpubA|RK-alice/WPK'',
                               rk_selfSigned = False \<rparr>],
       cl_isSupportStaff = False \<rparr>"

definition ex_lookup_dave :: copayer_lookup where
  "ex_lookup_dave =
     \<lparr> cl_copayerId = ''dave'', cl_walletId = ''w0'',
       cl_requestPubKeys = [\<lparr> rk_key = ''RK-dave'', rk_signature = ''dave|xpubD|RK-dave/WPK0'',
                               rk_selfSigned = False \<rparr>],
       cl_isSupportStaff = True \<rparr>"

definition ex_auth_storage :: storage where
  "ex_auth_storage = ex_wallet_storage\<lparr>st_copayerLookup := [ex_lookup_alice, ex_lookup_dave]\<rparr>"

definition ex_request :: "string \<Rightarrow> string \<Rightarrow> string option \<Rightarrow> auth_opts" where
  "ex_request copayerId signature walletId =
     \<lparr> ao_copayerId = Some copayerId, ao_message = Some ''get|/v1/txproposals/|{}'',
       ao_signature = Some signature, ao_session = None,
       ao_clientVersion = Some \<lparr> v_agent = ''owc'', v_major = Num 1, v_minor = Num 0 \<rparr>,
       ao_walletId = walletId \<rparr>"

text \<open>
  A published draft whose unit lists the author address \<open>ADDR1\<close> twice, while its signing
  information names \<open>ADDR1\<close> and \<open>ADDR2\<close>; bob submits his signature for \<open>ADDR1\<close> and
  a forged one for \<open>ADDR2\<close>. The proposal expected if the submission is accepted.
\<close>

definition ex_twice_unit :: ounit where
  "ex_twice_unit =
     ex_unit\<lparr>u_authors := [\<lparr> au_address = ''ADDR1'', au_authentifiers = [] \<rparr>,
                            \<lparr> au_address = ''ADDR1'', au_authentifiers = [] \<rparr>]\<rparr>"

definition ex_twice :: txproposal where
  "ex_twice =
     ex_pending
       \<lparr> txp_unit := ex_twice_unit,
         signingInfo :=
           [(''ADDR1'', \<lparr> si_walletId = ''w1'', si_path = ''m/0/0'',
                          si_signingPaths = [(''PKa'', ''r.0''), (''PKb'', ''r.1''), (''PKc'', ''r.2'')] \<rparr>),
            (''ADDR2'', \<lparr> si_walletId = ''w1'', si_path = ''m/0/1'',
                          si_signingPaths = [(''PKa'', ''r.0''), (''PKb'', ''r.1''), (''PKc'', ''r.2'')] \<rparr>)] \<rparr>"

definition ex_twice_storage :: storage where
  "ex_twice_storage = ex_storage_with ex_twice"

definition ex_forged_sigs :: signatures where
  "ex_forged_sigs =
     [(''ADDR1'', [(''r.1'', ''HASH-TO-SIGN/PKb'')]), (''ADDR2'', [(''r.1'', ''forged'')])]"

definition ex_twice_signed :: txproposal where
  "ex_twice_signed =
     ex_twice
       \<lparr> txp_unit := ex_twice_unit\<lparr>u_authors :=
           [\<lparr> au_address = ''ADDR1'', au_authentifiers = [(''r.1'', ''HASH-TO-SIGN/PKb'')] \<rparr>,
            \<lparr> au_address = ''ADDR1'', au_authentifiers = [(''r.1'', ''HASH-TO-SIGN/PKb'')] \<rparr>]\<rparr>,
         txp_actions :=
           [TxProposalAction_create 1500 ''bob'' Accept (Some ex_forged_sigs) (Some ''xpubB'') None] \<rparr>"

text \<open>
  A wallet created with \<open>m = 2\<close> and \<open>n = 5/2\<close>, the number 2.5 of the request, and joined by
  alice, bob, carol and dave. The primitives are those of the running example, extended
  by the key \<open>xpubD\<close> of dave.
\<close>

definition ex_crypto_d :: crypto where
  "ex_crypto_d =
     ex_crypto
       \<lparr> HDPublicKey := (\<lambda>x. if x = ''xpubD'' then Some ''livenet'' else HDPublicKey ex_crypto x),
         xPubToCopayerId := (\<lambda>x. if x = ''xpubD'' then ''dave'' else xPubToCopayerId ex_crypto x) \<rparr>"

definition ex_frac_opts :: create_wallet_opts where
  "ex_frac_opts = ex_create_opts\<lparr>cw_n := 5 / 2\<rparr>"

definition ex_frac_0 :: storage where
  "ex_frac_0 = snd (createWallet ex_crypto_d 900 ''fresh-uuid'' ex_frac_opts empty_storage)"

definition ex_frac_1 :: storage where
  "ex_frac_1 = snd (joinWallet ex_crypto_d 900 (ex_join ''alice'' ''xpubA'' ''devA'') ex_frac_0)"

definition ex_frac_2 :: storage where
  "ex_frac_2 = snd (joinWallet ex_crypto_d 900 (ex_join ''bob'' ''xpubB'' ''devB'') ex_frac_1)"

definition ex_frac_3 :: storage where
  "ex_frac_3 = snd (joinWallet ex_crypto_d 900 (ex_join ''carol'' ''xpubC'' ''devC'') ex_frac_2)"

definition ex_frac_4 :: storage where
  "ex_frac_4 = snd (joinWallet ex_crypto_d 900 (ex_join ''dave'' ''xpubD'' ''devD'') ex_frac_3)"

text \<open>That wallet with the copayers that have joined, pending or complete.\<close>

definition ex_frac_wallet :: "wallet_status \<Rightarrow> copayer list \<Rightarrow> wallet" where
  "ex_frac_wallet s cs =
     (ex_forming cs)
       \<lparr> w_n := 5 / 2, w_status := s,
         publicKeyRing :=
           (if s = WComplete
            then map (\<lambda>c. \<lparr> re_xPubKey = cp_xPubKey c, re_requestPubKey = cp_requestPubKey c,
                              re_deviceId = cp_deviceId c, re_account = cp_account c \<rparr>) cs
            else []) \<rparr>"

section \<open>Properties\<close>

subsection \<open>The storage and the running example\<close>

text \<open>Reading back what was stored.\<close>

lemma find_upsert: "p x \<Longrightarrow> find p (upsert p x xs) = Some x"
  by (induction xs) auto

lemma fetchTx_storeTx:
  "txp_walletId t = w \<Longrightarrow> fetchTx (storeTx st w t) w (txp_id t) = Some t"
  by (simp add: fetchTx_def storeTx_def find_upsert)

lemma fetchTx_SomeD:
  "fetchTx st w pid = Some t \<Longrightarrow> txp_walletId t = w \<and> txp_id t = pid"
  by (auto simp: fetchTx_def find_Some_iff)

lemma st_txps_notify [simp]:
  "st_txps (notifyTxProposalAction sv ty t xs st) = st_txps st"
  by (simp add: notifyTxProposalAction_def notify_def storeNotification_def)

lemma st_txps_markActive [simp]: "st_txps (markActiveAddresses st as) = st_txps st"
  by (simp add: markActiveAddresses_def)

lemma fetchTx_cong: "st_txps st = st_txps st' \<Longrightarrow> fetchTx st w p = fetchTx st' w p"
  by (simp add: fetchTx_def)

lemma notifications_notify [simp]:
  "st_notifications (notifyTxProposalAction sv ty t xs st) =
     st_notifications st @
       [\<lparr> n_type = ty, n_walletId = sv_walletId sv, n_creatorId = Some (sv_copayerId sv),
          n_data = [(''txProposalId'', txp_id t), (''creatorId'', txp_creatorId t)] @ xs \<rparr>]"
  by (simp add: notifyTxProposalAction_def notify_def storeNotification_def)

lemma st_notifications_markActive [simp]:
  "st_notifications (markActiveAddresses st as) = st_notifications st"
  by (simp add: markActiveAddresses_def)

lemma st_notifications_storeTx [simp]: "st_notifications (storeTx st w t) = st_notifications st"
  by (simp add: storeTx_def)

text \<open>Facts about the running example.\<close>

lemma ex_fetch:
  "txp_walletId t = ''w1'' \<Longrightarrow> fetchTx (ex_storage_with t) ''w1'' (txp_id t) = Some t"
  by (simp add: ex_storage_with_def fetchTx_storeTx)

lemma ex_getWallet: "sv_walletId sv = ''w1'' \<Longrightarrow> getWallet sv (ex_storage_with t) = Inr ex_wallet"
  by (simp add: getWallet_def fetchWallet_def ex_storage_with_def storeTx_def
      ex_wallet_storage_def empty_storage_def ex_wallet_def)

lemma ex_notifications [simp]: "st_notifications (ex_storage_with t) = []"
  by (simp add: ex_storage_with_def ex_wallet_storage_def empty_storage_def)

lemma ex_servers [simp]:
  "sv_walletId ex_alice = ''w1''" "sv_copayerId ex_alice = ''alice''"
  "sv_walletId ex_bob = ''w1''" "sv_copayerId ex_bob = ''bob''"
  by (simp_all add: ex_alice_def ex_bob_def)

lemma ex_created_fields [simp]:
  "txp_id ex_created = ''p1''" "txp_walletId ex_created = ''w1''"
  "txp_creatorId ex_created = ''alice''" "txp_createdOn ex_created = 1000"
  "txp_status ex_created = Temporary" "txp_actions ex_created = []"
  "txp_unit ex_created = ex_unit" "txid ex_created = None"
  "walletM ex_created = 2" "walletN ex_created = 3"
  "requiredSignatures ex_created = 2" "requiredRejections ex_created = 2"
  "signingInfo ex_created = o_signingInfo ex_opts"
  by (simp_all add: ex_created_def TxProposal_create_def ex_opts_def)

lemma ex_pending_fields [simp]:
  "txp_id ex_pending = ''p1''" "txp_walletId ex_pending = ''w1''"
  "txp_creatorId ex_pending = ''alice''" "txp_createdOn ex_pending = 1000"
  "txp_status ex_pending = Pending" "txp_actions ex_pending = []"
  "txp_unit ex_pending = ex_unit" "txid ex_pending = None"
  "walletM ex_pending = 2" "walletN ex_pending = 3"
  "requiredSignatures ex_pending = 2" "requiredRejections ex_pending = 2"
  "signingInfo ex_pending = o_signingInfo ex_opts"
  by (simp_all add: ex_pending_def)

subsection \<open>C8: removing a proposal\<close>

lemma has_other_approver:
  "distinct xs \<Longrightarrow>
   (length xs > 1 \<or> (length xs = 1 \<and> hd xs \<noteq> me)) = (\<exists>c\<in>set xs. c \<noteq> me)"
proof (cases xs)
  case Nil
  then show ?thesis by simp
next
  case (Cons x ys)
  assume d: "distinct xs"
  show ?thesis
  proof (cases ys)
    case Nil
    with Cons show ?thesis by simp
  next
    case (Cons y zs)
    with \<open>xs = x # ys\<close> d have "x \<noteq> y" by simp
    then have "x \<noteq> me \<or> y \<noteq> me" by auto
    with Cons \<open>xs = x # ys\<close> show ?thesis by auto
  qed
qed

text \<open>
  C8 (amended). For a stored proposal that is not broadcasted, \<open>removeTx\<close> is refused with
  \<open>TX_CANNOT_REMOVE\<close> exactly while fewer than \<open>DELETE_LOCKTIME = 600\<close> seconds have
  passed since the proposal was created and the caller is not the creator, or is the
  creator of a proposal that another copayer has accepted. In every other case the
  removal succeeds: at once for the creator of a proposal nobody else has signed, and for
  any copayer once the 600 seconds, measured from the creation, are over.
\<close>

theorem removeTx_cooldown:
  assumes "fetchTx st (sv_walletId sv) pid = Some t"
    and "\<not> isBroadcasted t"
    and "distinct (getApprovers t)"
  shows "DELETE_LOCKTIME = 600 \<and>
         fst (removeTx sv now pid st) =
           (if now < txp_createdOn t + DELETE_LOCKTIME \<and>
               (txp_creatorId t \<noteq> sv_copayerId sv \<or> (\<exists>c\<in>set (getApprovers t). c \<noteq> sv_copayerId sv))
            then Inl TX_CANNOT_REMOVE else Inr ())"
proof -
  have a: "(length (getApprovers t) > 1 \<or> (length (getApprovers t) = 1 \<and> hd (getApprovers t) \<noteq> sv_copayerId sv))
        = (\<exists>c\<in>set (getApprovers t). c \<noteq> sv_copayerId sv)"
    using assms(3) by (rule has_other_approver)
  show ?thesis
    using assms(1,2) a
    by (auto simp: removeTx_def getTx_def getRemainingDeleteLockTime_def Let_def DELETE_LOCKTIME_def)
qed

text \<open>
  In the running example bob signed the proposal that alice created at time 1000: alice is
  refused at time 1200 and served at time 1600.
\<close>

lemma ex_signed_by_bob_fields [simp]:
  "txp_id ex_signed_by_bob = ''p1''" "txp_walletId ex_signed_by_bob = ''w1''"
  "txp_creatorId ex_signed_by_bob = ''alice''" "txp_createdOn ex_signed_by_bob = 1000"
  "txp_status ex_signed_by_bob = Pending"
  "getApprovers ex_signed_by_bob = [''bob'']"
  by (simp_all add: ex_signed_by_bob_def getApprovers_def TxProposalAction_create_def)

lemma ex_removal_fetch: "fetchTx ex_removal_storage ''w1'' ''p1'' = Some ex_signed_by_bob"
  using ex_fetch [of ex_signed_by_bob] by (simp add: ex_removal_storage_def)

theorem removeTx_cooldown_witness:
  "fetchTx ex_removal_storage (sv_walletId ex_alice) ''p1'' = Some ex_signed_by_bob \<and>
   \<not> isBroadcasted ex_signed_by_bob \<and> distinct (getApprovers ex_signed_by_bob) \<and>
   fst (removeTx ex_alice 1200 ''p1'' ex_removal_storage) = Inl TX_CANNOT_REMOVE \<and>
   fst (removeTx ex_alice 1600 ''p1'' ex_removal_storage) = Inr ()"
proof -
  have h1: "fetchTx ex_removal_storage (sv_walletId ex_alice) ''p1'' = Some ex_signed_by_bob"
    using ex_removal_fetch by simp
  have h2: "\<not> isBroadcasted ex_signed_by_bob"
    by (simp add: isBroadcasted_def)
  have h3: "distinct (getApprovers ex_signed_by_bob)"
    by simp
  show ?thesis
    using h1 h2 h3 removeTx_cooldown [OF h1 h2 h3, of 1200] removeTx_cooldown [OF h1 h2 h3, of 1600]
    by simp
qed

text \<open>
  C8 as stated asks for a cooldown of 24 hours counted from the action of the other
  copayer. Bob signed at time 1500; at time 1700, less than 24 hours later, alice removes
  the proposal.
\<close>

theorem removeTx_day_cooldown_counterexample:
  "\<not> isBroadcasted ex_signed_by_bob \<and>
   map (\<lambda>a. (act_copayerId a, act_type a, act_createdOn a)) (txp_actions ex_signed_by_bob)
     = [(''bob'', Accept, 1500)] \<and>
   (1700::int) < 1500 + 24 * 3600 \<and>
   removeTx ex_alice 1700 ''p1'' ex_removal_storage
     = (Inr (), notifyTxProposalAction ex_alice ''TxProposalRemoved'' ex_signed_by_bob []
                  ex_wallet_storage)"
proof -
  have a: "map (\<lambda>a. (act_copayerId a, act_type a, act_createdOn a)) (txp_actions ex_signed_by_bob)
     = [(''bob'', Accept, 1500)]"
    by (simp add: ex_signed_by_bob_def TxProposalAction_create_def)
  have r: "storage_removeTx ex_removal_storage ''w1'' ''p1'' = ex_wallet_storage"
    by (simp add: storage_removeTx_def ex_removal_storage_def ex_storage_with_def storeTx_def
        ex_wallet_storage_def empty_storage_def)
  show ?thesis
    using ex_removal_fetch a r
    by (simp add: removeTx_def getTx_def getRemainingDeleteLockTime_def Let_def
        DELETE_LOCKTIME_def isBroadcasted_def)
qed

subsection \<open>C4: broadcasting a proposal\<close>

lemma processBroadcast_ok:
  assumes "fetchTx st (sv_walletId sv) pid = Some t" and "txid t = Some x" and "x \<noteq> []"
  shows "\<exists>t' st'. processBroadcast sv now t third st = (Inr t', st') \<and>
           t' = t\<lparr>txp_status := Broadcasted, broadcastedOn := Some now\<rparr> \<and>
           fetchTx st' (sv_walletId sv) pid = Some t' \<and>
           map n_type (st_notifications st') = map n_type (st_notifications st) @
              [if third then ''NewOutgoingTxByThirdParty'' else ''NewOutgoingTx'']"
proof -
  let ?t' = "t\<lparr>txp_status := Broadcasted, broadcastedOn := Some now\<rparr>"
  from assms(1) have w: "txp_walletId ?t' = sv_walletId sv" and i: "txp_id ?t' = pid"
    by (auto dest: fetchTx_SomeD)
  have f: "fetchTx (storeTx st (sv_walletId sv) ?t') (sv_walletId sv) pid = Some ?t'"
    using fetchTx_storeTx [OF w] i by simp
  have sb: "setBroadcasted now t = Inr ?t'"
    using assms(2,3) by (simp add: setBroadcasted_def)
  show ?thesis
    using f by (simp add: processBroadcast_def sb Let_def fetchTx_def)
qed

text \<open>
  C4. For a proposal of an existing wallet: a broadcasted proposal fails with
  \<open>TX_ALREADY_BROADCASTED\<close>; one that is neither broadcasted nor accepted fails with
  \<open>TX_NOT_ACCEPTED\<close>; for an accepted proposal (with its txid), a successful hub
  submission stores the proposal as broadcasted and emits \<open>NewOutgoingTx\<close>; a failed
  submission of a unit the explorer finds in the ledger stores it as broadcasted and emits
  \<open>NewOutgoingTxByThirdParty\<close>; a failed submission of a unit the explorer does not find
  returns the hub's error and leaves the storage, hence the accepted proposal, as it was.
\<close>

theorem broadcastTx_outcomes:
  assumes "getWallet sv st = Inr w" and "fetchTx st (sv_walletId sv) pid = Some t"
  shows "(txp_status t = Broadcasted \<longrightarrow>
            broadcastTx sv ex now pid st = (Inl TX_ALREADY_BROADCASTED, st)) \<and>
         (txp_status t \<noteq> Broadcasted \<and> txp_status t \<noteq> Accepted \<longrightarrow>
            broadcastTx sv ex now pid st = (Inl TX_NOT_ACCEPTED, st)) \<and>
         (txp_status t = Accepted \<and> txid t = Some x \<and> x \<noteq> [] \<longrightarrow>
            (broadcastJoint ex (txp_unit t) = None \<longrightarrow>
               fst (broadcastTx sv ex now pid st) =
                  Inr (t\<lparr>txp_status := Broadcasted, broadcastedOn := Some now\<rparr>) \<and>
               fetchTx (snd (broadcastTx sv ex now pid st)) (sv_walletId sv) pid =
                  Some (t\<lparr>txp_status := Broadcasted, broadcastedOn := Some now\<rparr>) \<and>
               map n_type (st_notifications (snd (broadcastTx sv ex now pid st))) =
                  map n_type (st_notifications st) @ [''NewOutgoingTx'']) \<and>
            (broadcastJoint ex (txp_unit t) = Some e \<and> getTransaction ex x = Inr True \<longrightarrow>
               fst (broadcastTx sv ex now pid st) =
                  Inr (t\<lparr>txp_status := Broadcasted, broadcastedOn := Some now\<rparr>) \<and>
               fetchTx (snd (broadcastTx sv ex now pid st)) (sv_walletId sv) pid =
                  Some (t\<lparr>txp_status := Broadcasted, broadcastedOn := Some now\<rparr>) \<and>
               map n_type (st_notifications (snd (broadcastTx sv ex now pid st))) =
                  map n_type (st_notifications st) @ [''NewOutgoingTxByThirdParty'']) \<and>
            (broadcastJoint ex (txp_unit t) = Some e \<and> getTransaction ex x = Inr False \<longrightarrow>
               broadcastTx sv ex now pid st = (Inl (ExternalError e), st) \<and>
               fetchTx st (sv_walletId sv) pid = Some t \<and> txp_status t = Accepted))"
proof -
  have g: "getTx sv st pid = Inr t" using assms(2) by (simp add: getTx_def)
  have a: "txp_status t = Broadcasted \<longrightarrow>
            broadcastTx sv ex now pid st = (Inl TX_ALREADY_BROADCASTED, st)"
    by (simp add: broadcastTx_def assms(1) g)
  have b: "txp_status t \<noteq> Broadcasted \<and> txp_status t \<noteq> Accepted \<longrightarrow>
            broadcastTx sv ex now pid st = (Inl TX_NOT_ACCEPTED, st)"
    by (simp add: broadcastTx_def assms(1) g)
  {
    assume acc: "txp_status t = Accepted" and tx: "txid t = Some x" "x \<noteq> []"
    have ok: "broadcastJoint ex (txp_unit t) = None \<Longrightarrow>
       broadcastTx sv ex now pid st = processBroadcast sv now t False st"
      by (simp add: broadcastTx_def assms(1) g acc)
    have third: "broadcastJoint ex (txp_unit t) = Some e \<Longrightarrow> getTransaction ex x = Inr True \<Longrightarrow>
       broadcastTx sv ex now pid st = processBroadcast sv now t True st"
      by (simp add: broadcastTx_def assms(1) g acc checkTxInBlockchain_def tx)
    have fail: "broadcastJoint ex (txp_unit t) = Some e \<Longrightarrow> getTransaction ex x = Inr False \<Longrightarrow>
       broadcastTx sv ex now pid st = (Inl (ExternalError e), st)"
      by (simp add: broadcastTx_def assms(1) g acc checkTxInBlockchain_def tx)
    note ok third fail
  }
  note cases = this
  show ?thesis
    using a b cases processBroadcast_ok [OF assms(2), of x now False]
      processBroadcast_ok [OF assms(2), of x now True] assms(2)
    by (intro conjI impI) auto
qed

text \<open>The three outcomes for the accepted proposal of the running example.\<close>

lemma ex_accepted_fields [simp]:
  "txp_id ex_accepted = ''p1''" "txp_walletId ex_accepted = ''w1''"
  "txp_status ex_accepted = Accepted" "txid ex_accepted = Some ''UNIT-HASH''"
  by (simp_all add: ex_accepted_def)

lemma ex_accepted_fetch: "fetchTx ex_accepted_storage ''w1'' ''p1'' = Some ex_accepted"
  using ex_fetch [of ex_accepted] by (simp add: ex_accepted_storage_def)

lemma ex_accepted_wallet: "getWallet ex_alice ex_accepted_storage = Inr ex_wallet"
  by (simp add: ex_accepted_storage_def ex_getWallet)

theorem broadcastTx_outcomes_witness:
  "getWallet ex_alice ex_accepted_storage = Inr ex_wallet \<and>
   fetchTx ex_accepted_storage (sv_walletId ex_alice) ''p1'' = Some ex_accepted \<and>
   txp_status ex_accepted = Accepted \<and> txid ex_accepted = Some ''UNIT-HASH'' \<and>
   broadcastJoint ex_hub_ok (txp_unit ex_accepted) = None \<and>
   fst (broadcastTx ex_alice ex_hub_ok 2000 ''p1'' ex_accepted_storage) =
      Inr (ex_accepted\<lparr>txp_status := Broadcasted, broadcastedOn := Some 2000\<rparr>) \<and>
   map n_type (st_notifications (snd (broadcastTx ex_alice ex_hub_ok 2000 ''p1'' ex_accepted_storage))) =
      [''NewOutgoingTx''] \<and>
   broadcastJoint ex_hub_down_unit_known (txp_unit ex_accepted) = Some ''hub unreachable'' \<and>
   getTransaction ex_hub_down_unit_known ''UNIT-HASH'' = Inr True \<and>
   map n_type (st_notifications
      (snd (broadcastTx ex_alice ex_hub_down_unit_known 2000 ''p1'' ex_accepted_storage))) =
      [''NewOutgoingTxByThirdParty''] \<and>
   broadcastJoint ex_hub_down (txp_unit ex_accepted) = Some ''hub unreachable'' \<and>
   getTransaction ex_hub_down ''UNIT-HASH'' = Inr False \<and>
   broadcastTx ex_alice ex_hub_down 2000 ''p1'' ex_accepted_storage =
      (Inl (ExternalError ''hub unreachable''), ex_accepted_storage)"
proof -
  have h1: "getWallet ex_alice ex_accepted_storage = Inr ex_wallet"
    by (rule ex_accepted_wallet)
  have h2: "fetchTx ex_accepted_storage (sv_walletId ex_alice) ''p1'' = Some ex_accepted"
    using ex_accepted_fetch by simp
  have c: "txp_status ex_accepted = Accepted" "txid ex_accepted = Some ''UNIT-HASH''"
    by simp_all
  have n: "st_notifications ex_accepted_storage = []"
    by (simp add: ex_accepted_storage_def)
  have e: "broadcastJoint ex_hub_ok (txp_unit ex_accepted) = None"
    "broadcastJoint ex_hub_down_unit_known (txp_unit ex_accepted) = Some ''hub unreachable''"
    "getTransaction ex_hub_down_unit_known ''UNIT-HASH'' = Inr True"
    "broadcastJoint ex_hub_down (txp_unit ex_accepted) = Some ''hub unreachable''"
    "getTransaction ex_hub_down ''UNIT-HASH'' = Inr False"
    by (simp_all add: ex_hub_ok_def ex_hub_down_def ex_hub_down_unit_known_def)
  show ?thesis
    using h1 h2
      broadcastTx_outcomes [OF h1 h2, where x = "''UNIT-HASH''" and ex = ex_hub_ok and now = 2000
        and e = "''hub unreachable''"]
      broadcastTx_outcomes [OF h1 h2, where x = "''UNIT-HASH''" and ex = ex_hub_down_unit_known and now = 2000
        and e = "''hub unreachable''"]
      broadcastTx_outcomes [OF h1 h2, where x = "''UNIT-HASH''" and ex = ex_hub_down and now = 2000
        and e = "''hub unreachable''"]
    by (simp add: c n e)
qed

subsection \<open>C5: signing with bad signatures\<close>

text \<open>The loop over the authors stops at the first signature that does not verify, and counts
  the authors it served.\<close>

lemma addSignaturesLoop_fails:
  assumes "a \<in> set as" and "map_of sigs (au_address a) = Some asigs"
    and "\<not> (case map_of si (au_address a) of
        None \<Rightarrow> False
      | Some info \<Rightarrow>
          (case deriveChild cr xpub (si_path info) of
             None \<Rightarrow> False
           | Some pubKey \<Rightarrow>
               (case map_of (si_signingPaths info) pubKey of
                  None \<Rightarrow> False
                | Some path \<Rightarrow>
                    (case map_of asigs path of
                       None \<Rightarrow> False
                     | Some sig \<Rightarrow> ecdsaVerify cr hash sig pubKey))))"
  shows "fst (addSignaturesLoop cr hash si sigs xpub as i) \<noteq> None"
  using assms
proof (induction as arbitrary: i)
  case Nil
  then show ?case by simp
next
  case (Cons b bs)
  show ?case
  proof (cases "b = a")
    case True
    with Cons.prems(2,3) show ?thesis
      by (auto split: option.splits prod.splits)
  next
    case False
    with Cons.prems have "a \<in> set bs" by simp
    from Cons.IH [OF this Cons.prems(2,3)]
    have "fst (addSignaturesLoop cr hash si sigs xpub bs i) \<noteq> None"
      and "fst (addSignaturesLoop cr hash si sigs xpub bs (Suc i)) \<noteq> None"
      by blast+
    then show ?thesis
      by (auto split: option.splits prod.splits)
  qed
qed

lemma addSignaturesLoop_count:
  "addSignaturesLoop cr hash si sigs xpub as i = (None, as', i') \<Longrightarrow>
   i' = i + length (filter (\<lambda>a. map_of sigs (au_address a) \<noteq> None) as)"
proof (induction as arbitrary: i as' i')
  case Nil
  then show ?case by simp
next
  case (Cons b bs)
  then show ?case
    by (fastforce split: option.splits prod.splits if_splits)
qed

lemma length_obj_keys: "length (obj_keys sigs) = card (dom (map_of sigs))"
  by (simp add: obj_keys_def length_remdups_card_conv dom_map_of_conv_image_fst)

lemma matched_authors_bound:
  assumes "distinct (map au_address as)" and "k \<in> dom (map_of sigs)"
    and "k \<notin> set (map au_address as)"
  shows "length (filter (\<lambda>a. map_of sigs (au_address a) \<noteq> None) as) < card (dom (map_of sigs))"
proof -
  let ?m = "filter (\<lambda>a. map_of sigs (au_address a) \<noteq> None) as"
  have d: "distinct (map au_address ?m)"
    using assms(1) by (simp add: distinct_map_filter)
  have "length ?m = length (map au_address ?m)" by simp
  also have "\<dots> = card (set (map au_address ?m))"
    using distinct_card [OF d] by simp
  also have "\<dots> < card (dom (map_of sigs))"
  proof (rule psubset_card_mono)
    show "finite (dom (map_of sigs))" by (rule finite_dom_map_of)
    show "set (map au_address ?m) \<subset> dom (map_of sigs)"
      using assms(2,3) by auto
  qed
  finally show ?thesis .
qed


lemma addSignaturesToUnit_bad:
  assumes d: "distinct (map au_address (u_authors (txp_unit t)))"
    and bad: "badSignatures cr t walletId xpub sigs"
  shows "fst (addSignaturesToUnit cr walletId sigs xpub t) \<noteq> None"
proof (cases "authorCount t walletId \<noteq> Some (length (obj_keys sigs)) \<or> HDPublicKey cr xpub = None")
  case True
  then show ?thesis by (auto simp: addSignaturesToUnit_def)
next
  case False
  with bad obtain k where k: "k \<in> set (obj_keys sigs)"
    and nv: "\<not> signatureVerifies cr t xpub k (the (map_of sigs k))"
    by (auto simp: badSignatures_def)
  from k have kd: "k \<in> dom (map_of sigs)"
    by (simp add: obj_keys_def dom_map_of_conv_image_fst)
  then obtain asigs where s: "map_of sigs k = Some asigs" by auto
  let ?loop = "addSignaturesLoop cr (getUnitHashToSign cr (txp_unit t)) (signingInfo t) sigs xpub
                 (u_authors (txp_unit t)) 0"
  obtain e as' i where l: "?loop = (e, as', i)" by (cases ?loop)
  have "e \<noteq> None \<or> i \<noteq> length (obj_keys sigs)"
  proof (cases "k \<in> set (map au_address (u_authors (txp_unit t)))")
    case True
    then obtain a where a: "a \<in> set (u_authors (txp_unit t))" "au_address a = k" by auto
    have "fst ?loop \<noteq> None"
      using a(1)
    proof (rule addSignaturesLoop_fails)
      show "map_of sigs (au_address a) = Some asigs" using a(2) s by simp
      show "\<not> (case map_of (signingInfo t) (au_address a) of
        None \<Rightarrow> False
      | Some info \<Rightarrow>
          (case deriveChild cr xpub (si_path info) of
             None \<Rightarrow> False
           | Some pubKey \<Rightarrow>
               (case map_of (si_signingPaths info) pubKey of
                  None \<Rightarrow> False
                | Some path \<Rightarrow>
                    (case map_of asigs path of
                       None \<Rightarrow> False
                     | Some sig \<Rightarrow> ecdsaVerify cr (getUnitHashToSign cr (txp_unit t)) sig pubKey))))"
        using nv s a(2) by (simp add: signatureVerifies_def)
    qed
    with l show ?thesis by simp
  next
    case False
    show ?thesis
    proof (cases e)
      case None
      with l addSignaturesLoop_count
      have "i = 0 + length (filter (\<lambda>a. map_of sigs (au_address a) \<noteq> None) (u_authors (txp_unit t)))"
        by blast
      with matched_authors_bound [OF d kd False] show ?thesis
        by (simp add: length_obj_keys)
    next
      case (Some x)
      then show ?thesis by simp
    qed
  qed
  with l \<open>\<not> (authorCount t walletId \<noteq> Some (length (obj_keys sigs)) \<or> HDPublicKey cr xpub = None)\<close>
  show ?thesis
    by (auto simp: addSignaturesToUnit_def Let_def split: option.splits)
qed

lemma sign_bad:
  assumes "distinct (map au_address (u_authors (txp_unit t)))"
    and "badSignatures cr t walletId xpub sigs"
  shows "fst (sign cr now copayerId walletId sigs xpub t) = False"
  using addSignaturesToUnit_bad [OF assms]
  by (auto simp: sign_def split: prod.splits option.splits)

lemma signTx_error_keeps_storage:
  "fst (signTx sv cr now pid sigs st) = Inl e \<Longrightarrow> snd (signTx sv cr now pid sigs st) = st"
  by (auto simp: signTx_def Let_def split: sum.splits option.splits prod.splits if_splits bool.splits)

text \<open>
  A call of \<open>signTx\<close> that ends in an error leaves the storage as it was. For a unit whose
  authors have distinct addresses: when the call reaches the signature check (the wallet and
  the proposal exist, the caller is a copayer who has not acted, the proposal is pending
  and not yet accepted) and the submission is bad in the sense of \<open>badSignatures\<close>, the
  error is \<open>BAD_SIGNATURES\<close> and the stored proposal is the one that was there: no accept
  action, no signature.
\<close>

lemma signTx_bad_signatures_distinct_authors:
  "(\<forall>e. fst (signTx sv cr now pid sigs st) = Inl e \<longrightarrow> snd (signTx sv cr now pid sigs st) = st) \<and>
   (getWallet sv st = Inr w \<and> fetchTx st (sv_walletId sv) pid = Some t \<and>
    getActionByCopayer t (sv_copayerId sv) = None \<and> isPending t \<and> \<not> isAccepted t \<and>
    getCopayer w (sv_copayerId sv) = Some c \<and>
    distinct (map au_address (u_authors (txp_unit t))) \<and>
    badSignatures cr t (sv_walletId sv) (cp_xPubKey c) sigs
    \<longrightarrow> signTx sv cr now pid sigs st = (Inl BAD_SIGNATURES, st) \<and>
        fetchTx st (sv_walletId sv) pid = Some t)"
proof (intro conjI allI impI)
  fix e assume "fst (signTx sv cr now pid sigs st) = Inl e"
  then show "snd (signTx sv cr now pid sigs st) = st" by (rule signTx_error_keeps_storage)
next
  assume h: "getWallet sv st = Inr w \<and> fetchTx st (sv_walletId sv) pid = Some t \<and>
    getActionByCopayer t (sv_copayerId sv) = None \<and> isPending t \<and> \<not> isAccepted t \<and>
    getCopayer w (sv_copayerId sv) = Some c \<and>
    distinct (map au_address (u_authors (txp_unit t))) \<and>
    badSignatures cr t (sv_walletId sv) (cp_xPubKey c) sigs"
  then have "fst (sign cr now (sv_copayerId sv) (sv_walletId sv) sigs (cp_xPubKey c) t) = False"
    by (intro sign_bad) simp_all
  with h show "signTx sv cr now pid sigs st = (Inl BAD_SIGNATURES, st)"
    by (auto simp: signTx_def getTx_def split: prod.splits)
next
  assume "getWallet sv st = Inr w \<and> fetchTx st (sv_walletId sv) pid = Some t \<and>
    getActionByCopayer t (sv_copayerId sv) = None \<and> isPending t \<and> \<not> isAccepted t \<and>
    getCopayer w (sv_copayerId sv) = Some c \<and>
    distinct (map au_address (u_authors (txp_unit t))) \<and>
    badSignatures cr t (sv_walletId sv) (cp_xPubKey c) sigs"
  then show "fetchTx st (sv_walletId sv) pid = Some t" by simp
qed

text \<open>Bob submits a forged signature for the pending proposal of the running example.\<close>

lemma ex_pending_fetch: "fetchTx ex_pending_storage ''w1'' ''p1'' = Some ex_pending"
  using ex_fetch [of ex_pending] by (simp add: ex_pending_storage_def)

lemma ex_pending_wallet: "getWallet ex_bob ex_pending_storage = Inr ex_wallet"
  by (simp add: ex_pending_storage_def ex_getWallet)

lemma ex_wrong_signatures_bad:
  "badSignatures ex_crypto ex_pending ''w1'' ''xpubB'' ex_wrong_signatures"
  by (simp add: badSignatures_def authorCount_def obj_keys_def obj_values_def
      signatureVerifies_def ex_wrong_signatures_def ex_opts_def ex_crypto_def)

lemma signTx_bad_signatures_example:
  "getWallet ex_bob ex_pending_storage = Inr ex_wallet \<and>
   fetchTx ex_pending_storage (sv_walletId ex_bob) ''p1'' = Some ex_pending \<and>
   getActionByCopayer ex_pending (sv_copayerId ex_bob) = None \<and>
   isPending ex_pending \<and> \<not> isAccepted ex_pending \<and>
   getCopayer ex_wallet (sv_copayerId ex_bob) = Some (ex_copayer ''bob'' ''xpubB'' ''devB'') \<and>
   distinct (map au_address (u_authors (txp_unit ex_pending))) \<and>
   badSignatures ex_crypto ex_pending (sv_walletId ex_bob)
     (cp_xPubKey (ex_copayer ''bob'' ''xpubB'' ''devB'')) ex_wrong_signatures \<and>
   signTx ex_bob ex_crypto 1500 ''p1'' ex_wrong_signatures ex_pending_storage
     = (Inl BAD_SIGNATURES, ex_pending_storage)"
proof -
  have h1: "getWallet ex_bob ex_pending_storage = Inr ex_wallet" by (rule ex_pending_wallet)
  have h2: "fetchTx ex_pending_storage (sv_walletId ex_bob) ''p1'' = Some ex_pending"
    using ex_pending_fetch by simp
  have h3: "getActionByCopayer ex_pending (sv_copayerId ex_bob) = None"
    by (simp add: getActionByCopayer_def)
  have h4: "isPending ex_pending" "\<not> isAccepted ex_pending"
    by (simp_all add: isPending_def isAccepted_def votes_def)
  have h5: "getCopayer ex_wallet (sv_copayerId ex_bob) = Some (ex_copayer ''bob'' ''xpubB'' ''devB'')"
    by (simp add: getCopayer_def ex_wallet_def ex_copayer_def)
  have h6: "distinct (map au_address (u_authors (txp_unit ex_pending)))"
    by (simp add: ex_unit_def)
  have h7: "badSignatures ex_crypto ex_pending (sv_walletId ex_bob)
     (cp_xPubKey (ex_copayer ''bob'' ''xpubB'' ''devB'')) ex_wrong_signatures"
    using ex_wrong_signatures_bad by (simp add: ex_copayer_def)
  show ?thesis
    using h1 h2 h3 h4 h5 h6 h7
      signTx_bad_signatures_distinct_authors [where sv = ex_bob and st = ex_pending_storage and w = ex_wallet
        and t = ex_pending and pid = "''p1''" and c = "ex_copayer ''bob'' ''xpubB'' ''devB''"
        and cr = ex_crypto and sigs = ex_wrong_signatures and now = 1500]
    by blast
qed

text \<open>A unit that lists an author address twice: the forged signature for \<open>ADDR2\<close> does not
  verify, and the submission is bad.\<close>

lemma ex_twice_fields [simp]:
  "txp_id ex_twice = ''p1''" "txp_walletId ex_twice = ''w1''" "txp_status ex_twice = Pending"
  "txp_actions ex_twice = []" "txp_unit ex_twice = ex_twice_unit"
  "requiredSignatures ex_twice = 2" "requiredRejections ex_twice = 2"
  by (simp_all add: ex_twice_def)

lemma ex_twice_forged:
  "\<not> signatureVerifies ex_crypto ex_twice ''xpubB'' ''ADDR2'' [(''r.1'', ''forged'')]"
  by (simp add: signatureVerifies_def ex_twice_def ex_crypto_def)

lemma ex_twice_bad: "badSignatures ex_crypto ex_twice ''w1'' ''xpubB'' ex_forged_sigs"
  using ex_twice_forged
  by (simp add: badSignatures_def obj_keys_def ex_forged_sigs_def)

text \<open>\<open>sign\<close> counts the author \<open>ADDR1\<close> twice, which makes up for the address \<open>ADDR2\<close> that
  is no author, and never looks at the signature submitted for \<open>ADDR2\<close>.\<close>

lemma ex_twice_sign:
  "sign ex_crypto 1500 ''bob'' ''w1'' ex_forged_sigs ''xpubB'' ex_twice = (True, ex_twice_signed)"
proof -
  have a: "addSignaturesToUnit ex_crypto ''w1'' ex_forged_sigs ''xpubB'' ex_twice
     = (None, ex_twice\<lparr>txp_unit := ex_twice_unit\<lparr>u_authors :=
           [\<lparr> au_address = ''ADDR1'', au_authentifiers = [(''r.1'', ''HASH-TO-SIGN/PKb'')] \<rparr>,
            \<lparr> au_address = ''ADDR1'', au_authentifiers = [(''r.1'', ''HASH-TO-SIGN/PKb'')] \<rparr>]\<rparr>\<rparr>)"
    by (simp add: addSignaturesToUnit_def authorCount_def obj_keys_def obj_values_def obj_set_def
        ex_forged_sigs_def ex_twice_def ex_crypto_def ex_twice_unit_def Let_def)
  show ?thesis
    apply (simp add: sign_def a)
    apply (simp add: addAction_def updateStatus_def isRejected_def isAccepted_def
        votes_def TxProposalAction_create_def ex_twice_signed_def Let_def)
    done
qed

text \<open>
  C5 fails in the code for a unit that lists an author address twice. The stored proposal
  has the authors \<open>ADDR1\<close>, \<open>ADDR1\<close> and signing information for \<open>ADDR1\<close> and \<open>ADDR2\<close>.
  Bob submits signatures for \<open>ADDR1\<close> and \<open>ADDR2\<close>; the one for \<open>ADDR2\<close> does not verify.
  \<open>signTx\<close> does not fail with \<open>BAD_SIGNATURES\<close>: it answers the proposal with the accept
  action of bob, which carries the forged signature, and stores it.
\<close>

theorem signTx_duplicate_author_forged:
  "map au_address (u_authors (txp_unit ex_twice)) = [''ADDR1'', ''ADDR1''] \<and>
   map fst (signingInfo ex_twice) = [''ADDR1'', ''ADDR2''] \<and>
   fetchTx ex_twice_storage ''w1'' ''p1'' = Some ex_twice \<and>
   map_of ex_forged_sigs ''ADDR2'' = Some [(''r.1'', ''forged'')] \<and>
   \<not> signatureVerifies ex_crypto ex_twice ''xpubB'' ''ADDR2'' [(''r.1'', ''forged'')] \<and>
   fst (signTx ex_bob ex_crypto 1500 ''p1'' ex_forged_sigs ex_twice_storage) = Inr ex_twice_signed \<and>
   fetchTx (snd (signTx ex_bob ex_crypto 1500 ''p1'' ex_forged_sigs ex_twice_storage)) ''w1'' ''p1''
     = Some ex_twice_signed \<and>
   map (\<lambda>a. (act_copayerId a, act_type a, act_signatures a)) (txp_actions ex_twice_signed)
     = [(''bob'', Accept, Some ex_forged_sigs)]"
proof -
  have w: "getWallet ex_bob ex_twice_storage = Inr ex_wallet"
    by (simp add: ex_twice_storage_def ex_getWallet)
  have f: "fetchTx ex_twice_storage ''w1'' ''p1'' = Some ex_twice"
    using ex_fetch [of ex_twice] by (simp add: ex_twice_storage_def)
  then have g: "getTx ex_bob ex_twice_storage ''p1'' = Inr ex_twice"
    by (simp add: getTx_def)
  have c: "getCopayer ex_wallet ''bob'' = Some (ex_copayer ''bob'' ''xpubB'' ''devB'')"
    by (simp add: getCopayer_def ex_wallet_def ex_copayer_def)
  have x: "cp_xPubKey (ex_copayer ''bob'' ''xpubB'' ''devB'') = ''xpubB''"
    by (simp add: ex_copayer_def)
  have i: "txp_id ex_twice_signed = ''p1''" "txp_walletId ex_twice_signed = ''w1''"
    by (simp_all add: ex_twice_signed_def)
  have r: "signTx ex_bob ex_crypto 1500 ''p1'' ex_forged_sigs ex_twice_storage =
      (Inr ex_twice_signed,
       (if isAccepted ex_twice_signed
        then notifyTxProposalAction ex_bob ''TxProposalFinallyAccepted'' ex_twice_signed []
        else (\<lambda>s. s))
         (notifyTxProposalAction ex_bob ''TxProposalAcceptedBy'' ex_twice_signed
            [(''copayerId'', ''bob'')] (storeTx ex_twice_storage ''w1'' ex_twice_signed)))"
    by (simp add: signTx_def w g c x ex_twice_sign getActionByCopayer_def isPending_def
        isAccepted_def votes_def Let_def)
  have 1: "fst (signTx ex_bob ex_crypto 1500 ''p1'' ex_forged_sigs ex_twice_storage) = Inr ex_twice_signed"
    by (simp add: r)
  have 2: "fetchTx (snd (signTx ex_bob ex_crypto 1500 ''p1'' ex_forged_sigs ex_twice_storage)) ''w1'' ''p1''
     = Some ex_twice_signed"
    using fetchTx_storeTx [of ex_twice_signed "''w1''" ex_twice_storage] i
    by (simp add: r fetchTx_def)
  have 3: "map (\<lambda>a. (act_copayerId a, act_type a, act_signatures a)) (txp_actions ex_twice_signed)
     = [(''bob'', Accept, Some ex_forged_sigs)]"
    by (simp add: ex_twice_signed_def TxProposalAction_create_def)
  have 4: "map au_address (u_authors (txp_unit ex_twice)) = [''ADDR1'', ''ADDR1'']"
    "map fst (signingInfo ex_twice) = [''ADDR1'', ''ADDR2'']"
    "map_of ex_forged_sigs ''ADDR2'' = Some [(''r.1'', ''forged'')]"
    by (simp_all add: ex_twice_def ex_twice_unit_def ex_forged_sigs_def)
  from 4 f ex_twice_forged 1 2 3 show ?thesis by (intro conjI)
qed

subsection \<open>C2: the quorum\<close>

text \<open>Every operation keeps the invariant \<open>quorum_inv\<close>.\<close>

lemma addSignaturesToUnit_unit_only:
  "addSignaturesToUnit cr w sigs xpub t = (e, t') \<Longrightarrow> \<exists>u. t' = t\<lparr>txp_unit := u\<rparr>"
  by (auto simp: addSignaturesToUnit_def Let_def split: if_splits prod.splits option.splits
      intro: exI [of _ "txp_unit t"])

lemma votes_unit [simp]: "votes (t\<lparr>txp_unit := u\<rparr>) ty = votes t ty"
  by (simp add: votes_def)

lemma votes_append:
  "votes (t\<lparr>txp_actions := txp_actions t @ [a]\<rparr>) ty = votes t ty + (if act_type a = ty then 1 else 0)"
  by (simp add: votes_def)

lemma params_ok_pos: "params_ok t \<Longrightarrow> 1 \<le> requiredSignatures t \<and> 1 \<le> requiredRejections t"
  by (auto simp: params_ok_def)

lemma addAction_facts:
  "walletM (addAction now c ty cm sg xp t) = walletM t"
  "walletN (addAction now c ty cm sg xp t) = walletN t"
  "requiredSignatures (addAction now c ty cm sg xp t) = requiredSignatures t"
  "requiredRejections (addAction now c ty cm sg xp t) = requiredRejections t"
  "txid (addAction now c ty cm sg xp t) = txid t"
  "txp_unit (addAction now c ty cm sg xp t) = txp_unit t"
  "votes (addAction now c ty cm sg xp t) ty' = votes t ty' + (if ty = ty' then 1 else 0)"
  by (simp_all add: addAction_def updateStatus_def votes_def TxProposalAction_create_def)

lemma addAction_status:
  assumes "txp_status t = Pending"
  shows "txp_status (addAction now c ty cm sg xp t) =
     (let r = votes t Reject + (if ty = Reject then 1 else 0);
          a = votes t Accept + (if ty = Accept then 1 else 0)
      in if r \<noteq> 0 \<and> requiredRejections t \<le> int r then Rejected
         else if a \<noteq> 0 \<and> requiredSignatures t \<le> int a then Accepted else Pending)"
  using assms
  by (simp add: addAction_def updateStatus_def isRejected_def isAccepted_def votes_def
      TxProposalAction_create_def Let_def)

lemma params_ok_addAction [simp]: "params_ok (addAction now c ty cm sg xp t) = params_ok t"
  by (simp add: params_ok_def addAction_facts)

lemma quorum_inv_sign:
  assumes inv: "quorum_inv cr t" and st: "txp_status t = Pending"
    and s: "sign cr now c w sigs xpub t = (True, t')"
  shows "quorum_inv cr t'"
proof -
  obtain e t1 where a: "addSignaturesToUnit cr w sigs xpub t = (e, t1)"
    by (cases "addSignaturesToUnit cr w sigs xpub t")
  from s a have e: "e = None" by (auto simp: sign_def split: option.splits)
  from addSignaturesToUnit_unit_only [OF a] obtain u where t1: "t1 = t\<lparr>txp_unit := u\<rparr>" ..
  from inv have p: "params_ok t" and so: "status_ok cr t" by (simp_all add: quorum_inv_def)
  from p have p1: "params_ok t1" by (simp add: t1 params_ok_def)
  from st have st1: "txp_status t1 = Pending" by (simp add: t1)
  from so st have v1: "int (votes t1 Accept) < requiredSignatures t1"
      "int (votes t1 Reject) < requiredRejections t1"
    by (simp_all add: t1 status_ok_def)
  let ?t2 = "addAction now c Accept None (Some sigs) (Some xpub) t1"
  have p2: "params_ok ?t2" using p1 by simp
  have s2: "txp_status ?t2 =
      (if requiredSignatures t1 \<le> int (votes t1 Accept) + 1 then Accepted else Pending)"
    using v1 by (simp add: addAction_status [OF st1] Let_def)
  show ?thesis
  proof (cases "requiredSignatures t1 \<le> int (votes t1 Accept) + 1")
    case True
    with s2 have acc: "txp_status ?t2 = Accepted" by simp
    let ?h = "getUnitHash cr (txp_unit ?t2)"
    from s a e acc have t': "t' = ?t2\<lparr>txp_unit := (txp_unit ?t2)\<lparr>u_unit := Some ?h\<rparr>, txid := Some ?h\<rparr>"
      by (simp add: sign_def Let_def)
    have "params_ok t'" using p2 by (simp add: t' params_ok_def)
    moreover have "votes t' Accept = votes ?t2 Accept" "votes t' Reject = votes ?t2 Reject"
      by (simp_all add: t' votes_def)
    then have "status_ok cr t'"
      using True v1 acc by (auto simp: t' status_ok_def addAction_facts)
    ultimately show ?thesis by (simp add: quorum_inv_def)
  next
    case False
    with s2 have pen: "txp_status ?t2 = Pending" by simp
    with s a e have t': "t' = ?t2" by (simp add: sign_def Let_def)
    have "status_ok cr ?t2"
      using False v1 pen by (simp add: status_ok_def addAction_facts)
    with p2 t' show ?thesis by (simp add: quorum_inv_def)
  qed
qed

lemma quorum_inv_reject:
  assumes inv: "quorum_inv cr t" and st: "txp_status t = Pending"
  shows "quorum_inv cr (reject now c r t)"
proof -
  let ?t2 = "addAction now c Reject r None None t"
  have p: "params_ok t" and v: "int (votes t Accept) < requiredSignatures t"
      "int (votes t Reject) < requiredRejections t"
    using inv st by (simp_all add: quorum_inv_def status_ok_def)
  have s2: "txp_status ?t2 =
      (if requiredRejections t \<le> int (votes t Reject) + 1 then Rejected else Pending)"
    using v by (simp add: addAction_status [OF st] Let_def)
  have "status_ok cr ?t2"
    using v s2 by (auto simp: status_ok_def addAction_facts)
  with p show ?thesis by (simp add: quorum_inv_def reject_def)
qed

lemma quorum_inv_created:
  "1 \<le> o_walletM opts \<Longrightarrow> o_walletM opts \<le> o_walletN opts \<Longrightarrow>
   quorum_inv cr (TxProposal_create now opts)"
  by (simp add: quorum_inv_def params_ok_def status_ok_def TxProposal_create_def)

lemma quorum_inv_pending_status:
  assumes "quorum_inv cr t" and "isPending t" and "\<not> isAccepted t"
  shows "txp_status t = Pending"
proof -
  from assms(1) have "1 \<le> requiredSignatures t" and s: "status_ok cr t"
    by (simp_all add: quorum_inv_def params_ok_pos)
  with assms(2,3) show ?thesis
    by (cases "txp_status t") (auto simp: status_ok_def isPending_def isAccepted_def)
qed

lemma signTx_InrD:
  assumes "fetchTx st (sv_walletId sv) pid = Some t"
    and "signTx sv cr now pid sigs st = (Inr t', st')"
  shows "isPending t \<and> \<not> isAccepted t \<and> getActionByCopayer t (sv_copayerId sv) = None \<and>
         (\<exists>c::copayer. sign cr now (sv_copayerId sv) (sv_walletId sv) sigs (cp_xPubKey c) t = (True, t'))"
  using assms
  by (auto simp: signTx_def getTx_def Let_def
      split: sum.splits option.splits if_splits prod.splits bool.splits)

lemma quorum_inv_signTx:
  assumes "quorum_inv cr t" and "fetchTx st (sv_walletId sv) pid = Some t"
    and "signTx sv cr now pid sigs st = (Inr t', st')"
  shows "quorum_inv cr t'"
proof -
  from signTx_InrD [OF assms(2,3)] obtain c :: copayer where p: "isPending t" "\<not> isAccepted t"
    and s: "sign cr now (sv_copayerId sv) (sv_walletId sv) sigs (cp_xPubKey c) t = (True, t')"
    by blast
  from quorum_inv_pending_status [OF assms(1) p] have "txp_status t = Pending" .
  from quorum_inv_sign [OF assms(1) this s] show ?thesis .
qed

lemma quorum_inv_rejectTx:
  assumes "quorum_inv cr t" and "fetchTx st (sv_walletId sv) pid = Some t"
    and "rejectTx sv now pid reason st = (Inr t', st')"
  shows "quorum_inv cr t'"
proof -
  from assms(2,3) have "txp_status t = Pending" and "t' = reject now (sv_copayerId sv) reason t"
    by (auto simp: rejectTx_def getTx_def Let_def split: if_splits)
  with assms(1) show ?thesis by (simp add: quorum_inv_reject)
qed

lemma publishTx_InrD:
  assumes "fetchTx st (sv_walletId sv) pid = Some t"
    and "publishTx sv cr ex now pid s st = (Inr t', st')"
  shows "(\<not> isTemporary t \<and> t' = t) \<or>
         (isTemporary t \<and>
          (\<exists>k ks. t' = t\<lparr>proposalSignature := Some s, proposalSignaturePubKey := k,
                          proposalSignaturePubKeySig := ks, txp_status := Pending\<rparr>))"
proof (cases "isTemporary t")
  case False
  with assms show ?thesis by (auto simp: publishTx_def split: sum.splits)
next
  case True
  have "\<exists>k ks. t' = t\<lparr>proposalSignature := Some s, proposalSignaturePubKey := k,
                          proposalSignaturePubKeySig := ks, txp_status := Pending\<rparr>"
    using assms True
    apply (auto simp: publishTx_def Let_def
        split: sum.splits option.splits if_splits prod.splits)
     apply (rule exI [of _ "proposalSignaturePubKey t"])
     apply (rule exI [of _ "proposalSignaturePubKeySig t"])
     apply simp
    done
  with True show ?thesis by simp
qed

lemma quorum_inv_publishTx:
  assumes "quorum_inv cr t" and "fetchTx st (sv_walletId sv) pid = Some t"
    and "publishTx sv cr ex now pid s st = (Inr t', st')"
  shows "quorum_inv cr t'"
proof -
  from assms(1) have p: "params_ok t" and so: "status_ok cr t" by (simp_all add: quorum_inv_def)
  from publishTx_InrD [OF assms(2,3)] show ?thesis
  proof
    assume "\<not> isTemporary t \<and> t' = t"
    with assms(1) show ?thesis by simp
  next
    assume "isTemporary t \<and>
          (\<exists>k ks. t' = t\<lparr>proposalSignature := Some s, proposalSignaturePubKey := k,
                          proposalSignaturePubKeySig := ks, txp_status := Pending\<rparr>)"
    then obtain k ks where tmp: "txp_status t = Temporary"
      and t': "t' = t\<lparr>proposalSignature := Some s, proposalSignaturePubKey := k,
                          proposalSignaturePubKeySig := ks, txp_status := Pending\<rparr>"
      by (auto simp: isTemporary_def)
    from so tmp have "txp_actions t = []" by (simp add: status_ok_def)
    with params_ok_pos [OF p] have "status_ok cr t'"
      by (simp add: t' status_ok_def votes_def)
    moreover from p have "params_ok t'" by (simp add: t' params_ok_def)
    ultimately show ?thesis by (simp add: quorum_inv_def)
  qed
qed

lemma processBroadcast_InrD:
  "processBroadcast sv now t b st = (Inr t', st') \<Longrightarrow>
   t' = t\<lparr>txp_status := Broadcasted, broadcastedOn := Some now\<rparr>"
  by (auto simp: processBroadcast_def setBroadcasted_def Let_def
      split: sum.splits option.splits if_splits)

lemma quorum_inv_processBroadcast:
  assumes "quorum_inv cr t" and "txp_status t = Accepted"
    and "processBroadcast sv now t b st = (Inr t', st')"
  shows "quorum_inv cr t'"
proof -
  from assms(1) have p: "params_ok t" and so: "status_ok cr t" by (simp_all add: quorum_inv_def)
  note t' = processBroadcast_InrD [OF assms(3)]
  from p have "params_ok t'" by (simp add: t' params_ok_def)
  moreover from so assms(2) have "status_ok cr t'" by (simp add: t' status_ok_def votes_def)
  ultimately show ?thesis by (simp add: quorum_inv_def)
qed

lemma broadcastTx_InrD:
  assumes "fetchTx st (sv_walletId sv) pid = Some t"
    and "broadcastTx sv ex now pid st = (Inr t', st')"
  shows "txp_status t = Accepted \<and> (\<exists>b. processBroadcast sv now t b st = (Inr t', st'))"
  using assms
  by (auto simp: broadcastTx_def getTx_def split: sum.splits option.splits if_splits)

lemma quorum_inv_broadcastTx:
  assumes "quorum_inv cr t" and "fetchTx st (sv_walletId sv) pid = Some t"
    and "broadcastTx sv ex now pid st = (Inr t', st')"
  shows "quorum_inv cr t'"
  using broadcastTx_InrD [OF assms(2,3)] assms(1) quorum_inv_processBroadcast by blast

lemma quorum_inv_setStable:
  assumes "quorum_inv cr t" and "setStable now t = Inr t'"
  shows "quorum_inv cr t'"
proof -
  from assms(2) have "t' = t\<lparr>txp_stable := True, stableOn := Some now\<rparr>"
    by (auto simp: setStable_def split: option.splits if_splits)
  then have t': "t' = t\<lparr>txp_stable := True, stableOn := Some now\<rparr>" .
  from assms(1) have p: "params_ok t" and so: "status_ok cr t" by (simp_all add: quorum_inv_def)
  from p have "params_ok t'" by (simp add: t' params_ok_def)
  moreover from so have "status_ok cr t'"
    by (auto simp: t' status_ok_def votes_def split: tx_status.splits)
  ultimately show ?thesis by (simp add: quorum_inv_def)
qed

lemma reachable_quorum_inv: "reachable cr t \<Longrightarrow> quorum_inv cr t"
proof (induction rule: reachable.induct)
  case (created opts now)
  then show ?case by (rule quorum_inv_created)
next
  case (published t st sv pid ex now s t' st')
  then show ?case by (blast intro: quorum_inv_publishTx)
next
  case (signed t st sv pid now sigs t' st')
  then show ?case by (blast intro: quorum_inv_signTx)
next
  case (rejected t st sv pid now reason t' st')
  then show ?case by (blast intro: quorum_inv_rejectTx)
next
  case (broadcast t st sv pid ex now t' st')
  then show ?case by (blast intro: quorum_inv_broadcastTx)
next
  case (seen_in_ledger t sv now st t' st')
  then show ?case by (blast intro: quorum_inv_processBroadcast)
next
  case (stable t now t')
  then show ?case by (blast intro: quorum_inv_setStable)
qed

text \<open>
  C2 (amended). For every proposal the service can hold: the status is \<open>accepted\<close>, or
  \<open>broadcasted\<close> once the accepted proposal was broadcast, if and only if the number of
  accept actions is at least \<open>m\<close>; in both statuses the txid is set, it is a unit hash and
  it is the hash written into the unit; the status is \<open>rejected\<close> if and only if the number
  of reject actions is at least \<open>requiredRejections = min(m, n - m + 1)\<close>.
\<close>

theorem quorum:
  assumes "reachable cr t"
  shows "((txp_status t = Accepted \<or> txp_status t = Broadcasted) \<longleftrightarrow>
            walletM t \<le> int (votes t Accept)) \<and>
         ((txp_status t = Accepted \<or> txp_status t = Broadcasted) \<longrightarrow>
            (\<exists>u. txid t = Some (getUnitHash cr u)) \<and> u_unit (txp_unit t) = txid t) \<and>
         (txp_status t = Rejected \<longleftrightarrow> requiredRejections t \<le> int (votes t Reject)) \<and>
         requiredRejections t = min (walletM t) (walletN t - walletM t + 1)"
proof -
  from reachable_quorum_inv [OF assms] have p: "params_ok t" and s: "status_ok cr t"
    by (simp_all add: quorum_inv_def)
  from p have m: "requiredSignatures t = walletM t"
    and r: "requiredRejections t = min (walletM t) (walletN t - walletM t + 1)"
    by (simp_all add: params_ok_def)
  from params_ok_pos [OF p] m have pos: "1 \<le> walletM t" "1 \<le> requiredRejections t"
    by simp_all
  have tmp: "txp_actions t = [] \<Longrightarrow> votes t Accept = 0 \<and> votes t Reject = 0"
    by (simp add: votes_def)
  from s m pos tmp have
    "((txp_status t = Accepted \<or> txp_status t = Broadcasted) \<longleftrightarrow>
            walletM t \<le> int (votes t Accept)) \<and>
     ((txp_status t = Accepted \<or> txp_status t = Broadcasted) \<longrightarrow>
            (\<exists>u. txid t = Some (getUnitHash cr u)) \<and> u_unit (txp_unit t) = txid t) \<and>
     (txp_status t = Rejected \<longleftrightarrow> requiredRejections t \<le> int (votes t Reject))"
    by (cases "txp_status t") (auto simp: status_ok_def)
  with r show ?thesis by blast
qed

text \<open>
  The running example, step by step: alice publishes the draft, alice signs, bob signs,
  alice broadcasts.
\<close>

lemma ex_run_publish:
  "fst (publishTx ex_alice ex_crypto ex_hub_ok 1100 ''p1'' ''HASH-TO-SIGN/RK-alice''
          (ex_storage_with ex_created)) = Inr ex_pending"
proof -
  have w: "getWallet ex_alice (ex_storage_with ex_created) = Inr ex_wallet"
    by (simp add: ex_getWallet)
  have f: "fetchTx (ex_storage_with ex_created) ''w1'' ''p1'' = Some ex_created"
    using ex_fetch [of ex_created] by simp
  have c: "getCopayer ex_wallet ''alice'' = Some (ex_copayer ''alice'' ''xpubA'' ''devA'')"
    by (simp add: getCopayer_def ex_wallet_def ex_copayer_def)
  have k: "getSigningKey ex_crypto (getUnitHashToSign ex_crypto ex_unit) ''HASH-TO-SIGN/RK-alice''
             (cp_requestPubKeys (ex_copayer ''alice'' ''xpubA'' ''devA''))
           = Inr (Some \<lparr> rk_key = ''RK-alice'', rk_signature = ''alice|xpubA|RK-alice/WPK'',
                           rk_selfSigned = False \<rparr>)"
    by (simp add: ex_copayer_def ex_crypto_def verifyMessage_def)
  have p: "fetchPendingTxs (ex_storage_with ex_created) ''w1'' = []"
    by (simp add: fetchPendingTxs_def ex_storage_with_def storeTx_def ex_wallet_storage_def
        empty_storage_def isPending_def)
  have b: "fetchBroadcastedTxs (ex_storage_with ex_created) ''w1'' m l = []" for m l
    by (simp add: fetchBroadcastedTxs_def ex_storage_with_def storeTx_def ex_wallet_storage_def
        empty_storage_def)
  have a: "fetchAddresses (ex_storage_with ex_created) ''w1'' = [ex_address]"
    by (simp add: fetchAddresses_def ex_storage_with_def storeTx_def ex_wallet_storage_def
        empty_storage_def ex_address_def)
  have u: "getUtxosForCurrentWallet ex_alice ex_hub_ok 1100 None (ex_storage_with ex_created)
    = (Inr [\<lparr> utxo_unit = ''U1'', utxo_message_index = 1, utxo_output_index = 2,
               utxo_address = ''ADDR1'', utxo_amount = 1000, locked = False, spent = False \<rparr>],
       ex_storage_with ex_created)"
    by (simp add: getUtxosForCurrentWallet_def w a p b getPendingTxs_def markInputs_def
        ex_wallet_def ex_hub_ok_def ex_address_def)
  have i: "txpInputs (u_messages ex_unit) = Inr [''U1|1|2'']"
    by (simp add: ex_unit_def inputKey_def truthy_string_def truthy_number_def
        string_of_nat.simps)
  have n: "\<not> unavailable [\<lparr> utxo_unit = ''U1'', utxo_message_index = 1, utxo_output_index = 2,
               utxo_address = ''ADDR1'', utxo_amount = 1000, locked = False, spent = False \<rparr>]
              [''U1|1|2'']"
    by (simp add: unavailable_def keyBy_def utxoKey_def string_of_nat.simps)
  show ?thesis
    using n by (simp add: publishTx_def w f c k u i isTemporary_def Let_def ex_pending_def)
qed


lemma ex_signed_by_alice_fields [simp]:
  "txp_id ex_signed_by_alice = ''p1''" "txp_walletId ex_signed_by_alice = ''w1''"
  "txp_status ex_signed_by_alice = Pending"
  "requiredSignatures ex_signed_by_alice = 2" "requiredRejections ex_signed_by_alice = 2"
  "signingInfo ex_signed_by_alice = o_signingInfo ex_opts"
  by (simp_all add: ex_signed_by_alice_def)

lemma ex_copayers:
  "getCopayer ex_wallet ''alice'' = Some (ex_copayer ''alice'' ''xpubA'' ''devA'')"
  "getCopayer ex_wallet ''bob'' = Some (ex_copayer ''bob'' ''xpubB'' ''devB'')"
  by (simp_all add: getCopayer_def ex_wallet_def ex_copayer_def)

lemma ex_run_sign_alice:
  "fst (signTx ex_alice ex_crypto 1400 ''p1'' ex_sigs_alice (ex_storage_with ex_pending))
     = Inr ex_signed_by_alice"
proof -
  have w: "getWallet ex_alice (ex_storage_with ex_pending) = Inr ex_wallet"
    by (simp add: ex_getWallet)
  have f: "getTx ex_alice (ex_storage_with ex_pending) ''p1'' = Inr ex_pending"
    using ex_fetch [of ex_pending] by (simp add: getTx_def)
  have a: "addSignaturesToUnit ex_crypto ''w1'' ex_sigs_alice ''xpubA'' ex_pending
     = (None, ex_pending\<lparr>txp_unit := ex_unit\<lparr>u_authors :=
           [\<lparr> au_address = ''ADDR1'', au_authentifiers = [(''r.0'', ''HASH-TO-SIGN/PKa'')] \<rparr>]\<rparr>\<rparr>)"
    by (simp add: addSignaturesToUnit_def authorCount_def obj_keys_def obj_values_def obj_set_def
        ex_sigs_alice_def ex_opts_def ex_crypto_def ex_unit_def Let_def)
  have s: "sign ex_crypto 1400 ''alice'' ''w1'' ex_sigs_alice ''xpubA'' ex_pending
     = (True, ex_signed_by_alice)"
    by (simp add: sign_def a addAction_def updateStatus_def isRejected_def isAccepted_def
        votes_def TxProposalAction_create_def ex_signed_by_alice_def Let_def)
  show ?thesis
    by (simp add: signTx_def w f s ex_copayers getActionByCopayer_def isPending_def
        isAccepted_def votes_def Let_def ex_copayer_def)
qed

lemma ex_run_sign_bob:
  "fst (signTx ex_bob ex_crypto 1500 ''p1'' ex_sigs_bob (ex_storage_with ex_signed_by_alice))
     = Inr ex_accepted"
proof -
  have w: "getWallet ex_bob (ex_storage_with ex_signed_by_alice) = Inr ex_wallet"
    by (simp add: ex_getWallet)
  have f: "getTx ex_bob (ex_storage_with ex_signed_by_alice) ''p1'' = Inr ex_signed_by_alice"
    using ex_fetch [of ex_signed_by_alice] by (simp add: getTx_def)
  have a: "addSignaturesToUnit ex_crypto ''w1'' ex_sigs_bob ''xpubB'' ex_signed_by_alice
     = (None, ex_signed_by_alice\<lparr>txp_unit := ex_unit\<lparr>u_authors :=
           [\<lparr> au_address = ''ADDR1'',
              au_authentifiers = [(''r.0'', ''HASH-TO-SIGN/PKa''), (''r.1'', ''HASH-TO-SIGN/PKb'')] \<rparr>]\<rparr>\<rparr>)"
    by (simp add: addSignaturesToUnit_def authorCount_def obj_keys_def obj_values_def obj_set_def
        ex_sigs_bob_def ex_opts_def ex_crypto_def ex_unit_def Let_def ex_signed_by_alice_def)
  have s: "sign ex_crypto 1500 ''bob'' ''w1'' ex_sigs_bob ''xpubB'' ex_signed_by_alice
     = (True, ex_accepted)"
    apply (simp add: sign_def a)
    apply (simp add: addAction_def updateStatus_def isRejected_def isAccepted_def
        votes_def TxProposalAction_create_def ex_signed_by_alice_def ex_accepted_def Let_def
        ex_crypto_def)
    done
  have c: "getActionByCopayer ex_signed_by_alice ''bob'' = None" "isPending ex_signed_by_alice"
    "\<not> isAccepted ex_signed_by_alice"
    by (simp_all add: getActionByCopayer_def isPending_def isAccepted_def votes_def
        ex_signed_by_alice_def TxProposalAction_create_def)
  show ?thesis
    by (simp add: signTx_def w f s c ex_copayers Let_def ex_copayer_def)
qed

lemma ex_run_broadcast:
  "fst (broadcastTx ex_alice ex_hub_ok 2000 ''p1'' ex_accepted_storage) = Inr ex_broadcasted"
proof -
  have f: "fetchTx ex_accepted_storage (sv_walletId ex_alice) ''p1'' = Some ex_accepted"
    using ex_accepted_fetch by simp
  from processBroadcast_ok [OF f, of "''UNIT-HASH''" 2000 False]
  have "fst (processBroadcast ex_alice 2000 ex_accepted False ex_accepted_storage) = Inr ex_broadcasted"
    by (auto simp: ex_broadcasted_def)
  then show ?thesis
    using f by (simp add: broadcastTx_def getTx_def ex_accepted_wallet ex_hub_ok_def)
qed


lemma fst_run: "fst r = Inr t \<Longrightarrow> r = (Inr t, snd r)"
  by (cases r) simp

lemma ex_reachable_accepted: "reachable ex_crypto ex_accepted"
proof -
  have "reachable ex_crypto ex_created"
    unfolding ex_created_def by (rule reachable.created) (simp_all add: ex_opts_def)
  from this _ fst_run [OF ex_run_publish] have "reachable ex_crypto ex_pending"
    by (rule reachable.published) (use ex_fetch [of ex_created] in simp)
  from this _ fst_run [OF ex_run_sign_alice] have "reachable ex_crypto ex_signed_by_alice"
    by (rule reachable.signed) (use ex_fetch [of ex_pending] in simp)
  from this _ fst_run [OF ex_run_sign_bob] show "reachable ex_crypto ex_accepted"
    by (rule reachable.signed) (use ex_fetch [of ex_signed_by_alice] in simp)
qed

lemma ex_reachable_broadcasted: "reachable ex_crypto ex_broadcasted"
proof -
  from ex_reachable_accepted _ fst_run [OF ex_run_broadcast] show ?thesis
    by (rule reachable.broadcast) (use ex_accepted_fetch in simp)
qed


text \<open>The accepted proposal of the running example.\<close>

theorem quorum_witness:
  "reachable ex_crypto ex_accepted \<and> txp_status ex_accepted = Accepted \<and>
   walletM ex_accepted \<le> int (votes ex_accepted Accept) \<and>
   (\<exists>u. txid ex_accepted = Some (getUnitHash ex_crypto u)) \<and>
   u_unit (txp_unit ex_accepted) = txid ex_accepted \<and>
   \<not> requiredRejections ex_accepted \<le> int (votes ex_accepted Reject) \<and>
   requiredRejections ex_accepted = min (walletM ex_accepted) (walletN ex_accepted - walletM ex_accepted + 1)"
  using quorum [OF ex_reachable_accepted] ex_reachable_accepted
  by simp

text \<open>
  C2 as stated makes \<open>accepted\<close> the status of every proposal with at least \<open>m\<close> accept
  actions. After its broadcast the proposal of the running example has two accept actions
  in a 2-of-3 wallet and the status \<open>broadcasted\<close>.
\<close>

theorem quorum_broadcasted_counterexample:
  "reachable ex_crypto ex_broadcasted \<and>
   walletM ex_broadcasted = 2 \<and> votes ex_broadcasted Accept = 2 \<and>
   txp_status ex_broadcasted \<noteq> Accepted"
  using ex_reachable_broadcasted
  by (simp add: ex_broadcasted_def ex_accepted_def votes_def TxProposalAction_create_def)

subsection \<open>C3: wallet completion\<close>

text \<open>Comparing a count with a whole number.\<close>

lemma whole_cmp:
  "(of_nat l < (of_int k :: rat)) = (int l < k)"
  "(of_nat l \<le> (of_int k :: rat)) = (int l \<le> k)"
  "(of_nat l = (of_int k :: rat)) = (int l = k)"
  "(of_nat l + 1 < (of_int k :: rat)) = (int l + 1 < k)"
  "(1 \<le> (of_int k :: rat)) = (1 \<le> k)"
  "(1 < (of_int k :: rat)) = (1 < k)"
proof -
  have e: "(of_nat l :: rat) = of_int (int l)" by simp
  show "(of_nat l < (of_int k :: rat)) = (int l < k)" unfolding e by (rule of_int_less_iff)
  show "(of_nat l \<le> (of_int k :: rat)) = (int l \<le> k)" unfolding e by (rule of_int_le_iff)
  show "(of_nat l = (of_int k :: rat)) = (int l = k)" unfolding e by (rule of_int_eq_iff)
  have f: "(of_nat l + 1 :: rat) = of_int (int l + 1)" by simp
  show "(of_nat l + 1 < (of_int k :: rat)) = (int l + 1 < k)" unfolding f by (rule of_int_less_iff)
  show "(1 \<le> (of_int k :: rat)) = (1 \<le> k)" by simp
  show "(1 < (of_int k :: rat)) = (1 < k)" by simp
qed

text \<open>Wallet formation keeps the invariant \<open>wallets_inv\<close>.\<close>

lemma upsert_append: "\<forall>y\<in>set xs. \<not> p y \<Longrightarrow> upsert p x xs = xs @ [x]"
  by (induction xs) auto

lemma upsert_replace:
  assumes "distinct (map f xs)" and "y \<in> set xs" and "f x = f y"
  shows "set (upsert (\<lambda>v. f v = f x) x xs) = insert x (set xs - {y}) \<and>
         map f (upsert (\<lambda>v. f v = f x) x xs) = map f xs"
  using assms
proof (induction xs)
  case Nil
  then show ?case by simp
next
  case (Cons z zs)
  show ?case
  proof (cases "z = y")
    case True
    with Cons.prems show ?thesis by force
  next
    case False
    with Cons.prems have y: "y \<in> set zs" and fz: "f z \<noteq> f y" by force+
    with Cons.prems Cons.IH have
      "set (upsert (\<lambda>v. f v = f x) x zs) = insert x (set zs - {y}) \<and>
       map f (upsert (\<lambda>v. f v = f x) x zs) = map f zs"
      by simp
    with fz False Cons.prems(3) show ?thesis by auto
  qed
qed

lemma fetchWallet_None: "fetchWallet st i = None \<Longrightarrow> i \<notin> w_id ` set (st_wallets st)"
  by (auto simp: fetchWallet_def find_None_iff)

lemma fetchWallet_Some: "fetchWallet st i = Some w \<Longrightarrow> w \<in> set (st_wallets st) \<and> w_id w = i"
  by (auto simp: fetchWallet_def find_Some_iff)

lemma addCopayer_InrD:
  assumes "addCopayer w c = Inr w'"
  shows "w_id w' = w_id w \<and> w_n w' = w_n w \<and> copayers w' = copayers w @ [c] \<and>
         (if of_nat (length (copayers w)) + 1 < w_n w
          then w_status w' = w_status w \<and> publicKeyRing w' = publicKeyRing w
          else w_status w' = WComplete \<and> length (publicKeyRing w') = length (copayers w) + 1)"
  using assms
  by (auto simp: addCopayer_def updatePublicKeyRing_def Let_def
      split: if_splits sum.splits definition_template.splits)

lemma createWallet_InrD:
  assumes "createWallet cr now uuid opts st = (Inr wid, st')" and "fetchWallet st uuid = None"
  shows "\<exists>w. st' = storeWallet st w \<and> fetchWallet st (w_id w) = None \<and> 1 \<le> w_n w \<and>
             copayers w = [] \<and> w_status w = WPending"
proof -
  from assms(1) have lim: "verifyCopayerLimits (cw_m opts) (cw_n opts)"
    by (auto simp: createWallet_def split: if_splits)
  from assms(1) obtain w wo where wc: "Wallet_create cr now wo = Inr w"
    and id: "wo_id wo = (case (case cw_id opts of None \<Rightarrow> None
                                   | Some i \<Rightarrow> if i = [] then None else Some i) of
                           None \<Rightarrow> uuid | Some i \<Rightarrow> i)"
    and n: "wo_n wo = cw_n opts"
    and ex: "\<not> (case (case cw_id opts of None \<Rightarrow> None
                                   | Some i \<Rightarrow> if i = [] then None else Some i) of
                  None \<Rightarrow> False | Some i \<Rightarrow> fetchWallet st i \<noteq> None)"
    and st': "st' = storeWallet st w"
    unfolding createWallet_def Let_def
    by (simp split: if_splits option.splits sum.splits)
  from wc have w: "w_id w = wo_id wo" "w_n w = wo_n wo" "copayers w = []" "w_status w = WPending"
    by (auto simp: Wallet_create_def split: if_splits)
  from id ex assms(2) have "fetchWallet st (wo_id wo) = None"
    by (auto split: option.splits if_splits)
  with w n lim st' show ?thesis by (auto simp: verifyCopayerLimits_def)
qed

lemma joinWallet_InrD:
  assumes "joinWallet cr now opts st = (Inr r, st')"
  shows "\<exists>w. fetchWallet st (jo_walletId opts) = Some w \<and> of_nat (length (copayers w)) \<noteq> w_n w \<and>
             addCopayerToWallet cr now w opts st = (Inr r, st')"
proof -
  from assms obtain w where w: "fetchWallet st (jo_walletId opts) = Some w"
    by (cases "fetchWallet st (jo_walletId opts)")
       (auto simp: joinWallet_def Let_def split: if_splits option.splits)
  with assms show ?thesis
    by (auto simp: joinWallet_def Let_def split: if_splits option.splits sum.splits)
qed

lemma addCopayerToWallet_InrD:
  assumes "addCopayerToWallet cr now w opts st = (Inr r, st')"
  shows "(jo_dryRun opts \<and> st' = st \<and> r = (None, w)) \<or>
         (\<not> jo_dryRun opts \<and>
          (\<exists>c w'. addCopayer w c = Inr w' \<and> r = (Some (cp_id c), w') \<and>
                   st_wallets st' = upsert (\<lambda>v. w_id v = w_id w') w' (st_wallets st) \<and>
                   st_notifications st' = st_notifications st @ join_notes opts c w'))"
proof -
  from assms obtain c where c: "Copayer_create cr now
             \<lparr> co_coin = w_coin w, co_name = jo_name opts, co_deviceId = jo_deviceId opts,
               co_account = jo_account opts, co_xPubKey = jo_xPubKey opts,
               co_requestPubKey = jo_requestPubKey opts,
               co_signature = jo_copayerSignature opts \<rparr> = Inr c"
    by (auto simp: addCopayerToWallet_def split: sum.splits)
  show ?thesis
  proof (cases "jo_dryRun opts")
    case True
    with assms c show ?thesis
      by (auto simp: addCopayerToWallet_def split: if_splits)
  next
    case False
    with assms c obtain w' where w': "addCopayer w c = Inr w'"
      by (auto simp: addCopayerToWallet_def split: if_splits sum.splits)
    from assms c False w' have "r = (Some (cp_id c), w')"
      and "st_wallets st' = upsert (\<lambda>v. w_id v = w_id w') w' (st_wallets st)"
      and "st_notifications st' = st_notifications st @ join_notes opts c w'"
      by (auto simp: addCopayerToWallet_def Let_def notify_def storeNotification_def
          storeWalletAndUpdateCopayersLookup_def storeWallet_def join_notes_def
          split: if_splits)
    with False w' show ?thesis by blast
  qed
qed


lemma walletCompleteCount_absent:
  assumes "\<forall>n\<in>set (st_notifications st).
             n_type n = ''WalletComplete'' \<longrightarrow> n_walletId n \<in> w_id ` set (st_wallets st)"
    and "i \<notin> w_id ` set (st_wallets st)"
  shows "walletCompleteCount st i = 0"
  using assms by (auto simp: walletCompleteCount_def filter_empty_conv)

lemma wallets_inv_created:
  assumes inv: "wallets_inv st" and cw: "createWallet cr now uuid opts st = (Inr wid, st')"
    and fresh: "fetchWallet st uuid = None"
  shows "wallets_inv st'"
proof -
  from createWallet_InrD [OF cw fresh] obtain w where st': "st' = storeWallet st w"
    and new: "fetchWallet st (w_id w) = None" and w: "1 \<le> w_n w" "copayers w = []"
      "w_status w = WPending"
    by blast
  from fetchWallet_None [OF new] have nin: "w_id w \<notin> w_id ` set (st_wallets st)" .
  then have "\<forall>y\<in>set (st_wallets st). \<not> w_id y = w_id w" by (metis image_eqI)
  then have ws: "st_wallets st' = st_wallets st @ [w]"
    by (simp add: st' storeWallet_def upsert_append)
  have ns: "st_notifications st' = st_notifications st" by (simp add: st' storeWallet_def)
  have cnt: "walletCompleteCount st' i = walletCompleteCount st i" for i
    by (simp add: walletCompleteCount_def ns)
  from inv have d: "distinct (map w_id (st_wallets st))"
    and ok: "\<forall>v\<in>set (st_wallets st). wallet_ok st v"
    and nt: "\<forall>n\<in>set (st_notifications st).
          n_type n = ''WalletComplete'' \<longrightarrow> n_walletId n \<in> w_id ` set (st_wallets st)"
    by (simp_all add: wallets_inv_def)
  have "walletCompleteCount st (w_id w) = 0"
    using nt nin by (rule walletCompleteCount_absent)
  with w have "wallet_ok st' w" by (simp add: wallet_ok_def cnt)
  moreover have "\<forall>v\<in>set (st_wallets st). wallet_ok st' v"
    using ok by (simp add: wallet_ok_def cnt)
  moreover have "distinct (map w_id (st_wallets st'))" using d nin by (simp add: ws)
  moreover have "\<forall>n\<in>set (st_notifications st').
          n_type n = ''WalletComplete'' \<longrightarrow> n_walletId n \<in> w_id ` set (st_wallets st')"
    using nt by (auto simp: ns ws)
  ultimately show ?thesis by (simp add: wallets_inv_def ws)
qed

lemma wallets_inv_joined:
  assumes inv: "wallets_inv st" and jw: "joinWallet cr now opts st = (Inr r, st')"
  shows "wallets_inv st'"
proof -
  from joinWallet_InrD [OF jw] obtain w where f: "fetchWallet st (jo_walletId opts) = Some w"
    and notfull: "of_nat (length (copayers w)) \<noteq> w_n w"
    and a: "addCopayerToWallet cr now w opts st = (Inr r, st')"
    by blast
  from fetchWallet_Some [OF f] have win: "w \<in> set (st_wallets st)" and wid: "w_id w = jo_walletId opts"
    by simp_all
  from inv have d: "distinct (map w_id (st_wallets st))"
    and ok: "\<forall>v\<in>set (st_wallets st). wallet_ok st v"
    and nt: "\<forall>n\<in>set (st_notifications st).
          n_type n = ''WalletComplete'' \<longrightarrow> n_walletId n \<in> w_id ` set (st_wallets st)"
    by (simp_all add: wallets_inv_def)
  from addCopayerToWallet_InrD [OF a] show ?thesis
  proof
    assume "jo_dryRun opts \<and> st' = st \<and> r = (None, w)"
    with inv show ?thesis by simp
  next
    assume "\<not> jo_dryRun opts \<and>
          (\<exists>c w'. addCopayer w c = Inr w' \<and> r = (Some (cp_id c), w') \<and>
                   st_wallets st' = upsert (\<lambda>v. w_id v = w_id w') w' (st_wallets st) \<and>
                   st_notifications st' = st_notifications st @ join_notes opts c w')"
    then obtain c w' where ac: "addCopayer w c = Inr w'"
      and ws: "st_wallets st' = upsert (\<lambda>v. w_id v = w_id w') w' (st_wallets st)"
      and ns: "st_notifications st' = st_notifications st @ join_notes opts c w'"
      by blast
    note w' = addCopayer_InrD [OF ac]
    from w' have id': "w_id w' = w_id w" by simp
    from upsert_replace [OF d win id'] ws
    have set': "set (st_wallets st') = insert w' (set (st_wallets st) - {w})"
      and ids': "map w_id (st_wallets st') = map w_id (st_wallets st)"
      by simp_all
    from ok win have wok: "wallet_ok st w" by simp
    have cnt_other: "walletCompleteCount st' i = walletCompleteCount st i" if "i \<noteq> w_id w" for i
      using that by (simp add: walletCompleteCount_def ns join_notes_def wid)
    have "wallet_ok st' w'"
    proof (cases "w_n w \<in> \<int>")
      case False
      with w' show ?thesis by (simp add: wallet_ok_def)
    next
      case True
      then obtain k :: int where k: "w_n w = of_int k" by (auto elim: Ints_cases)
      from wok True notfull have pend: "w_status w \<noteq> WComplete"
        and lt: "int (length (copayers w)) < k" and k1: "1 \<le> k"
        and cnt0: "walletCompleteCount st (w_id w) = 0"
        by (auto simp: wallet_ok_def k whole_cmp)
      have cnt_w: "walletCompleteCount st' (w_id w) =
          (if isComplete w' \<and> isShared w' then 1 else 0)"
        using cnt0 by (simp add: walletCompleteCount_def ns join_notes_def wid)
      from w' have n': "w_n w' = of_int k" by (simp add: k)
      from w' lt pend cnt_w k1 show ?thesis
        by (auto simp: wallet_ok_def isComplete_def isShared_def n' k whole_cmp split: if_splits)
    qed
    moreover have "\<forall>v\<in>set (st_wallets st) - {w}. wallet_ok st' v"
    proof
      fix v assume v: "v \<in> set (st_wallets st) - {w}"
      with d win have "w_id v \<noteq> w_id w" by (auto simp: distinct_map inj_on_def)
      from cnt_other [OF this] ok v show "wallet_ok st' v" by (simp add: wallet_ok_def)
    qed
    moreover have "distinct (map w_id (st_wallets st'))" using d by (simp add: ids')
    moreover have "\<forall>n\<in>set (st_notifications st').
          n_type n = ''WalletComplete'' \<longrightarrow> n_walletId n \<in> w_id ` set (st_wallets st')"
    proof -
      have "w_id ` set (st_wallets st') = w_id ` set (st_wallets st)"
        using ids' by (metis set_map)
      moreover have "jo_walletId opts \<in> w_id ` set (st_wallets st)" using win wid by force
      ultimately show ?thesis using nt by (auto simp: ns join_notes_def)
    qed
    ultimately show ?thesis by (simp add: wallets_inv_def set')
  qed
qed

lemma wallets_reachable_inv: "wallets_reachable cr st \<Longrightarrow> wallets_inv st"
proof (induction rule: wallets_reachable.induct)
  case initial
  show ?case by (simp add: wallets_inv_def empty_storage_def)
next
  case (wallet_created st uuid now opts wid st')
  then show ?case by (blast intro: wallets_inv_created)
next
  case (wallet_joined st now opts r st')
  then show ?case by (blast intro: wallets_inv_joined)
qed

text \<open>
  For every wallet of a storage that wallet formation produces, if \<open>n\<close> is a whole number:
  the status is
  \<open>complete\<close> if and only if the number of copayers equals \<open>n\<close>; the public-key ring of
  a complete wallet has \<open>n\<close> entries; and the log holds exactly one \<open>WalletComplete\<close>
  notification for a complete wallet with \<open>n > 1\<close> and none otherwise, so none for
  \<open>n = 1\<close>. A successful join emits \<open>NewCopayer\<close>, followed by \<open>WalletComplete\<close> exactly
  when it completes a wallet with \<open>n > 1\<close>.
\<close>

lemma wallet_completion_whole_n:
  "(wallets_reachable cr st \<and> w \<in> set (st_wallets st) \<and> w_n w \<in> \<int> \<longrightarrow>
      (w_status w = WComplete \<longleftrightarrow> of_nat (length (copayers w)) = w_n w) \<and>
      (w_status w = WComplete \<longrightarrow> of_nat (length (publicKeyRing w)) = w_n w) \<and>
      walletCompleteCount st (w_id w) = (if w_status w = WComplete \<and> 1 < w_n w then 1 else 0)) \<and>
   (joinWallet cr now opts st = (Inr (Some cid, w'), st') \<longrightarrow>
      map n_type (drop (length (st_notifications st)) (st_notifications st')) =
        (if w_status w' = WComplete \<and> 1 < w_n w' then [''NewCopayer'', ''WalletComplete'']
         else [''NewCopayer'']))"
proof (rule conjI; rule impI)
  assume a: "wallets_reachable cr st \<and> w \<in> set (st_wallets st) \<and> w_n w \<in> \<int>"
  then have "wallet_ok st w"
    using wallets_reachable_inv [of cr st] by (simp add: wallets_inv_def)
  with a show "(w_status w = WComplete \<longleftrightarrow> of_nat (length (copayers w)) = w_n w) \<and>
      (w_status w = WComplete \<longrightarrow> of_nat (length (publicKeyRing w)) = w_n w) \<and>
      walletCompleteCount st (w_id w) = (if w_status w = WComplete \<and> 1 < w_n w then 1 else 0)"
    by (auto simp: wallet_ok_def)
next
  assume j: "joinWallet cr now opts st = (Inr (Some cid, w'), st')"
  from joinWallet_InrD [OF j] obtain w0 where
    "addCopayerToWallet cr now w0 opts st = (Inr (Some cid, w'), st')"
    by blast
  from addCopayerToWallet_InrD [OF this] obtain c where
    "st_notifications st' = st_notifications st @ join_notes opts c w'"
    by auto
  then show "map n_type (drop (length (st_notifications st)) (st_notifications st')) =
        (if w_status w' = WComplete \<and> 1 < w_n w' then [''NewCopayer'', ''WalletComplete'']
         else [''NewCopayer''])"
    by (simp add: join_notes_def isComplete_def isShared_def)
qed

text \<open>The formation of the 2-of-3 wallet of the running example.\<close>

lemma ex_forming_fields [simp]:
  "w_id (ex_forming cs) = ''w1''" "w_n (ex_forming cs) = 3" "w_coin (ex_forming cs) = ''obyte''"
  "w_network (ex_forming cs) = ''livenet''" "derivationStrategy (ex_forming cs) = BIP44"
  "w_pubKey (ex_forming cs) = ''WPK''" "copayers (ex_forming cs) = cs"
  "definitionTemplate (ex_forming cs) = DT_r_of_set 2 (map (\<lambda>c. ''$pubkey@'' @ cp_deviceId c) cs)"
  by (simp_all add: ex_forming_def ex_wallet_def)

lemma ex_crypto_fields [simp]:
  "COINS ex_crypto = [''obyte'']" "NETWORKS ex_crypto = [''livenet'', ''testnet'']"
  "HDPublicKey ex_crypto ''xpubA'' = Some ''livenet''"
  "HDPublicKey ex_crypto ''xpubB'' = Some ''livenet''"
  "HDPublicKey ex_crypto ''xpubC'' = Some ''livenet''"
  "xPubToCopayerId ex_crypto ''xpubA'' = ''alice''"
  "xPubToCopayerId ex_crypto ''xpubB'' = ''bob''"
  "xPubToCopayerId ex_crypto ''xpubC'' = ''carol''"
  "PublicKey_fromString ex_crypto ''WPK'' = Some ''WPK''"
  "secp256k1Verify ex_crypto text sig pubKey = (sig = text @ ''/'' @ pubKey)"
  by (simp_all add: ex_crypto_def)

lemma ex_formation_0:
  "createWallet ex_crypto 900 ''fresh-uuid'' ex_create_opts empty_storage = (Inr ''w1'', ex_formation_0)"
  "ex_formation_0 = empty_storage\<lparr>st_wallets := [ex_forming []]\<rparr>"
  by (simp_all add: ex_formation_0_def createWallet_def ex_create_opts_def verifyCopayerLimits_def
      checkValueInCollection_def fetchWallet_def empty_storage_def Wallet_create_def
      storeWallet_def ex_forming_def ex_wallet_def Let_def)


lemma ex_copayer_fields [simp]:
  "cp_id (ex_copayer cid xpub dev) = cid" "cp_xPubKey (ex_copayer cid xpub dev) = xpub"
  "cp_deviceId (ex_copayer cid xpub dev) = dev" "cp_coin (ex_copayer cid xpub dev) = ''obyte''"
  "cp_name (ex_copayer cid xpub dev) = cid"
  by (simp_all add: ex_copayer_def)

lemmas ex_join_defs =
  joinWallet_def addCopayerToWallet_def Copayer_create_def addCopayer_def
  checkValueInCollection_def verifyMessage_def getCopayerHash_def fetchWallet_def
  fetchCopayerLookup_def storeWalletAndUpdateCopayersLookup_def storeWallet_def notify_def
  storeNotification_def isComplete_def isShared_def updatePublicKeyRing_def Let_def
  ex_join_def ex_lookup_def ex_new_copayer_def ex_wallet_complete_def empty_storage_def

lemma ex_formation_1:
  "joinWallet ex_crypto 900 (ex_join ''alice'' ''xpubA'' ''devA'') ex_formation_0 =
     (Inr (Some ''alice'', ex_forming [ex_copayer ''alice'' ''xpubA'' ''devA'']), ex_formation_1)"
  "ex_formation_1 =
     \<lparr> st_wallets = [ex_forming [ex_copayer ''alice'' ''xpubA'' ''devA'']],
       st_copayerLookup = [ex_lookup (ex_copayer ''alice'' ''xpubA'' ''devA'')],
       st_addresses = [], st_txps = [], st_subs = [],
       st_notifications = [ex_new_copayer (ex_copayer ''alice'' ''xpubA'' ''devA'')] \<rparr>"
  unfolding ex_formation_1_def ex_formation_0(2)
  by (simp_all add: ex_join_defs) (simp_all add: ex_forming_def ex_wallet_def ex_copayer_def)


lemma ex_formation_2:
  "joinWallet ex_crypto 900 (ex_join ''bob'' ''xpubB'' ''devB'') ex_formation_1 =
     (Inr (Some ''bob'', ex_forming [ex_copayer ''alice'' ''xpubA'' ''devA'',
                                     ex_copayer ''bob'' ''xpubB'' ''devB'']), ex_formation_2)"
  "ex_formation_2 =
     \<lparr> st_wallets = [ex_forming [ex_copayer ''alice'' ''xpubA'' ''devA'',
                                   ex_copayer ''bob'' ''xpubB'' ''devB'']],
       st_copayerLookup = [ex_lookup (ex_copayer ''alice'' ''xpubA'' ''devA''),
                           ex_lookup (ex_copayer ''bob'' ''xpubB'' ''devB'')],
       st_addresses = [], st_txps = [], st_subs = [],
       st_notifications = [ex_new_copayer (ex_copayer ''alice'' ''xpubA'' ''devA''),
                           ex_new_copayer (ex_copayer ''bob'' ''xpubB'' ''devB'')] \<rparr>"
  unfolding ex_formation_2_def ex_formation_1(2)
  by (simp_all add: ex_join_defs) (simp_all add: ex_forming_def ex_wallet_def ex_copayer_def)

lemma ex_formation_3:
  "joinWallet ex_crypto 900 (ex_join ''carol'' ''xpubC'' ''devC'') ex_formation_2 =
     (Inr (Some ''carol'', ex_wallet\<lparr>receiveAddressIndex := 0\<rparr>), ex_formation_3)"
  "ex_formation_3 =
     \<lparr> st_wallets = [ex_wallet\<lparr>receiveAddressIndex := 0\<rparr>],
       st_copayerLookup = [ex_lookup (ex_copayer ''alice'' ''xpubA'' ''devA''),
                           ex_lookup (ex_copayer ''bob'' ''xpubB'' ''devB''),
                           ex_lookup (ex_copayer ''carol'' ''xpubC'' ''devC'')],
       st_addresses = [], st_txps = [], st_subs = [],
       st_notifications = [ex_new_copayer (ex_copayer ''alice'' ''xpubA'' ''devA''),
                           ex_new_copayer (ex_copayer ''bob'' ''xpubB'' ''devB''),
                           ex_new_copayer (ex_copayer ''carol'' ''xpubC'' ''devC''),
                           ex_wallet_complete] \<rparr>"
  unfolding ex_formation_3_def ex_formation_2(2)
  by (simp_all add: ex_join_defs) (simp_all add: ex_forming_def ex_wallet_def ex_copayer_def)

lemma ex_formation_reachable: "wallets_reachable ex_crypto ex_formation_3"
proof -
  have "wallets_reachable ex_crypto ex_formation_0"
    using wallets_reachable.initial _ ex_formation_0(1)
    by (rule wallets_reachable.wallet_created) (simp add: fetchWallet_def empty_storage_def)
  from this ex_formation_1(1) have "wallets_reachable ex_crypto ex_formation_1"
    by (rule wallets_reachable.wallet_joined)
  from this ex_formation_2(1) have "wallets_reachable ex_crypto ex_formation_2"
    by (rule wallets_reachable.wallet_joined)
  from this ex_formation_3(1) show ?thesis
    by (rule wallets_reachable.wallet_joined)
qed

lemma wallet_completion_example:
  "wallets_reachable ex_crypto ex_formation_3 \<and>
   ex_wallet\<lparr>receiveAddressIndex := 0\<rparr> \<in> set (st_wallets ex_formation_3) \<and>
   w_status (ex_wallet\<lparr>receiveAddressIndex := 0\<rparr>) = WComplete \<and>
   length (copayers (ex_wallet\<lparr>receiveAddressIndex := 0\<rparr>)) = 3 \<and>
   length (publicKeyRing (ex_wallet\<lparr>receiveAddressIndex := 0\<rparr>)) = 3 \<and>
   walletCompleteCount ex_formation_3 ''w1'' = 1 \<and>
   joinWallet ex_crypto 900 (ex_join ''carol'' ''xpubC'' ''devC'') ex_formation_2 =
     (Inr (Some ''carol'', ex_wallet\<lparr>receiveAddressIndex := 0\<rparr>), ex_formation_3) \<and>
   map n_type (drop (length (st_notifications ex_formation_2)) (st_notifications ex_formation_3)) =
     [''NewCopayer'', ''WalletComplete'']"
proof -
  have r: "wallets_reachable ex_crypto ex_formation_3" by (rule ex_formation_reachable)
  have m: "ex_wallet\<lparr>receiveAddressIndex := 0\<rparr> \<in> set (st_wallets ex_formation_3)"
    by (simp add: ex_formation_3(2))
  have f: "w_status (ex_wallet\<lparr>receiveAddressIndex := 0\<rparr>) = WComplete"
    "w_n (ex_wallet\<lparr>receiveAddressIndex := 0\<rparr>) = 3"
    "w_id (ex_wallet\<lparr>receiveAddressIndex := 0\<rparr>) = ''w1''"
    by (simp_all add: ex_wallet_def)
  show ?thesis
    using r m ex_formation_3(1)
      wallet_completion_whole_n [where cr = ex_crypto and st = ex_formation_3
        and w = "ex_wallet\<lparr>receiveAddressIndex := 0\<rparr>" and now = 900
        and opts = "ex_join ''carol'' ''xpubC'' ''devC''" and cid = "''carol''"
        and w' = "ex_wallet\<lparr>receiveAddressIndex := 0\<rparr>" and st' = ex_formation_3]
      wallet_completion_whole_n [where cr = ex_crypto and st = ex_formation_2
        and w = "ex_wallet\<lparr>receiveAddressIndex := 0\<rparr>" and now = 900
        and opts = "ex_join ''carol'' ''xpubC'' ''devC''" and cid = "''carol''"
        and w' = "ex_wallet\<lparr>receiveAddressIndex := 0\<rparr>" and st' = ex_formation_3]
    by (simp add: f)
qed


text \<open>The formation of the wallet with \<open>n = 5/2\<close>: pending with one and with two copayers,
  since 1 and 2 are less than 5/2; complete with three, since 3 is not; and joined once
  more by dave, since 3 is not equal to 5/2.\<close>

lemma ex_crypto_d_fields [simp]:
  "COINS ex_crypto_d = [''obyte'']" "NETWORKS ex_crypto_d = [''livenet'', ''testnet'']"
  "HDPublicKey ex_crypto_d ''xpubA'' = Some ''livenet''"
  "HDPublicKey ex_crypto_d ''xpubB'' = Some ''livenet''"
  "HDPublicKey ex_crypto_d ''xpubC'' = Some ''livenet''"
  "HDPublicKey ex_crypto_d ''xpubD'' = Some ''livenet''"
  "xPubToCopayerId ex_crypto_d ''xpubA'' = ''alice''"
  "xPubToCopayerId ex_crypto_d ''xpubB'' = ''bob''"
  "xPubToCopayerId ex_crypto_d ''xpubC'' = ''carol''"
  "xPubToCopayerId ex_crypto_d ''xpubD'' = ''dave''"
  "PublicKey_fromString ex_crypto_d ''WPK'' = Some ''WPK''"
  "secp256k1Verify ex_crypto_d text sig pubKey = (sig = text @ ''/'' @ pubKey)"
  by (simp_all add: ex_crypto_d_def ex_crypto_def)

lemma ex_frac_wallet_fields [simp]:
  "w_id (ex_frac_wallet s cs) = ''w1''" "w_n (ex_frac_wallet s cs) = 5 / 2"
  "w_coin (ex_frac_wallet s cs) = ''obyte''" "w_network (ex_frac_wallet s cs) = ''livenet''"
  "derivationStrategy (ex_frac_wallet s cs) = BIP44" "w_pubKey (ex_frac_wallet s cs) = ''WPK''"
  "copayers (ex_frac_wallet s cs) = cs" "w_status (ex_frac_wallet s cs) = s"
  "definitionTemplate (ex_frac_wallet s cs) =
     DT_r_of_set 2 (map (\<lambda>c. ''$pubkey@'' @ cp_deviceId c) cs)"
  by (simp_all add: ex_frac_wallet_def ex_forming_def ex_wallet_def)

lemma ex_frac_0:
  "createWallet ex_crypto_d 900 ''fresh-uuid'' ex_frac_opts empty_storage = (Inr ''w1'', ex_frac_0)"
  "ex_frac_0 = empty_storage\<lparr>st_wallets := [ex_frac_wallet WPending []]\<rparr>"
  by (simp_all add: ex_frac_0_def createWallet_def ex_frac_opts_def ex_create_opts_def
      verifyCopayerLimits_def checkValueInCollection_def fetchWallet_def empty_storage_def
      Wallet_create_def storeWallet_def ex_frac_wallet_def ex_forming_def ex_wallet_def Let_def)

lemma ex_frac_1:
  "joinWallet ex_crypto_d 900 (ex_join ''alice'' ''xpubA'' ''devA'') ex_frac_0 =
     (Inr (Some ''alice'', ex_frac_wallet WPending [ex_copayer ''alice'' ''xpubA'' ''devA'']), ex_frac_1)"
  "ex_frac_1 =
     \<lparr> st_wallets = [ex_frac_wallet WPending [ex_copayer ''alice'' ''xpubA'' ''devA'']],
       st_copayerLookup = [ex_lookup (ex_copayer ''alice'' ''xpubA'' ''devA'')],
       st_addresses = [], st_txps = [], st_subs = [],
       st_notifications = [ex_new_copayer (ex_copayer ''alice'' ''xpubA'' ''devA'')] \<rparr>"
  unfolding ex_frac_1_def ex_frac_0(2)
  by (simp_all add: ex_join_defs)
     (simp_all add: ex_frac_wallet_def ex_forming_def ex_wallet_def ex_copayer_def)

lemma ex_frac_2:
  "joinWallet ex_crypto_d 900 (ex_join ''bob'' ''xpubB'' ''devB'') ex_frac_1 =
     (Inr (Some ''bob'', ex_frac_wallet WPending [ex_copayer ''alice'' ''xpubA'' ''devA'', ex_copayer ''bob'' ''xpubB'' ''devB'']), ex_frac_2)"
  "ex_frac_2 =
     \<lparr> st_wallets = [ex_frac_wallet WPending [ex_copayer ''alice'' ''xpubA'' ''devA'', ex_copayer ''bob'' ''xpubB'' ''devB'']],
       st_copayerLookup = [ex_lookup (ex_copayer ''alice'' ''xpubA'' ''devA''),
                           ex_lookup (ex_copayer ''bob'' ''xpubB'' ''devB'')],
       st_addresses = [], st_txps = [], st_subs = [],
       st_notifications = [ex_new_copayer (ex_copayer ''alice'' ''xpubA'' ''devA''),
                           ex_new_copayer (ex_copayer ''bob'' ''xpubB'' ''devB'')] \<rparr>"
  unfolding ex_frac_2_def ex_frac_1(2)
  by (simp_all add: ex_join_defs)
     (simp_all add: ex_frac_wallet_def ex_forming_def ex_wallet_def ex_copayer_def)

lemma ex_frac_3:
  "joinWallet ex_crypto_d 900 (ex_join ''carol'' ''xpubC'' ''devC'') ex_frac_2 =
     (Inr (Some ''carol'', ex_frac_wallet WComplete [ex_copayer ''alice'' ''xpubA'' ''devA'', ex_copayer ''bob'' ''xpubB'' ''devB'', ex_copayer ''carol'' ''xpubC'' ''devC'']), ex_frac_3)"
  "ex_frac_3 =
     \<lparr> st_wallets = [ex_frac_wallet WComplete [ex_copayer ''alice'' ''xpubA'' ''devA'', ex_copayer ''bob'' ''xpubB'' ''devB'', ex_copayer ''carol'' ''xpubC'' ''devC'']],
       st_copayerLookup = [ex_lookup (ex_copayer ''alice'' ''xpubA'' ''devA''),
                           ex_lookup (ex_copayer ''bob'' ''xpubB'' ''devB''),
                           ex_lookup (ex_copayer ''carol'' ''xpubC'' ''devC'')],
       st_addresses = [], st_txps = [], st_subs = [],
       st_notifications = [ex_new_copayer (ex_copayer ''alice'' ''xpubA'' ''devA''),
                           ex_new_copayer (ex_copayer ''bob'' ''xpubB'' ''devB''),
                           ex_new_copayer (ex_copayer ''carol'' ''xpubC'' ''devC''),
                           ex_wallet_complete] \<rparr>"
  unfolding ex_frac_3_def ex_frac_2(2)
  by (simp_all add: ex_join_defs)
     (simp_all add: ex_frac_wallet_def ex_forming_def ex_wallet_def ex_copayer_def)

lemma ex_frac_4:
  "joinWallet ex_crypto_d 900 (ex_join ''dave'' ''xpubD'' ''devD'') ex_frac_3 =
     (Inr (Some ''dave'', ex_frac_wallet WComplete [ex_copayer ''alice'' ''xpubA'' ''devA'', ex_copayer ''bob'' ''xpubB'' ''devB'', ex_copayer ''carol'' ''xpubC'' ''devC'', ex_copayer ''dave'' ''xpubD'' ''devD'']), ex_frac_4)"
  "ex_frac_4 =
     \<lparr> st_wallets = [ex_frac_wallet WComplete [ex_copayer ''alice'' ''xpubA'' ''devA'', ex_copayer ''bob'' ''xpubB'' ''devB'', ex_copayer ''carol'' ''xpubC'' ''devC'', ex_copayer ''dave'' ''xpubD'' ''devD'']],
       st_copayerLookup = [ex_lookup (ex_copayer ''alice'' ''xpubA'' ''devA''),
                           ex_lookup (ex_copayer ''bob'' ''xpubB'' ''devB''),
                           ex_lookup (ex_copayer ''carol'' ''xpubC'' ''devC''),
                           ex_lookup (ex_copayer ''dave'' ''xpubD'' ''devD'')],
       st_addresses = [], st_txps = [], st_subs = [],
       st_notifications = [ex_new_copayer (ex_copayer ''alice'' ''xpubA'' ''devA''),
                           ex_new_copayer (ex_copayer ''bob'' ''xpubB'' ''devB''),
                           ex_new_copayer (ex_copayer ''carol'' ''xpubC'' ''devC''),
                           ex_wallet_complete,
                           ex_new_copayer (ex_copayer ''dave'' ''xpubD'' ''devD''),
                           ex_wallet_complete] \<rparr>"
  unfolding ex_frac_4_def ex_frac_3(2)
  by (simp_all add: ex_join_defs)
     (simp_all add: ex_frac_wallet_def ex_forming_def ex_wallet_def ex_copayer_def)

text \<open>
  C3 fails in the code for a wallet whose \<open>n\<close> is not a whole number. \<open>createWallet\<close>
  accepts \<open>m = 2\<close>, \<open>n = 5/2\<close>. The join of carol completes the wallet: its status is
  \<open>complete\<close> with three copayers and a ring of three entries, which is not \<open>n\<close>, and one
  \<open>WalletComplete\<close> is in the log. The join of dave is not refused with \<open>WALLET_FULL\<close>:
  the wallet has four copayers and a second \<open>WalletComplete\<close> is in the log.
\<close>

theorem joinWallet_fractional_n:
  "createWallet ex_crypto_d 900 ''fresh-uuid'' ex_frac_opts empty_storage = (Inr ''w1'', ex_frac_0) \<and>
   st_wallets ex_frac_2 = [ex_frac_wallet WPending [ex_copayer ''alice'' ''xpubA'' ''devA'', ex_copayer ''bob'' ''xpubB'' ''devB'']] \<and>
   joinWallet ex_crypto_d 900 (ex_join ''carol'' ''xpubC'' ''devC'') ex_frac_2 =
     (Inr (Some ''carol'', ex_frac_wallet WComplete [ex_copayer ''alice'' ''xpubA'' ''devA'', ex_copayer ''bob'' ''xpubB'' ''devB'', ex_copayer ''carol'' ''xpubC'' ''devC'']), ex_frac_3) \<and>
   st_wallets ex_frac_3 = [ex_frac_wallet WComplete [ex_copayer ''alice'' ''xpubA'' ''devA'', ex_copayer ''bob'' ''xpubB'' ''devB'', ex_copayer ''carol'' ''xpubC'' ''devC'']] \<and>
   w_n (ex_frac_wallet WComplete [ex_copayer ''alice'' ''xpubA'' ''devA'', ex_copayer ''bob'' ''xpubB'' ''devB'', ex_copayer ''carol'' ''xpubC'' ''devC'']) = 5 / 2 \<and>
   w_status (ex_frac_wallet WComplete [ex_copayer ''alice'' ''xpubA'' ''devA'', ex_copayer ''bob'' ''xpubB'' ''devB'', ex_copayer ''carol'' ''xpubC'' ''devC'']) = WComplete \<and>
   length (copayers (ex_frac_wallet WComplete [ex_copayer ''alice'' ''xpubA'' ''devA'', ex_copayer ''bob'' ''xpubB'' ''devB'', ex_copayer ''carol'' ''xpubC'' ''devC''])) = 3 \<and>
   length (publicKeyRing (ex_frac_wallet WComplete [ex_copayer ''alice'' ''xpubA'' ''devA'', ex_copayer ''bob'' ''xpubB'' ''devB'', ex_copayer ''carol'' ''xpubC'' ''devC''])) = 3 \<and>
   walletCompleteCount ex_frac_3 ''w1'' = 1 \<and>
   joinWallet ex_crypto_d 900 (ex_join ''dave'' ''xpubD'' ''devD'') ex_frac_3 =
     (Inr (Some ''dave'', ex_frac_wallet WComplete [ex_copayer ''alice'' ''xpubA'' ''devA'', ex_copayer ''bob'' ''xpubB'' ''devB'', ex_copayer ''carol'' ''xpubC'' ''devC'', ex_copayer ''dave'' ''xpubD'' ''devD'']), ex_frac_4) \<and>
   st_wallets ex_frac_4 = [ex_frac_wallet WComplete [ex_copayer ''alice'' ''xpubA'' ''devA'', ex_copayer ''bob'' ''xpubB'' ''devB'', ex_copayer ''carol'' ''xpubC'' ''devC'', ex_copayer ''dave'' ''xpubD'' ''devD'']] \<and>
   length (copayers (ex_frac_wallet WComplete [ex_copayer ''alice'' ''xpubA'' ''devA'', ex_copayer ''bob'' ''xpubB'' ''devB'', ex_copayer ''carol'' ''xpubC'' ''devC'', ex_copayer ''dave'' ''xpubD'' ''devD''])) = 4 \<and>
   walletCompleteCount ex_frac_4 ''w1'' = 2"
proof -
  have 1: "st_wallets ex_frac_2 = [ex_frac_wallet WPending [ex_copayer ''alice'' ''xpubA'' ''devA'', ex_copayer ''bob'' ''xpubB'' ''devB'']]"
    "st_wallets ex_frac_3 = [ex_frac_wallet WComplete [ex_copayer ''alice'' ''xpubA'' ''devA'', ex_copayer ''bob'' ''xpubB'' ''devB'', ex_copayer ''carol'' ''xpubC'' ''devC'']]"
    "st_wallets ex_frac_4 = [ex_frac_wallet WComplete [ex_copayer ''alice'' ''xpubA'' ''devA'', ex_copayer ''bob'' ''xpubB'' ''devB'', ex_copayer ''carol'' ''xpubC'' ''devC'', ex_copayer ''dave'' ''xpubD'' ''devD'']]"
    by (simp_all add: ex_frac_2(2) ex_frac_3(2) ex_frac_4(2))
  have 2: "w_n (ex_frac_wallet WComplete [ex_copayer ''alice'' ''xpubA'' ''devA'', ex_copayer ''bob'' ''xpubB'' ''devB'', ex_copayer ''carol'' ''xpubC'' ''devC'']) = 5 / 2"
    "w_status (ex_frac_wallet WComplete [ex_copayer ''alice'' ''xpubA'' ''devA'', ex_copayer ''bob'' ''xpubB'' ''devB'', ex_copayer ''carol'' ''xpubC'' ''devC'']) = WComplete"
    "length (copayers (ex_frac_wallet WComplete [ex_copayer ''alice'' ''xpubA'' ''devA'', ex_copayer ''bob'' ''xpubB'' ''devB'', ex_copayer ''carol'' ''xpubC'' ''devC''])) = 3"
    "length (publicKeyRing (ex_frac_wallet WComplete [ex_copayer ''alice'' ''xpubA'' ''devA'', ex_copayer ''bob'' ''xpubB'' ''devB'', ex_copayer ''carol'' ''xpubC'' ''devC''])) = 3"
    "length (copayers (ex_frac_wallet WComplete [ex_copayer ''alice'' ''xpubA'' ''devA'', ex_copayer ''bob'' ''xpubB'' ''devB'', ex_copayer ''carol'' ''xpubC'' ''devC'', ex_copayer ''dave'' ''xpubD'' ''devD''])) = 4"
    by (simp_all add: ex_frac_wallet_def)
  have 3: "walletCompleteCount ex_frac_3 ''w1'' = 1" "walletCompleteCount ex_frac_4 ''w1'' = 2"
    by (simp_all add: walletCompleteCount_def ex_frac_3(2) ex_frac_4(2) ex_new_copayer_def
          ex_wallet_complete_def)
  from ex_frac_0(1) 1 ex_frac_3(1) 2 3 ex_frac_4(1) show ?thesis by (intro conjI)
qed

subsection \<open>C6: the gap limit\<close>

text \<open>What the probe answers: nothing when no address reports activity, and otherwise the
  first address of its list that reports activity.\<close>

lemma probe_none:
  "\<forall>a\<in>set as. getAddressActivity ex (a_address a) = Inr False \<Longrightarrow> probe ex as = Inr None"
  by (induction as) auto

lemma probe_some:
  assumes "\<forall>a\<in>set as. \<exists>b. getAddressActivity ex (a_address a) = Inr b"
    and "\<exists>a\<in>set as. getAddressActivity ex (a_address a) = Inr True"
  shows "\<exists>pre a post. as = pre @ a # post \<and> probe ex as = Inr (Some a) \<and>
           (\<forall>b\<in>set pre. getAddressActivity ex (a_address b) = Inr False) \<and>
           getAddressActivity ex (a_address a) = Inr True"
  using assms
proof (induction as)
  case Nil
  then show ?case by simp
next
  case (Cons x xs)
  from Cons.prems(1) obtain b where b: "getAddressActivity ex (a_address x) = Inr b" by auto
  show ?case
  proof (cases b)
    case True
    with b have "x # xs = [] @ x # xs \<and> probe ex (x # xs) = Inr (Some x) \<and>
           (\<forall>b\<in>set []. getAddressActivity ex (a_address b) = Inr False) \<and>
           getAddressActivity ex (a_address x) = Inr True"
      by simp
    then show ?thesis by blast
  next
    case False
    with b Cons.prems(2) have "\<exists>a\<in>set xs. getAddressActivity ex (a_address a) = Inr True"
      by auto
    with Cons.IH Cons.prems(1) obtain pre a post where p: "xs = pre @ a # post"
      "probe ex xs = Inr (Some a)"
      "\<forall>b\<in>set pre. getAddressActivity ex (a_address b) = Inr False"
      "getAddressActivity ex (a_address a) = Inr True"
      by auto
    with b False have "x # xs = (x # pre) @ a # post \<and> probe ex (x # xs) = Inr (Some a) \<and>
           (\<forall>b\<in>set (x # pre). getAddressActivity ex (a_address b) = Inr False) \<and>
           getAddressActivity ex (a_address a) = Inr True"
      by simp
    then show ?thesis by blast
  qed
qed

text \<open>Storing under another key keeps an address that is stored.\<close>

lemma upsert_keeps: "x \<in> set xs \<Longrightarrow> \<not> p x \<Longrightarrow> x \<in> set (upsert p y xs)"
  by (induction xs) auto

lemma upsert_member: "x \<in> set (upsert p x xs)"
  by (induction xs) auto

lemma getWallet_storeAddress [simp]: "getWallet sv (storeAddress st a) = getWallet sv st"
  by (simp add: getWallet_def fetchWallet_def storeAddress_def)

text \<open>The creation under the lock, for a complete wallet with several addresses whose next
  address derives: the new address is answered, the wallet with the advanced counter and
  the address are stored, and \<open>NewAddress\<close> is notified.\<close>

lemma createAddressLocked_creates:
  assumes "getWallet sv s = Inr w" and "isComplete w" and "scanStatus w \<noteq> Some ''error''"
    and "\<not> singleAddress w" and "Wallet_createAddress cr w = Some (new, w')"
  shows "createAddressLocked sv cr s =
           (Inr new, notify sv ''NewAddress'' [(''address'', a_address new)] False
                       (storeAddress (storeWallet s w') new))"
  using assms by (simp add: createAddressLocked_def createNewAddress_def)

lemma flag_kept:
  assumes "a_address new \<noteq> a_address a"
  shows "a\<lparr>a_hasActivity := True\<rparr> \<in>
           set (st_addresses (notify sv ty data g
                  (storeAddress (storeWallet (storeAddress st (a\<lparr>a_hasActivity := True\<rparr>)) w') new)))"
proof -
  have "a\<lparr>a_hasActivity := True\<rparr> \<in> set (st_addresses (storeAddress st (a\<lparr>a_hasActivity := True\<rparr>)))"
    by (simp add: storeAddress_def upsert_member)
  then show ?thesis
    using assms
    by (simp add: notify_def storeNotification_def storeAddress_def storeWallet_def upsert_keeps)
qed


text \<open>A wallet with a single address answers its first stored address and creates none;
  such a wallet holds one address.\<close>

lemma createAddress_single_address:
  assumes "getWallet sv st = Inr w" and "isComplete w" and "scanStatus w \<noteq> Some ''error''"
    and "singleAddress w" and "fetchAddresses st (sv_walletId sv) = a # as"
  shows "createAddress sv cr ex True st = (Inr a, st)"
  using assms
  by (simp add: createAddress_def canCreateAddress_def createAddressLocked_def getFirstAddress_def)


text \<open>Twenty receive addresses without recorded activity; the wallet and its next address,
  at path \<open>m/0/20\<close>; only \<open>A7\<close> has been seen by the second explorer.\<close>

lemma ex_gap_tail: "latestAddresses ex_gap_storage ''w1'' = map ex_gap_address [0..<20]"
  by (simp add: latestAddresses_def fetchAddresses_def takeRight_def ex_gap_storage_def
      empty_storage_def ex_gap_address_def filter_map o_def MAX_MAIN_ADDRESS_GAP_def)

lemma ex_gap_wallet:
  "getWallet ex_alice ex_gap_storage = Inr (ex_wallet\<lparr>receiveAddressIndex := 20\<rparr>)"
  "isComplete (ex_wallet\<lparr>receiveAddressIndex := 20\<rparr>)"
  "scanStatus (ex_wallet\<lparr>receiveAddressIndex := 20\<rparr>) \<noteq> Some ''error''"
  "\<not> singleAddress (ex_wallet\<lparr>receiveAddressIndex := 20\<rparr>)"
  "Wallet_createAddress ex_crypto (ex_wallet\<lparr>receiveAddressIndex := 20\<rparr>) =
     Some (\<lparr> a_address = ''ADDR@m/0/20'', a_walletId = ''w1'', a_path = ''m/0/20'',
              a_isChange = False, a_hasActivity = False \<rparr>,
           ex_wallet\<lparr>receiveAddressIndex := 21\<rparr>)"
  by (simp_all add: getWallet_def fetchWallet_def ex_gap_storage_def empty_storage_def
        isComplete_def Wallet_createAddress_def getNewAddressPath_def ex_wallet_def ex_crypto_def
        string_of_nat.simps)

lemma ex_gap_only_seven:
  "\<forall>a\<in>set (latestAddresses ex_gap_storage ''w1'').
      getAddressActivity ex_gap_explorer (a_address a) = Inr True \<longrightarrow> a = ex_gap_address 7"
  unfolding ex_gap_tail by code_simp


subsection \<open>C7: the backoff governor\<close>

text \<open>The histories of the example, as the storage returns them.\<close>

lemma ex_rejected_fields [simp]:
  "txp_walletId (ex_rejected i) = ''w1''"
  "txp_creatorId (ex_rejected i) = ''alice''"
  "txp_createdOn (ex_rejected i) = 1000 + int i"
  "txp_status (ex_rejected i) = Rejected"
  by (simp_all add: ex_rejected_def)

lemma ex_open_fields [simp]:
  "txp_walletId (ex_open i) = ''w1''"
  "txp_creatorId (ex_open i) = ''alice''"
  "txp_createdOn (ex_open i) = 1000 + int i"
  "txp_status (ex_open i) = Pending"
  by (simp_all add: ex_open_def)

lemma ex_history_11_last:
  "fetchLastTxs ex_history_11 ''w1'' ''alice'' 15 =
     [ex_rejected 10, ex_rejected 9, ex_rejected 8, ex_rejected 7, ex_rejected 6, ex_rejected 5,
      ex_rejected 4, ex_rejected 3, ex_rejected 2, ex_rejected 1, ex_rejected 0]"
  by (simp add: fetchLastTxs_def ex_history_11_def)

lemma ex_history_5_last:
  "fetchLastTxs ex_history_5 ''w1'' ''alice'' 15 =
     [ex_rejected 10, ex_rejected 9, ex_rejected 8, ex_rejected 7, ex_rejected 6, ex_open 5,
      ex_open 4, ex_open 3, ex_open 2, ex_open 1, ex_open 0]"
  by (simp add: fetchLastTxs_def ex_history_5_def)

text \<open>The answer of \<open>_canCreateTx\<close> as the code computes it, from the fifteen proposals
  fetched and the field \<open>createdOn\<close> of the first of them.\<close>

lemma canCreateTx_iff:
  "canCreateTx sv now st =
     (\<not> (BACKOFF_OFFSET <
            length (takeWhile (\<lambda>t. txp_status t = Rejected)
                      (fetchLastTxs st (sv_walletId sv) (sv_copayerId sv) 15)) \<and>
          now - txp_createdOn (hd (fetchLastTxs st (sv_walletId sv) (sv_copayerId sv) 15))
            \<le> BACKOFF_TIME))"
  by (auto simp add: canCreateTx_def Let_def BACKOFF_OFFSET_def)

lemma createTx_backoff_parts:
  assumes w: "getWallet sv st = Inr w" "isComplete w" "scanStatus w \<noteq> Some ''error''"
    and fresh: "\<forall>tx. checkTxpAlreadyExists sv (ct_txProposalId opts) st = Some tx \<longrightarrow>
                    txp_status tx = Temporary"
    and valid: "validation opts = None"
    and txs: "txs = fetchLastTxs st (sv_walletId sv) (sv_copayerId sv) 15"
    and n: "n = length (takeWhile (\<lambda>t. txp_status t = Rejected) txs)"
  shows "length txs \<le> 15"
    and "canCreateTx sv now st =
           (\<not> (BACKOFF_OFFSET < n \<and> now - txp_createdOn (hd txs) \<le> BACKOFF_TIME))"
    and "BACKOFF_OFFSET < n \<and> now - txp_createdOn (hd txs) \<le> BACKOFF_TIME \<longrightarrow>
           createTx sv now opts st = (Inl TX_CANNOT_CREATE, st)"
    and "canCreateTx sv now st \<and> composition opts \<noteq> Inl TX_CANNOT_CREATE \<longrightarrow>
           fst (createTx sv now opts st) \<noteq> Inl TX_CANNOT_CREATE"
    and "n \<le> BACKOFF_OFFSET \<longrightarrow> canCreateTx sv now st"
    and "\<forall>r. txp_createdOn (hd txs) \<le> r \<and> BACKOFF_TIME < now - r \<longrightarrow> canCreateTx sv now st"
    and "txs \<noteq> [] \<and> txp_status (hd txs) \<noteq> Rejected \<longrightarrow> canCreateTx sv now st"
    and "BACKOFF_OFFSET = 10 \<and> BACKOFF_TIME = 600"
proof -
  show "length txs \<le> 15" by (simp add: txs fetchLastTxs_def)
  show c: "canCreateTx sv now st =
           (\<not> (BACKOFF_OFFSET < n \<and> now - txp_createdOn (hd txs) \<le> BACKOFF_TIME))"
    unfolding n txs by (rule canCreateTx_iff)
  have stages: "createTx sv now opts st = createTxStages sv now w opts st"
    using w fresh by (simp add: createTx_def split: option.splits)
  show "BACKOFF_OFFSET < n \<and> now - txp_createdOn (hd txs) \<le> BACKOFF_TIME \<longrightarrow>
           createTx sv now opts st = (Inl TX_CANNOT_CREATE, st)"
    using c valid by (simp add: stages createTxStages_def)
  show "canCreateTx sv now st \<and> composition opts \<noteq> Inl TX_CANNOT_CREATE \<longrightarrow>
           fst (createTx sv now opts st) \<noteq> Inl TX_CANNOT_CREATE"
    using valid by (auto simp add: stages createTxStages_def Let_def split: sum.splits prod.splits)
  show "n \<le> BACKOFF_OFFSET \<longrightarrow> canCreateTx sv now st"
    unfolding c by auto
  show "\<forall>r. txp_createdOn (hd txs) \<le> r \<and> BACKOFF_TIME < now - r \<longrightarrow> canCreateTx sv now st"
    unfolding c by auto
  show "txs \<noteq> [] \<and> txp_status (hd txs) \<noteq> Rejected \<longrightarrow> canCreateTx sv now st"
    unfolding c n by (cases txs) (auto simp add: BACKOFF_OFFSET_def)
  show "BACKOFF_OFFSET = 10 \<and> BACKOFF_TIME = 600" by (simp add: BACKOFF_OFFSET_def BACKOFF_TIME_def)
qed


lemma ex_history_wallet:
  "getWallet ex_alice ex_history_11 = Inr ex_wallet"
  "getWallet ex_alice ex_history_5 = Inr ex_wallet"
  by (simp_all add: getWallet_def fetchWallet_def ex_history_11_def ex_history_5_def
        ex_wallet_storage_def empty_storage_def ex_alice_def ex_wallet_def)

lemma ex_wallet_ready: "isComplete ex_wallet" "scanStatus ex_wallet \<noteq> Some ''error''"
  by (simp_all add: isComplete_def ex_wallet_def)

lemma ex_create_tx_opts_fields:
  "\<forall>tx. checkTxpAlreadyExists ex_alice (ct_txProposalId ex_create_tx_opts) st = Some tx \<longrightarrow>
      txp_status tx = Temporary"
  "validation ex_create_tx_opts = None"
  by (simp_all add: checkTxpAlreadyExists_def ex_create_tx_opts_def)



subsection \<open>C1: publishing and the reservation of outputs\<close>

text \<open>The two drafts and what \<open>publishTx\<close> reads from them: the input \<open>U0|0|0\<close> has a
  message index and an output index of zero, which are falsy, so it is not among the inputs
  that \<open>publishTx\<close> checks.\<close>

lemma ex_zero_fields [simp]:
  "txp_id ex_zero_a = ''pa''" "txp_id ex_zero_b = ''pb''"
  "txp_walletId ex_zero_a = ''w1''" "txp_walletId ex_zero_b = ''w1''"
  "txp_status ex_zero_a = Temporary" "txp_status ex_zero_b = Temporary"
  "txp_unit ex_zero_a = ex_zero_unit" "txp_unit ex_zero_b = ex_zero_unit"
  "txp_creatorId ex_zero_a = ''alice''" "txp_creatorId ex_zero_b = ''alice''"
  by (simp_all add: ex_zero_a_def ex_zero_b_def TxProposal_create_def ex_opts_def)

lemma ex_zero_pending_fields [simp]:
  "txp_id ex_zero_a_pending = ''pa''" "txp_id ex_zero_b_pending = ''pb''"
  "txp_walletId ex_zero_a_pending = ''w1''" "txp_walletId ex_zero_b_pending = ''w1''"
  "txp_status ex_zero_a_pending = Pending" "txp_status ex_zero_b_pending = Pending"
  "txp_unit ex_zero_a_pending = ex_zero_unit" "txp_unit ex_zero_b_pending = ex_zero_unit"
  by (simp_all add: ex_zero_a_pending_def ex_zero_b_pending_def)

lemma ex_zero_keys:
  "paymentInputs ex_zero_a_pending = [ex_zero_input]"
  "paymentInputs ex_zero_b_pending = [ex_zero_input]"
  "inputKey ex_zero_input = ''U0|0|0''" "utxoKey ex_zero_utxo = ''U0|0|0''"
  "txpInputs (u_messages ex_zero_unit) = Inr []"
  by (simp_all add: paymentInputs_def ex_zero_unit_def ex_zero_input_def ex_zero_utxo_def
        inputKey_def utxoKey_def string_of_nat.simps truthy_number_def truthy_string_def)

lemma ex_alice_key:
  "getSigningKey ex_crypto (getUnitHashToSign ex_crypto u) ''HASH-TO-SIGN/RK-alice''
             (cp_requestPubKeys (ex_copayer ''alice'' ''xpubA'' ''devA''))
           = Inr (Some \<lparr> rk_key = ''RK-alice'', rk_signature = ''alice|xpubA|RK-alice/WPK'',
                           rk_selfSigned = False \<rparr>)"
  by (simp add: ex_copayer_def ex_crypto_def verifyMessage_def)

lemma ex_alice_copayer:
  "getCopayer ex_wallet ''alice'' = Some (ex_copayer ''alice'' ''xpubA'' ''devA'')"
  by (simp add: getCopayer_def ex_wallet_def ex_copayer_def)

text \<open>The first call publishes \<open>pa\<close>.\<close>

lemma ex_zero_run_a:
  "publishTx ex_alice ex_crypto ex_zero_hub 1100 ''pa'' ''HASH-TO-SIGN/RK-alice'' ex_zero_storage =
     (Inr ex_zero_a_pending, ex_zero_storage_a)"
proof -
  have w: "getWallet ex_alice ex_zero_storage = Inr ex_wallet"
    by (simp add: getWallet_def fetchWallet_def ex_zero_storage_def ex_wallet_storage_def
          empty_storage_def ex_wallet_def)
  have f: "fetchTx ex_zero_storage ''w1'' ''pa'' = Some ex_zero_a"
    by (simp add: fetchTx_def ex_zero_storage_def)
  have p: "fetchPendingTxs ex_zero_storage ''w1'' = []"
    by (simp add: fetchPendingTxs_def ex_zero_storage_def isPending_def)
  have b: "fetchBroadcastedTxs ex_zero_storage ''w1'' m l = []" for m l
    by (simp add: fetchBroadcastedTxs_def ex_zero_storage_def)
  have a: "fetchAddresses ex_zero_storage ''w1'' = [ex_address]"
    by (simp add: fetchAddresses_def ex_zero_storage_def ex_wallet_storage_def
        empty_storage_def ex_address_def)
  have u: "getUtxosForCurrentWallet ex_alice ex_zero_hub 1100 None ex_zero_storage
    = (Inr [ex_zero_utxo], ex_zero_storage)"
    by (simp add: getUtxosForCurrentWallet_def w a p b getPendingTxs_def markInputs_def
        ex_wallet_def ex_zero_hub_def ex_zero_utxo_def)
  have s: "storeTx ex_zero_storage ''w1'' ex_zero_a_pending
           = ex_wallet_storage\<lparr>st_txps := [ex_zero_a_pending, ex_zero_b]\<rparr>"
    by (simp add: storeTx_def ex_zero_storage_def)
  have t: "ex_zero_a\<lparr>proposalSignature := Some ''HASH-TO-SIGN/RK-alice'', txp_status := Pending\<rparr>
           = ex_zero_a_pending"
    by (simp add: ex_zero_a_pending_def)
  show ?thesis
    by (simp add: publishTx_def w f ex_alice_copayer ex_alice_key u
          ex_zero_keys isTemporary_def Let_def unavailable_def t s ex_zero_storage_a_def)
qed

lemma ex_zero_storage_a_fields:
  "st_wallets ex_zero_storage_a = [ex_wallet]"
  "st_addresses ex_zero_storage_a = [ex_address]"
  "st_txps ex_zero_storage_a = [ex_zero_a_pending, ex_zero_b]"
  by (simp_all add: ex_zero_storage_a_def notifyTxProposalAction_def notify_def
        storeNotification_def ex_wallet_storage_def empty_storage_def)

text \<open>After it the reservation view reports the output \<open>U0|0|0\<close> as locked.\<close>

lemma ex_zero_view_locked:
  "getUtxosForCurrentWallet ex_alice ex_zero_hub 1200 None ex_zero_storage_a =
     (Inr [ex_zero_utxo\<lparr>locked := True\<rparr>], ex_zero_storage_a)"
proof -
  have w: "getWallet ex_alice ex_zero_storage_a = Inr ex_wallet"
    by (simp add: getWallet_def fetchWallet_def ex_zero_storage_a_fields ex_wallet_def)
  have p: "fetchPendingTxs ex_zero_storage_a ''w1'' = [ex_zero_a_pending]"
    by (simp add: fetchPendingTxs_def ex_zero_storage_a_fields isPending_def)
  have b: "fetchBroadcastedTxs ex_zero_storage_a ''w1'' m l = []" for m l
    by (simp add: fetchBroadcastedTxs_def ex_zero_storage_a_fields)
  have a: "fetchAddresses ex_zero_storage_a ''w1'' = [ex_address]"
    by (simp add: fetchAddresses_def ex_zero_storage_a_fields ex_address_def)
  have g: "getPendingTxs ex_alice ex_zero_hub 1200 ex_zero_storage_a
             = (Inr [ex_zero_a_pending], ex_zero_storage_a)"
    by (simp add: getPendingTxs_def p)
  have h: "getUtxos ex_zero_hub as = Inr [ex_zero_utxo]" for as
    by (simp add: ex_zero_hub_def)
  have n: "ex_zero_utxo\<lparr>locked := False, spent := False\<rparr> = ex_zero_utxo"
    by (simp add: ex_zero_utxo_def)
  have m: "markInputs (\<lambda>u. u\<lparr>locked := True\<rparr>) [ex_zero_a_pending] [ex_zero_utxo]
            = [ex_zero_utxo\<lparr>locked := True\<rparr>]"
    by (simp add: markInputs_def ex_zero_keys)
  have sp: "\<not> spent ex_zero_utxo" by (simp add: ex_zero_utxo_def)
  have m0: "markInputs f [] us = us" for f us by (simp add: markInputs_def)
  have e: "scanStatus ex_wallet = None" "w_status ex_wallet = WComplete"
    by (simp_all add: ex_wallet_def)
  show ?thesis
    by (simp add: getUtxosForCurrentWallet_def w a g b h n m m0 sp e Let_def)
qed

text \<open>The second call publishes \<open>pb\<close> all the same.\<close>

lemma ex_zero_run_b:
  "publishTx ex_alice ex_crypto ex_zero_hub 1200 ''pb'' ''HASH-TO-SIGN/RK-alice'' ex_zero_storage_a =
     (Inr ex_zero_b_pending, ex_zero_storage_b)"
proof -
  have w: "getWallet ex_alice ex_zero_storage_a = Inr ex_wallet"
    by (simp add: getWallet_def fetchWallet_def ex_zero_storage_a_fields ex_wallet_def)
  have f: "fetchTx ex_zero_storage_a ''w1'' ''pb'' = Some ex_zero_b"
    by (simp add: fetchTx_def ex_zero_storage_a_fields)
  have s: "storeTx ex_zero_storage_a ''w1'' ex_zero_b_pending
           = ex_zero_storage_a\<lparr>st_txps := [ex_zero_a_pending, ex_zero_b_pending]\<rparr>"
    by (simp add: storeTx_def ex_zero_storage_a_fields)
  have t: "ex_zero_b\<lparr>proposalSignature := Some ''HASH-TO-SIGN/RK-alice'', txp_status := Pending\<rparr>
           = ex_zero_b_pending"
    by (simp add: ex_zero_b_pending_def)
  show ?thesis
    by (simp add: publishTx_def w f ex_alice_copayer
          ex_alice_key ex_zero_view_locked ex_zero_keys isTemporary_def Let_def unavailable_def t s
          ex_zero_storage_b_def)
qed

text \<open>
  C1 fails in the code for an input whose message index or output index is zero. The
  wallet holds two drafts that spend the same output \<open>U0|0|0\<close>. \<open>publishTx\<close> publishes
  the first; the reservation view then marks the output as locked by a pending proposal;
  \<open>publishTx\<close> nevertheless publishes the second instead of failing with
  \<open>UNAVAILABLE_UTXOS\<close>, and the wallet ends with two pending proposals that spend the
  same output.
\<close>

theorem publishTx_zero_index_double_spend:
  "map (\<lambda>t. (txp_id t, txp_status t, paymentInputs t)) (st_txps ex_zero_storage) =
     [(''pa'', Temporary, [ex_zero_input]), (''pb'', Temporary, [ex_zero_input])] \<and>
   publishTx ex_alice ex_crypto ex_zero_hub 1100 ''pa'' ''HASH-TO-SIGN/RK-alice'' ex_zero_storage =
     (Inr ex_zero_a_pending, ex_zero_storage_a) \<and>
   fst ex_zero_view = Inr [ex_zero_utxo\<lparr>locked := True\<rparr>] \<and>
   publishTx ex_alice ex_crypto ex_zero_hub 1200 ''pb'' ''HASH-TO-SIGN/RK-alice'' ex_zero_storage_a =
     (Inr ex_zero_b_pending, ex_zero_storage_b) \<and>
   map (\<lambda>t. (txp_id t, txp_status t, paymentInputs t)) (st_txps ex_zero_storage_b) =
     [(''pa'', Pending, [ex_zero_input]), (''pb'', Pending, [ex_zero_input])]"
proof -
  have i: "paymentInputs ex_zero_a = [ex_zero_input]" "paymentInputs ex_zero_b = [ex_zero_input]"
    by (simp_all add: paymentInputs_def ex_zero_unit_def)
  have 1: "map (\<lambda>t. (txp_id t, txp_status t, paymentInputs t)) (st_txps ex_zero_storage) =
     [(''pa'', Temporary, [ex_zero_input]), (''pb'', Temporary, [ex_zero_input])]"
    by (simp add: ex_zero_storage_def i)
  have b: "st_txps ex_zero_storage_b = [ex_zero_a_pending, ex_zero_b_pending]"
    by (simp add: ex_zero_storage_b_def)
  have 2: "map (\<lambda>t. (txp_id t, txp_status t, paymentInputs t)) (st_txps ex_zero_storage_b) =
     [(''pa'', Pending, [ex_zero_input]), (''pb'', Pending, [ex_zero_input])]"
    by (simp add: b ex_zero_keys)
  have 3: "fst ex_zero_view = Inr [ex_zero_utxo\<lparr>locked := True\<rparr>]"
    by (simp add: ex_zero_view_def ex_zero_view_locked)
  from 1 ex_zero_run_a 3 ex_zero_run_b 2 show ?thesis by (intro conjI)
qed

text \<open>With the output \<open>U1|1|2\<close>, whose indices are not zero, the second draft is refused
  and the storage is unchanged.\<close>

lemma publishTx_locked_input_refused:
  "publishTx ex_alice ex_crypto ex_hub_ok 1200 ''p2'' ''HASH-TO-SIGN/RK-alice'' ex_second_storage =
     (Inl UNAVAILABLE_UTXOS, ex_second_storage)"
proof -
  let ?p2 = "ex_created\<lparr>txp_id := ''p2''\<rparr>"
  have txps: "st_txps ex_second_storage = [ex_pending, ?p2]"
    "st_wallets ex_second_storage = [ex_wallet]" "st_addresses ex_second_storage = [ex_address]"
    by (simp_all add: ex_second_storage_def ex_pending_storage_def ex_storage_with_def storeTx_def
          ex_wallet_storage_def empty_storage_def)
  have w: "getWallet ex_alice ex_second_storage = Inr ex_wallet"
    by (simp add: getWallet_def fetchWallet_def txps ex_wallet_def)
  have f: "fetchTx ex_second_storage ''w1'' ''p2'' = Some ?p2"
    by (simp add: fetchTx_def txps)
  have p: "fetchPendingTxs ex_second_storage ''w1'' = [ex_pending]"
    by (simp add: fetchPendingTxs_def txps isPending_def)
  have b: "fetchBroadcastedTxs ex_second_storage ''w1'' m l = []" for m l
    by (simp add: fetchBroadcastedTxs_def txps)
  have a: "fetchAddresses ex_second_storage ''w1'' = [ex_address]"
    by (simp add: fetchAddresses_def txps ex_address_def)
  have g: "getPendingTxs ex_alice ex_hub_ok 1200 ex_second_storage
             = (Inr [ex_pending], ex_second_storage)"
    by (simp add: getPendingTxs_def p)
  have e: "scanStatus ex_wallet = None" "w_status ex_wallet = WComplete"
    by (simp_all add: ex_wallet_def)
  have k: "paymentInputs ex_pending =
             [\<lparr> in_unit = Some ''U1'', in_message_index = Some 1, in_output_index = Some 2 \<rparr>]"
    by (simp add: paymentInputs_def ex_unit_def)
  have h: "getUtxos ex_hub_ok as =
      Inr [\<lparr> utxo_unit = ''U1'', utxo_message_index = 1, utxo_output_index = 2,
               utxo_address = ''ADDR1'', utxo_amount = 1000, locked = False, spent = False \<rparr>]" for as
    by (simp add: ex_hub_ok_def)
  have ik: "inputKey \<lparr> in_unit = Some ''U1'', in_message_index = Some 1, in_output_index = Some 2 \<rparr>
              = ''U1|1|2''"
    by (simp add: inputKey_def string_of_nat.simps)
  have uk: "utxoKey \<lparr> utxo_unit = ''U1'', utxo_message_index = 1, utxo_output_index = 2,
               utxo_address = ''ADDR1'', utxo_amount = 1000, locked = False, spent = False \<rparr>
              = ''U1|1|2''"
    by (simp add: utxoKey_def string_of_nat.simps)
  have m: "markInputs (\<lambda>u. u\<lparr>locked := True\<rparr>) [ex_pending]
             [\<lparr> utxo_unit = ''U1'', utxo_message_index = 1, utxo_output_index = 2,
               utxo_address = ''ADDR1'', utxo_amount = 1000, locked = False, spent = False \<rparr>]
           = [\<lparr> utxo_unit = ''U1'', utxo_message_index = 1, utxo_output_index = 2,
               utxo_address = ''ADDR1'', utxo_amount = 1000, locked = True, spent = False \<rparr>]"
    unfolding markInputs_def using ik uk by (simp add: k)
  have m0: "markInputs f [] us = us" for f us by (simp add: markInputs_def)
  have u: "getUtxosForCurrentWallet ex_alice ex_hub_ok 1200 None ex_second_storage
    = (Inr [\<lparr> utxo_unit = ''U1'', utxo_message_index = 1, utxo_output_index = 2,
               utxo_address = ''ADDR1'', utxo_amount = 1000, locked = True, spent = False \<rparr>],
       ex_second_storage)"
    unfolding getUtxosForCurrentWallet_def using m by (simp add: w a g b e h m0 Let_def)
  have i: "txpInputs (u_messages ex_unit) = Inr [''U1|1|2'']"
    by (simp add: ex_unit_def inputKey_def truthy_string_def truthy_number_def
        string_of_nat.simps)
  have n: "unavailable [\<lparr> utxo_unit = ''U1'', utxo_message_index = 1, utxo_output_index = 2,
               utxo_address = ''ADDR1'', utxo_amount = 1000, locked = True, spent = False \<rparr>]
              [''U1|1|2'']"
    by (simp add: unavailable_def keyBy_def utxoKey_def string_of_nat.simps)
  show ?thesis
    using n by (simp add: publishTx_def w f ex_alice_copayer ex_alice_key u i isTemporary_def Let_def)
qed

subsection \<open>C9: stable units and confirmation subscriptions\<close>

text \<open>Neither stage touches the subscriptions or the notification log.\<close>

lemma markStable_keeps:
  "st_subs (snd (markStable now rows st)) = st_subs st \<and>
   st_notifications (snd (markStable now rows st)) = st_notifications st"
  by (induction rows arbitrary: st) (simp_all add: storeTx_def split: option.splits sum.splits)

lemma fireSubs_keeps: "snd (fireSubs rows st) = st"
  by (simp add: fireSubs_def Let_def split: list.splits)

lemma handleStableJoint_keeps:
  "st_subs (snd (handleStableJoint now rows st)) = st_subs st \<and>
   st_notifications (snd (handleStableJoint now rows st)) = st_notifications st"
proof (cases "markStable now rows st")
  case (Pair r st')
  with markStable_keeps [of now rows st] fireSubs_keeps [of rows st'] show ?thesis
    by (cases r) (simp_all add: handleStableJoint_def)
qed

text \<open>The proposal of the example is found by the hash of its unit.\<close>

lemma ex_sub_fetch: "fetchTxByHash ex_sub_storage ''UNIT-HASH'' = Some ex_broadcasted"
  by (simp add: fetchTxByHash_def ex_sub_storage_def ex_storage_with_def storeTx_def
        ex_wallet_storage_def empty_storage_def ex_broadcasted_def ex_accepted_def)

text \<open>
  C9 fails in the code. The unit \<open>UNIT-HASH\<close> of a broadcast proposal becomes stable while
  alice holds an active subscription to it. The monitor marks the proposal as stable (its
  status stays \<open>broadcasted\<close>) and then stops with a \<open>ReferenceError\<close>: no
  \<open>TxConfirmation\<close> notification is stored and the subscription is still active. For every
  list of stable units and every storage the monitor leaves the subscriptions and the
  notification log as they were.
\<close>

theorem handleStableJoint_no_confirmation:
  "fetchActiveTxConfirmationSubs ex_sub_storage = [ex_sub] \<and>
   fetchTxByHash ex_sub_storage (sub_txid ex_sub) = Some ex_broadcasted \<and>
   handleStableJoint 3000 [''UNIT-HASH''] ex_sub_storage =
     (Inl (Thrown ''ReferenceError''), storeTx ex_sub_storage ''w1'' ex_stable) \<and>
   st_notifications (storeTx ex_sub_storage ''w1'' ex_stable) = [] \<and>
   fetchActiveTxConfirmationSubs (storeTx ex_sub_storage ''w1'' ex_stable) = [ex_sub] \<and>
   txp_status ex_stable = Broadcasted \<and>
   st_subs (snd (handleStableJoint now rows st)) = st_subs st \<and>
   st_notifications (snd (handleStableJoint now rows st)) = st_notifications st"
proof -
  have a: "fetchActiveTxConfirmationSubs ex_sub_storage = [ex_sub]"
    by (simp add: fetchActiveTxConfirmationSubs_def ex_sub_storage_def ex_sub_def)
  have s: "setStable 3000 ex_broadcasted = Inr ex_stable"
    by (simp add: setStable_def ex_stable_def ex_broadcasted_def ex_accepted_def)
  have w: "txp_walletId ex_stable = ''w1''"
    by (simp add: ex_stable_def ex_broadcasted_def ex_accepted_def)
  have a': "fetchActiveTxConfirmationSubs (storeTx ex_sub_storage ''w1'' ex_stable) = [ex_sub]"
    by (simp add: fetchActiveTxConfirmationSubs_def storeTx_def ex_sub_storage_def ex_sub_def)
  have i: "indexedSubs [ex_sub] ''UNIT-HASH'' = Some ex_sub"
    by (simp add: indexedSubs_def ex_sub_def)
  have f: "fireSubs [''UNIT-HASH''] (storeTx ex_sub_storage ''w1'' ex_stable) =
             (Inl (Thrown ''ReferenceError''), storeTx ex_sub_storage ''w1'' ex_stable)"
    by (simp add: fireSubs_def a' i)
  have m: "markStable 3000 [''UNIT-HASH''] ex_sub_storage =
             (Inr (), storeTx ex_sub_storage ''w1'' ex_stable)"
    by (simp add: ex_sub_fetch s w)
  have h: "handleStableJoint 3000 [''UNIT-HASH''] ex_sub_storage =
     (Inl (Thrown ''ReferenceError''), storeTx ex_sub_storage ''w1'' ex_stable)"
    by (simp add: handleStableJoint_def m f del: markStable.simps)
  have n: "st_notifications (storeTx ex_sub_storage ''w1'' ex_stable) = []"
    by (simp add: ex_sub_storage_def)
  have t: "txp_status ex_stable = Broadcasted"
    by (simp add: ex_stable_def ex_broadcasted_def)
  have x: "sub_txid ex_sub = ''UNIT-HASH''" by (simp add: ex_sub_def)
  from a ex_sub_fetch h n a' t handleStableJoint_keeps [of now rows st] show ?thesis
    unfolding x by (intro conjI) simp_all
qed

subsection \<open>C10: authentication by signature\<close>

text \<open>\<open>_getSigningKey\<close> on a message that is not empty: it finds a key exactly when the
  signature verifies under some key of the list. On the empty message the verification
  raises an exception.\<close>

lemma getSigningKey_some:
  "text \<noteq> [] \<Longrightarrow> \<exists>k\<in>set ks. secp256k1Verify cr text sig (rk_key k) \<Longrightarrow>
     \<exists>k. getSigningKey cr text sig ks = Inr (Some k)"
  by (induction ks) (auto simp add: verifyMessage_def)

lemma getSigningKey_none:
  "text \<noteq> [] \<Longrightarrow> \<forall>k\<in>set ks. \<not> secp256k1Verify cr text sig (rk_key k) \<Longrightarrow>
     getSigningKey cr text sig ks = Inr None"
  by (induction ks) (auto simp add: verifyMessage_def)

lemma getSigningKey_empty_message:
  "ks \<noteq> [] \<Longrightarrow> getSigningKey cr [] sig ks = Inl (Thrown ''checkArgument'')"
  by (cases ks) (simp_all add: verifyMessage_def)

text \<open>
  C10. A request without session that has a copayer id, a message and a signature, from a
  supported client, for a copayer with a lookup record. If the record is marked
  \<open>isSupportStaff\<close>, authentication succeeds with a result in which neither the message
  nor the signature nor the verification function occurs: the instance works on the wallet
  id of the request when one is given and on the wallet of the record otherwise, as
  support staff. If the record is not so marked and the message is not empty,
  authentication succeeds on the wallet of the record when the signature verifies under
  some key of the request key history, and fails with \<open>NOT_AUTHORIZED\<close>,
  \<open>Invalid signature\<close>, when it verifies under none.
\<close>

theorem getInstanceWithAuth_signature:
  assumes "\<not> truthy_string (ao_session opts)"
    and "ao_copayerId opts = Some cid" and "ao_message opts = Some msg"
    and "ao_signature opts = Some sig"
    and "getInstance (ao_clientVersion opts) = Inr ()"
    and "fetchCopayerLookup st cid = Some l"
  shows "(cl_isSupportStaff l \<longrightarrow>
            getInstanceWithAuth cr getSession opts st =
              Inr \<lparr> sv_walletId = (case ao_walletId opts of
                                      None \<Rightarrow> cl_walletId l
                                    | Some w \<Rightarrow> if w = [] then cl_walletId l else w),
                    sv_copayerId = cid, copayerIsSupportStaff = True \<rparr>) \<and>
         (\<not> cl_isSupportStaff l \<and> msg \<noteq> [] \<longrightarrow>
            ((\<exists>k\<in>set (cl_requestPubKeys l). secp256k1Verify cr msg sig (rk_key k)) \<longrightarrow>
               getInstanceWithAuth cr getSession opts st =
                 Inr \<lparr> sv_walletId = cl_walletId l, sv_copayerId = cid,
                       copayerIsSupportStaff = False \<rparr>) \<and>
            ((\<forall>k\<in>set (cl_requestPubKeys l). \<not> secp256k1Verify cr msg sig (rk_key k)) \<longrightarrow>
               getInstanceWithAuth cr getSession opts st = Inl (NOT_AUTHORIZED ''Invalid signature'')))"
proof -
  have req: "checkRequired [(''copayerId'', ao_copayerId opts), (''message'', ao_message opts),
                          (''signature'', ao_signature opts)] = None"
    using assms(2-4) by (simp add: checkRequired_def)
  have sig: "getInstanceWithAuth cr getSession opts st = withSignature cr opts st"
    using assms(1) by (simp add: getInstanceWithAuth_def)
  show ?thesis
  proof (intro conjI impI)
    assume "cl_isSupportStaff l"
    then show "getInstanceWithAuth cr getSession opts st =
              Inr \<lparr> sv_walletId = (case ao_walletId opts of
                                      None \<Rightarrow> cl_walletId l
                                    | Some w \<Rightarrow> if w = [] then cl_walletId l else w),
                    sv_copayerId = cid, copayerIsSupportStaff = True \<rparr>"
      using assms(2,5,6) req
      by (simp add: sig withSignature_def truthy_string_def split: option.splits)
  next
    assume a: "\<not> cl_isSupportStaff l \<and> msg \<noteq> []"
      and v: "\<exists>k\<in>set (cl_requestPubKeys l). secp256k1Verify cr msg sig (rk_key k)"
    from a v obtain k where "getSigningKey cr msg sig (cl_requestPubKeys l) = Inr (Some k)"
      using getSigningKey_some by blast
    then show "getInstanceWithAuth cr getSession opts st =
                 Inr \<lparr> sv_walletId = cl_walletId l, sv_copayerId = cid,
                       copayerIsSupportStaff = False \<rparr>"
      using a assms(2-6) req by (simp add: sig withSignature_def)
  next
    assume a: "\<not> cl_isSupportStaff l \<and> msg \<noteq> []"
      and v: "\<forall>k\<in>set (cl_requestPubKeys l). \<not> secp256k1Verify cr msg sig (rk_key k)"
    from a v have "getSigningKey cr msg sig (cl_requestPubKeys l) = Inr None"
      using getSigningKey_none by blast
    then show "getInstanceWithAuth cr getSession opts st = Inl (NOT_AUTHORIZED ''Invalid signature'')"
      using a assms(2-6) req by (simp add: sig withSignature_def)
  qed
qed

text \<open>The empty message is not verified at all: \<open>Utils.verifyMessage\<close> begins with
  \<open>$.checkArgument(text)\<close>, which raises an exception. The message of a request that
  arrives over HTTP is never empty: it is the method, the URL and the body, joined by
  bars.\<close>

lemma withSignature_empty_message:
  assumes "\<not> truthy_string (ao_session opts)"
    and "ao_copayerId opts = Some cid" and "ao_message opts = Some []"
    and "ao_signature opts = Some sig"
    and "getInstance (ao_clientVersion opts) = Inr ()"
    and "fetchCopayerLookup st cid = Some l"
    and "\<not> cl_isSupportStaff l" and "cl_requestPubKeys l \<noteq> []"
  shows "getInstanceWithAuth cr getSession opts st = Inl (Thrown ''checkArgument'')"
proof -
  have req: "checkRequired [(''copayerId'', ao_copayerId opts), (''message'', ao_message opts),
                          (''signature'', ao_signature opts)] = None"
    using assms(2-4) by (simp add: checkRequired_def)
  show ?thesis
    using assms req getSigningKey_empty_message [OF assms(8), of cr sig]
    by (simp add: getInstanceWithAuth_def withSignature_def)
qed

text \<open>The requests of the example.\<close>

lemma ex_auth_lookup:
  "fetchCopayerLookup ex_auth_storage ''alice'' = Some ex_lookup_alice"
  "fetchCopayerLookup ex_auth_storage ''dave'' = Some ex_lookup_dave"
  by (simp_all add: fetchCopayerLookup_def ex_auth_storage_def ex_lookup_alice_def ex_lookup_dave_def)

lemma ex_request_fields:
  "\<not> truthy_string (ao_session (ex_request c s w))"
  "ao_copayerId (ex_request c s w) = Some c"
  "ao_message (ex_request c s w) = Some ''get|/v1/txproposals/|{}''"
  "ao_signature (ex_request c s w) = Some s"
  "getInstance (ao_clientVersion (ex_request c s w)) = Inr ()"
  "ao_walletId (ex_request c s w) = w"
  by (simp_all add: ex_request_def truthy_string_def getInstance_def)

text \<open>Dave of the support staff is let in with a forged signature, on the wallet he names;
  alice is let in with her signature only, and on her own wallet whatever she names.\<close>

theorem getInstanceWithAuth_signature_witness:
  "getInstanceWithAuth ex_crypto (\<lambda>c. None) (ex_request ''dave'' ''forged'' (Some ''w1'')) ex_auth_storage
     = Inr \<lparr> sv_walletId = ''w1'', sv_copayerId = ''dave'', copayerIsSupportStaff = True \<rparr> \<and>
   getInstanceWithAuth ex_crypto (\<lambda>c. None) (ex_request ''dave'' ''forged'' None) ex_auth_storage
     = Inr \<lparr> sv_walletId = ''w0'', sv_copayerId = ''dave'', copayerIsSupportStaff = True \<rparr> \<and>
   getInstanceWithAuth ex_crypto (\<lambda>c. None)
       (ex_request ''alice'' ''get|/v1/txproposals/|{}/RK-alice'' (Some ''w0'')) ex_auth_storage
     = Inr \<lparr> sv_walletId = ''w1'', sv_copayerId = ''alice'', copayerIsSupportStaff = False \<rparr> \<and>
   getInstanceWithAuth ex_crypto (\<lambda>c. None) (ex_request ''alice'' ''forged'' None) ex_auth_storage
     = Inl (NOT_AUTHORIZED ''Invalid signature'')"
proof -
  note D1 = getInstanceWithAuth_signature
      [OF ex_request_fields(1-5) [of "''dave''" "''forged''" "Some ''w1''"] ex_auth_lookup(2),
       where cr = ex_crypto and getSession = "\<lambda>c. None"]
  note D2 = getInstanceWithAuth_signature
      [OF ex_request_fields(1-5) [of "''dave''" "''forged''" "None"] ex_auth_lookup(2),
       where cr = ex_crypto and getSession = "\<lambda>c. None"]
  note A1 = getInstanceWithAuth_signature
      [OF ex_request_fields(1-5) [of "''alice''" "''get|/v1/txproposals/|{}/RK-alice''" "Some ''w0''"] ex_auth_lookup(1),
       where cr = ex_crypto and getSession = "\<lambda>c. None"]
  note A2 = getInstanceWithAuth_signature
      [OF ex_request_fields(1-5) [of "''alice''" "''forged''" "None"] ex_auth_lookup(1),
       where cr = ex_crypto and getSession = "\<lambda>c. None"]
  have 1: "getInstanceWithAuth ex_crypto (\<lambda>c. None) (ex_request ''dave'' ''forged'' (Some ''w1'')) ex_auth_storage
     = Inr \<lparr> sv_walletId = ''w1'', sv_copayerId = ''dave'', copayerIsSupportStaff = True \<rparr>"
    using D1 by (simp add: ex_lookup_dave_def ex_request_fields)
  have 2: "getInstanceWithAuth ex_crypto (\<lambda>c. None) (ex_request ''dave'' ''forged'' None) ex_auth_storage
     = Inr \<lparr> sv_walletId = ''w0'', sv_copayerId = ''dave'', copayerIsSupportStaff = True \<rparr>"
    using D2 by (simp add: ex_lookup_dave_def ex_request_fields)
  have 3: "getInstanceWithAuth ex_crypto (\<lambda>c. None)
       (ex_request ''alice'' ''get|/v1/txproposals/|{}/RK-alice'' (Some ''w0'')) ex_auth_storage
     = Inr \<lparr> sv_walletId = ''w1'', sv_copayerId = ''alice'', copayerIsSupportStaff = False \<rparr>"
    using A1 by (simp add: ex_lookup_alice_def ex_crypto_def)
  have 4: "getInstanceWithAuth ex_crypto (\<lambda>c. None) (ex_request ''alice'' ''forged'' None) ex_auth_storage
     = Inl (NOT_AUTHORIZED ''Invalid signature'')"
    using A2 by (simp add: ex_lookup_alice_def ex_crypto_def)
  from 1 2 3 4 show ?thesis by (intro conjI)
qed

end
